theory Spec2Isabelle
  imports Main "HOL-Library.AList"
begin

section \<open>Pod synthesis of the workflow controller (workflow/controller/workflowpod.go)\<close>

text \<open>
  A shallow embedding of \<^verbatim>\<open>createWorkflowPod\<close> and of the helpers it calls. Go structs are
  records, a nil pointer or nil slice whose nil-ness the code tests is an \<open>option\<close>, the
  template's variant is a tagged union. The embedding follows the containers, init
  containers, volumes, deadline and process-namespace fields of the pod; labels,
  annotations, owner references, image pull secrets, DNS and scheduling fields are outside
  it: \<^verbatim>\<open>addSchedulingConstraints\<close>, \<^verbatim>\<open>addMetadata\<close> and \<^verbatim>\<open>scheduleOnDifferentHost\<close> only write
  those fields. Functions of other packages (JSON, template substitution, the strategic
  merge, the cluster client, the clock) are fields of the operation context.
\<close>

subsection \<open>Kubernetes core types, as far as the controller touches them\<close>

record EnvVar =
  ev_Name :: string
  ev_Value :: string
  ev_FieldRef :: "(string \<times> string) option"

record VolumeMount =
  vm_Name :: string
  vm_MountPath :: string
  vm_SubPath :: string
  vm_ReadOnly :: bool

record KeyToPath =
  kp_Key :: string
  kp_Path :: string

record SecretVolumeSource =
  svs_SecretName :: string
  svs_Items :: "KeyToPath list"

datatype VolumeSource =
    EmptyDir
  | HostPath string "string option"
  | Secret SecretVolumeSource
  | OtherSource string

record Volume =
  v_Name :: string
  v_VolumeSource :: VolumeSource

record ResourceRequirements =
  rr_Limits :: "(string \<times> string) list"
  rr_Requests :: "(string \<times> string) list"

record SecurityContext =
  sc_Privileged :: "bool option"
  sc_CapabilitiesAdd :: "string list"

record Container =
  c_Name :: string
  c_Image :: string
  c_ImagePullPolicy :: string
  c_Command :: "string list"
  c_Args :: "string list option"
  c_Env :: "EnvVar list"
  c_VolumeMounts :: "VolumeMount list"
  c_Resources :: ResourceRequirements
  c_SecurityContext :: "SecurityContext option"

record PodSpec =
  ps_Volumes :: "Volume list"
  ps_InitContainers :: "Container list"
  ps_Containers :: "Container list"
  ps_ActiveDeadlineSeconds :: "int option"
  ps_ShareProcessNamespace :: "bool option"
  ps_ServiceAccountName :: string
  ps_AutomountServiceAccountToken :: "bool option"

record Pod =
  pod_Name :: string
  pod_Namespace :: string
  pod_DefaultContainer :: string
  pod_OnExit :: bool
  pod_Spec :: PodSpec

record SecretKeySelector =
  sks_Name :: string
  sks_Key :: string

subsection \<open>Workflow types\<close>

datatype IntOrString = IntVal int | StrVal string

record S3Artifact =
  s3_AccessKeySecret :: "SecretKeySelector option"
  s3_SecretKeySecret :: "SecretKeySelector option"

record GitArtifact =
  git_UsernameSecret :: "SecretKeySelector option"
  git_PasswordSecret :: "SecretKeySelector option"
  git_SSHPrivateKeySecret :: "SecretKeySelector option"

record ArtifactoryArtifact =
  arty_UsernameSecret :: "SecretKeySelector option"
  arty_PasswordSecret :: "SecretKeySelector option"

record HDFSArtifact =
  hdfs_KrbCCacheSecret :: "SecretKeySelector option"
  hdfs_KrbKeytabSecret :: "SecretKeySelector option"

record OSSArtifact =
  oss_AccessKeySecret :: "SecretKeySelector option"
  oss_SecretKeySecret :: "SecretKeySelector option"

record GCSArtifact =
  gcs_ServiceAccountKeySecret :: "SecretKeySelector option"

record ArtifactLocation =
  al_ArchiveLogs :: "bool option"
  al_S3 :: "S3Artifact option"
  al_Git :: "GitArtifact option"
  al_Artifactory :: "ArtifactoryArtifact option"
  al_HDFS :: "HDFSArtifact option"
  al_OSS :: "OSSArtifact option"
  al_GCS :: "GCSArtifact option"

text \<open>\<^verbatim>\<open>wfv1.Artifact\<close> embeds \<^verbatim>\<open>ArtifactLocation\<close>: the record extends it.\<close>

record Artifact = ArtifactLocation +
  art_Name :: string
  art_Path :: string
  art_Optional :: bool

record Parameter =
  par_Name :: string
  par_Value :: "string option"

record UserContainer =
  uc_Container :: Container
  uc_MirrorVolumeMounts :: "bool option"

record ContainerSetTemplate =
  cs_VolumeMounts :: "VolumeMount list"
  cs_Containers :: "Container list"

record ScriptTemplate =
  script_Container :: Container
  script_Source :: string

record DataTemplate =
  data_ArtifactIfNeeded :: "Artifact option"

datatype TemplateType =
    TemplateTypeContainer
  | TemplateTypeContainerSet
  | TemplateTypeSteps
  | TemplateTypeDAG
  | TemplateTypeScript
  | TemplateTypeResource
  | TemplateTypeSuspend
  | TemplateTypeData
  | TemplateTypeUnknown

text \<open>
  The variant part of a template: exactly one of the members \<^verbatim>\<open>Container\<close>,
  \<^verbatim>\<open>ContainerSet\<close>, \<^verbatim>\<open>Script\<close>, \<^verbatim>\<open>Resource\<close>, \<^verbatim>\<open>Data\<close>, \<^verbatim>\<open>Steps\<close>, \<^verbatim>\<open>DAG\<close>, \<^verbatim>\<open>Suspend\<close> of a
  validated template is set, so the members are one tagged union.
\<close>

datatype TemplateBody =
    BContainer Container
  | BContainerSet ContainerSetTemplate
  | BSteps
  | BDAG
  | BScript ScriptTemplate
  | BResource
  | BSuspend
  | BData DataTemplate
  | BUnknown

record ExecutorConfig =
  ec_ServiceAccountName :: string

record Template =
  tmpl_Name :: string
  tmpl_Body :: TemplateBody
  tmpl_InputParameters :: "Parameter list"
  tmpl_InputArtifacts :: "Artifact list"
  tmpl_OutputArtifacts :: "Artifact list"
  tmpl_Volumes :: "Volume list"
  tmpl_InitContainers :: "UserContainer list"
  tmpl_Sidecars :: "UserContainer list"
  tmpl_ArchiveLocation :: "ArtifactLocation option"
  tmpl_ActiveDeadlineSeconds :: "IntOrString option"
  tmpl_Executor :: "ExecutorConfig option"
  tmpl_ServiceAccountName :: string
  tmpl_AutomountServiceAccountToken :: "bool option"
  tmpl_NodeSelector :: "(string \<times> string) list"
  tmpl_PodSpecPatch :: string


record NodeStatus =
  node_ID :: string
  node_Name :: string

record WorkflowSpec =
  wfs_ServiceAccountName :: string
  wfs_AutomountServiceAccountToken :: "bool option"
  wfs_Executor :: "ExecutorConfig option"
  wfs_ArchiveLogs :: "bool option"
  wfs_PodSpecPatch :: string

subsection \<open>Errors and results\<close>

text \<open>
  The error values of the code: \<^verbatim>\<open>errors.Errorf(code, format, args)\<close>,
  \<^verbatim>\<open>errors.Wrap(err, code, message)\<close>, \<^verbatim>\<open>errors.InternalWrapError(err)\<close>, \<^verbatim>\<open>fmt.Errorf\<close> without and
  with \<^verbatim>\<open>%w\<close>, the sentinel \<^verbatim>\<open>ErrResourceRateLimitReached\<close>, and the errors collaborators
  return. A message is kept as its format string and its arguments. The code passes the
  codes \<^verbatim>\<open>errors.CodeBadRequest\<close> and the empty code; \<^verbatim>\<open>InternalWrapError\<close> stands for the
  internal code.
\<close>

datatype ErrorCode = CodeBadRequest | CodeInternal | CodeEmpty

datatype error =
    ArgoError ErrorCode string "string list"
  | ArgoWrap error ErrorCode string
  | InternalWrapError error
  | FmtError string "string list"
  | FmtWrap string "string list" error
  | ErrResourceRateLimitReached
  | External string

text \<open>
  What one invocation of \<^verbatim>\<open>createWorkflowPod\<close> ends with: the Go results \<^verbatim>\<open>(pod, nil)\<close> with a
  possibly nil pod, \<^verbatim>\<open>(nil, err)\<close>, or a panic. A step of the function either goes on with a
  value or ends the invocation.
\<close>

datatype result = Returned "Pod option" | Failed error | Panicked string

datatype 'a step = Next 'a | Stop result

subsection \<open>Constants of package common\<close>

text \<open>
  Modelled from the spec: the constants of package \<^verbatim>\<open>common\<close> are not under src/. The spec
  speaks of the canonical main name, the wait and init containers and the fixed paths;
  the values are those of the package.
\<close>

definition MainContainerName :: string where "MainContainerName = ''main''"
definition WaitContainerName :: string where "WaitContainerName = ''wait''"
definition InitContainerName :: string where "InitContainerName = ''init''"
definition DockerSockVolumeName :: string where "DockerSockVolumeName = ''docker-sock''"
definition KubeConfigDefaultVolumeName :: string where "KubeConfigDefaultVolumeName = ''kubeconfig''"
definition KubeConfigDefaultMountPath :: string where "KubeConfigDefaultMountPath = ''/kube/config''"
definition ServiceAccountTokenVolumeName :: string where
  "ServiceAccountTokenVolumeName = ''exec-sa-token''"
definition ServiceAccountTokenMountPath :: string where
  "ServiceAccountTokenMountPath = ''/var/run/secrets/kubernetes.io/serviceaccount''"
definition ExecutorArtifactBaseDir :: string where "ExecutorArtifactBaseDir = ''/argo/inputs/artifacts''"
definition ExecutorMainFilesystemDir :: string where "ExecutorMainFilesystemDir = ''/mainctrfs''"
definition ExecutorStagingEmptyDir :: string where "ExecutorStagingEmptyDir = ''/argo/staging''"
definition SecretVolMountPath :: string where "SecretVolMountPath = ''/argo/secret''"
definition ArgoProgressPath :: string where "ArgoProgressPath = ''/var/run/argo/progress''"
definition LocalVarPodName :: string where "LocalVarPodName = ''pod.name''"
definition EnvVarTemplate :: string where "EnvVarTemplate = ''ARGO_TEMPLATE''"
definition EnvVarIncludeScriptOutput :: string where
  "EnvVarIncludeScriptOutput = ''ARGO_INCLUDE_SCRIPT_OUTPUT''"
definition EnvVarDeadline :: string where "EnvVarDeadline = ''ARGO_DEADLINE''"
definition EnvVarProgressFile :: string where "EnvVarProgressFile = ''ARGO_PROGRESS_FILE''"
definition EnvVarProgressPatchTickDuration :: string where
  "EnvVarProgressPatchTickDuration = ''ARGO_PROGRESS_PATCH_TICK_DURATION''"
definition EnvVarProgressFileTickDuration :: string where
  "EnvVarProgressFileTickDuration = ''ARGO_PROGRESS_FILE_TICK_DURATION''"
definition EnvVarContainerName :: string where "EnvVarContainerName = ''ARGO_CONTAINER_NAME''"
definition EnvVarPodName :: string where "EnvVarPodName = ''ARGO_POD_NAME''"
definition EnvVarContainerRuntimeExecutor :: string where
  "EnvVarContainerRuntimeExecutor = ''ARGO_CONTAINER_RUNTIME_EXECUTOR''"
definition EnvVarWorkflowName :: string where "EnvVarWorkflowName = ''ARGO_WORKFLOW_NAME''"
definition EnvVarDownwardAPINodeIP :: string where "EnvVarDownwardAPINodeIP = ''ARGO_KUBELET_HOST''"
definition EnvVarKubeletPort :: string where "EnvVarKubeletPort = ''ARGO_KUBELET_PORT''"
definition EnvVarKubeletInsecure :: string where "EnvVarKubeletInsecure = ''ARGO_KUBELET_INSECURE''"
definition ContainerRuntimeExecutorDocker :: string where "ContainerRuntimeExecutorDocker = ''docker''"
definition ContainerRuntimeExecutorKubelet :: string where
  "ContainerRuntimeExecutorKubelet = ''kubelet''"
definition ContainerRuntimeExecutorPNS :: string where "ContainerRuntimeExecutorPNS = ''pns''"
definition ContainerRuntimeExecutorEmissary :: string where
  "ContainerRuntimeExecutorEmissary = ''emissary''"
definition NodeSkipped :: string where "NodeSkipped = ''Skipped''"

subsection \<open>The controller and the operation context\<close>

type_synonym time = int

record KubeConfig =
  kc_SecretName :: string
  kc_SecretKey :: string
  kc_VolumeName :: string
  kc_MountPath :: string

record Image =
  img_Command :: "string list"
  img_Args :: "string list option"

record Config =
  cfg_MainContainer :: "Container option"
  cfg_Executor :: "Container option"
  cfg_ExecutorResources :: "ResourceRequirements option"
  cfg_KubeConfig :: "KubeConfig option"
  cfg_DockerSockPath :: string
  cfg_Images :: "(string \<rightharpoonup> Image) option"
  cfg_KubeletPort :: int
  cfg_KubeletInsecure :: bool

datatype obj = PodObj Pod | OtherObj

text \<open>
  The controller: its configuration and its clients. \<^verbatim>\<open>ctl_rateLimiterAllow\<close> is what
  \<^verbatim>\<open>rateLimiter.Allow()\<close> answers in this invocation, \<^verbatim>\<open>ctl_podsCreate\<close> what the create call of
  the cluster client returns for a pod (a possibly nil object and a possibly nil error),
  \<^verbatim>\<open>ctl_podInformerByIndex\<close> the lookup in the informer's index.
\<close>

record WorkflowController =
  ctl_Config :: Config
  ctl_executorImage :: string
  ctl_executorImagePullPolicy :: string
  ctl_progressPatchTickDuration :: int
  ctl_progressFileTickDuration :: int
  ctl_rateLimiterAllow :: bool
  ctl_podsCreate :: "Pod \<Rightarrow> Pod option \<times> error option"
  ctl_podInformerByIndex :: "string \<Rightarrow> error + obj list"

text \<open>
  Functions of the standard library and of packages outside this file, taken as they
  answer during one invocation. \<^verbatim>\<open>x_secondsUntil t\<close> is
  \<^verbatim>\<open>int64(t.Sub(time.Now().UTC()).Seconds())\<close> at line 186, \<^verbatim>\<open>x_timeUntilSeconds t\<close> is
  \<^verbatim>\<open>int64(time.Until(t).Seconds())\<close> at line 451 and \<^verbatim>\<open>x_sinceSecondsLess t n\<close> is
  \<^verbatim>\<open>time.Since(t).Seconds() < float64(n)\<close> at line 450: the clock and the floating point
  conversion stay outside. \<^verbatim>\<open>x_mapRangeRank\<close> fixes the order in which
  \<^verbatim>\<open>range\<close> visits the keys of a Go map, which the language leaves open.
\<close>

record Externals =
  x_Atoi :: "string \<Rightarrow> int option"
  x_secondsUntil :: "time \<Rightarrow> int"
  x_timeUntilSeconds :: "time \<Rightarrow> int"
  x_sinceSecondsLess :: "time \<Rightarrow> int \<Rightarrow> bool"
  x_FormatRFC3339 :: "time \<Rightarrow> string"
  x_DurationString :: "int \<Rightarrow> string"
  x_Itoa :: "int \<Rightarrow> string"
  x_PodName :: "string \<Rightarrow> string \<Rightarrow> string \<Rightarrow> string \<Rightarrow> string"
  x_HasWindowsOSNodeSelector :: "(string \<times> string) list \<Rightarrow> bool"
  x_IsWindowsUNCPath :: "string \<Rightarrow> Template \<Rightarrow> bool"
  x_filepathJoin :: "string \<Rightarrow> string \<Rightarrow> string"
  x_GetServiceAccountTokenName :: "string \<Rightarrow> string \<Rightarrow> error + string"
  x_getExecutorLogLevel :: string
  x_Getenv :: "string \<Rightarrow> string"
  x_HasLocation :: "ArtifactLocation option \<Rightarrow> bool"
  x_ArtifactHasLocation :: "Artifact \<Rightarrow> bool"
  x_HasLocationOrKey :: "Artifact \<Rightarrow> bool"
  x_FindOverlappingVolume :: "Template \<Rightarrow> string \<Rightarrow> VolumeMount option"
  x_MustMarshallJSON :: "Template \<Rightarrow> string"
  x_jsonMarshalPod :: "Pod \<Rightarrow> error + string"
  x_templateReplace :: "string \<Rightarrow> (string \<rightharpoonup> string) \<Rightarrow> error + string"
  x_jsonUnmarshalPod :: "string \<Rightarrow> error + Pod"
  x_jsonUnmarshalTemplate :: "string \<Rightarrow> Template \<Rightarrow> error + Template"
  x_jsonMarshalArchiveLocation :: "ArtifactLocation option \<Rightarrow> error + string"
  x_templateValidate :: "string \<Rightarrow> (string \<Rightarrow> error) \<Rightarrow> error option"
  x_jsonMarshalPodSpec :: "PodSpec \<Rightarrow> error + string"
  x_PodSpecPatchMerge :: "Template \<Rightarrow> error + string"
  x_ProcessArgs :: "Template \<Rightarrow> (string \<rightharpoonup> string) \<Rightarrow> (string \<rightharpoonup> string) \<Rightarrow> error + Template"
  x_jsonUnmarshalPodSpec :: "string \<Rightarrow> error + PodSpec"
  x_StrategicMergePatch :: "string \<Rightarrow> string \<Rightarrow> error + string"
  x_IsAlreadyExists :: "error \<Rightarrow> bool"
  x_IsTransientErr :: "error \<Rightarrow> bool"
  x_mapRangeRank :: "string \<Rightarrow> nat"

text \<open>
  The operation context of one workflow. \<^verbatim>\<open>woc_markedNodes\<close> records the calls of
  \<^verbatim>\<open>markNodePhase\<close> (node name, phase, message) and \<^verbatim>\<open>woc_createCalls\<close> the pods handed to the
  create call of the cluster client, in order, so that a theorem can say that no pod was
  created.
\<close>

record wfOperationCtx =
  woc_wfName :: string
  woc_wfNamespace :: string
  woc_NodeID :: "string \<Rightarrow> string"
  woc_GetNodeByName :: "string \<Rightarrow> NodeStatus option"
  woc_execWfSpec :: WorkflowSpec
  woc_controller :: WorkflowController
  woc_volumes :: "Volume list"
  woc_PersistentVolumeClaims :: "Volume list"
  woc_globalParams :: "string \<rightharpoonup> string"
  woc_workflowDeadline :: "time option"
  woc_getWorkflowDeadline :: "time option"
  woc_ShouldExecute :: "bool \<Rightarrow> bool"
  woc_ShutdownStrategy :: string
  woc_getContainerRuntimeExecutor :: string
  woc_artifactRepositoryIsArchiveLogs :: bool
  woc_artifactRepositoryToArtifactLocation :: "ArtifactLocation option"
  woc_checkTemplateTimeout :: "Template \<Rightarrow> NodeStatus option \<Rightarrow> error + time option"
  woc_retryOnDifferentHost :: "NodeStatus \<Rightarrow> error option"
  woc_activePods :: int
  woc_markedNodes :: "(string \<times> string \<times> string) list"
  woc_createCalls :: "Pod list"
  woc_x :: Externals


subsection \<open>Methods of the workflow types\<close>

text \<open>
  Modelled from the spec: the methods of \<^verbatim>\<open>wfv1.Template\<close> and \<^verbatim>\<open>wfv1.WorkflowSpec\<close> are
  declared in the API package, not under src/. The spec names the template types
  container, script, containerSet, resource and data, and the volume mounts declared on
  the main containers: \<^verbatim>\<open>GetType\<close> is the tag of the variant, \<^verbatim>\<open>GetVolumeMounts\<close> the mounts of
  the container, of the script's container or of the container set, \<^verbatim>\<open>HasPodSpecPatch\<close>
  whether the patch text is not empty, \<^verbatim>\<open>IsPodType\<close> whether the type runs as a pod.
\<close>

definition GetType :: "Template \<Rightarrow> TemplateType" where
  "GetType tmpl =
     (case tmpl_Body tmpl of
        BContainer _ \<Rightarrow> TemplateTypeContainer
      | BContainerSet _ \<Rightarrow> TemplateTypeContainerSet
      | BSteps \<Rightarrow> TemplateTypeSteps
      | BDAG \<Rightarrow> TemplateTypeDAG
      | BScript _ \<Rightarrow> TemplateTypeScript
      | BResource \<Rightarrow> TemplateTypeResource
      | BSuspend \<Rightarrow> TemplateTypeSuspend
      | BData _ \<Rightarrow> TemplateTypeData
      | BUnknown \<Rightarrow> TemplateTypeUnknown)"

definition tmpl_Container :: "Template \<Rightarrow> Container option" where
  "tmpl_Container tmpl = (case tmpl_Body tmpl of BContainer c \<Rightarrow> Some c | _ \<Rightarrow> None)"

definition tmpl_Script :: "Template \<Rightarrow> ScriptTemplate option" where
  "tmpl_Script tmpl = (case tmpl_Body tmpl of BScript s \<Rightarrow> Some s | _ \<Rightarrow> None)"

definition tmpl_Data :: "Template \<Rightarrow> DataTemplate option" where
  "tmpl_Data tmpl = (case tmpl_Body tmpl of BData d \<Rightarrow> Some d | _ \<Rightarrow> None)"

definition GetVolumeMounts :: "Template \<Rightarrow> VolumeMount list" where
  "GetVolumeMounts tmpl =
     (case tmpl_Body tmpl of
        BContainer c \<Rightarrow> c_VolumeMounts c
      | BScript s \<Rightarrow> c_VolumeMounts (script_Container s)
      | BContainerSet cs \<Rightarrow> cs_VolumeMounts cs
      | _ \<Rightarrow> [])"

definition IsPodType :: "Template \<Rightarrow> bool" where
  "IsPodType tmpl =
     (GetType tmpl \<in> {TemplateTypeContainer, TemplateTypeContainerSet, TemplateTypeScript,
        TemplateTypeResource, TemplateTypeData})"

definition tmpl_HasPodSpecPatch :: "Template \<Rightarrow> bool" where
  "tmpl_HasPodSpecPatch tmpl = (tmpl_PodSpecPatch tmpl \<noteq> [])"

definition wfs_HasPodSpecPatch :: "WorkflowSpec \<Rightarrow> bool" where
  "wfs_HasPodSpecPatch spec = (wfs_PodSpecPatch spec \<noteq> [])"

text \<open>
  Modelled from the spec: \<^verbatim>\<open>intstr.Int64\<close> of package util is not under src/. The spec has the
  template's \<^verbatim>\<open>activeDeadlineSeconds\<close> as an optional relative number of seconds: an absent
  value converts to absent, a number to itself, a string through \<^verbatim>\<open>strconv.Atoi\<close>, and a
  string that is no number is an error.
\<close>

definition intstr_Int64 :: "Externals \<Rightarrow> IntOrString option \<Rightarrow> error + int option" where
  "intstr_Int64 x is =
     (case is of
        None \<Rightarrow> Inr None
      | Some (IntVal i) \<Rightarrow> Inr (Some i)
      | Some (StrVal s) \<Rightarrow>
          (case x_Atoi x s of
             None \<Rightarrow> Inl (FmtError ''value '%s' cannot be resolved to an int'' [s])
           | Some i \<Rightarrow> Inr (Some i)))"

text \<open>
  Modelled from the spec: \<^verbatim>\<open>util.FindWaitCtrIndex\<close> is not under src/. The wait container
  is the container of the pod that carries the wait name; the index is that of the last
  such container, and an error when there is none.
\<close>

definition FindWaitCtrIndex :: "Pod \<Rightarrow> error + nat" where
  "FindWaitCtrIndex pod =
     (let cs = ps_Containers (pod_Spec pod);
          is = filter (\<lambda>i. c_Name (cs ! i) = WaitContainerName) [0 ..< length cs]
      in if is = [] then Inl (ArgoError CodeEmpty ''Could not find wait container in pod spec'' [])
         else Inr (last is))"

subsection \<open>The docker socket\<close>

definition getDockerSockReadOnly :: "Externals \<Rightarrow> Template \<Rightarrow> bool" where
  "getDockerSockReadOnly x tmpl = (\<not> x_HasWindowsOSNodeSelector x (tmpl_NodeSelector tmpl))"

definition getDockerSockPath :: "Externals \<Rightarrow> Template \<Rightarrow> string" where
  "getDockerSockPath x tmpl =
     (if x_HasWindowsOSNodeSelector x (tmpl_NodeSelector tmpl)
      then [CHR 0x5C, CHR 0x5C] @ ''.'' @ [CHR 0x5C] @ ''pipe'' @ [CHR 0x5C] @ ''docker_engine''
      else ''/var/run/docker.sock'')"

definition getVolumeHostPathType :: "Externals \<Rightarrow> Template \<Rightarrow> string option" where
  "getVolumeHostPathType x tmpl =
     (if x_HasWindowsOSNodeSelector x (tmpl_NodeSelector tmpl) then None else Some ''Socket'')"

definition getVolumeMountDockerSock :: "wfOperationCtx \<Rightarrow> Template \<Rightarrow> VolumeMount" where
  "getVolumeMountDockerSock woc tmpl =
     \<lparr>vm_Name = DockerSockVolumeName,
      vm_MountPath = getDockerSockPath (woc_x woc) tmpl,
      vm_SubPath = [],
      vm_ReadOnly = getDockerSockReadOnly (woc_x woc) tmpl\<rparr>"

definition getVolumeDockerSock :: "wfOperationCtx \<Rightarrow> Template \<Rightarrow> Volume" where
  "getVolumeDockerSock woc tmpl =
     (let dockerSockPath =
            (if cfg_DockerSockPath (ctl_Config (woc_controller woc)) \<noteq> []
             then cfg_DockerSockPath (ctl_Config (woc_controller woc))
             else getDockerSockPath (woc_x woc) tmpl)
      in \<lparr>v_Name = DockerSockVolumeName,
          v_VolumeSource = HostPath dockerSockPath (getVolumeHostPathType (woc_x woc) tmpl)\<rparr>)"

definition volumeVarArgo :: Volume where
  "volumeVarArgo = \<lparr>v_Name = ''var-run-argo'', v_VolumeSource = EmptyDir\<rparr>"

definition volumeMountVarArgo :: VolumeMount where
  "volumeMountVarArgo =
     \<lparr>vm_Name = v_Name volumeVarArgo, vm_MountPath = ''/var/run/argo'', vm_SubPath = [],
      vm_ReadOnly = False\<rparr>"

definition hasPodSpecPatch :: "wfOperationCtx \<Rightarrow> Template \<Rightarrow> bool" where
  "hasPodSpecPatch woc tmpl =
     (wfs_HasPodSpecPatch (woc_execWfSpec woc) \<or> tmpl_HasPodSpecPatch tmpl)"

text \<open>
  \<^verbatim>\<open>scheduleOnDifferentHost\<close>: for a node that is not nil the lookups of the retry node and of
  its template answer through \<^verbatim>\<open>woc_retryOnDifferentHost\<close>; what they write is the affinity
  of the pod.
\<close>

definition scheduleOnDifferentHost :: "wfOperationCtx \<Rightarrow> NodeStatus option \<Rightarrow> Pod \<Rightarrow> error option" where
  "scheduleOnDifferentHost woc node pod =
     (case node of None \<Rightarrow> None | Some n \<Rightarrow> woc_retryOnDifferentHost woc n)"

record createWorkflowPodOpts =
  includeScriptOutput :: bool
  onExitPod :: bool
  executionDeadline :: time

subsection \<open>Small helpers\<close>

definition podExists :: "wfOperationCtx \<Rightarrow> string \<Rightarrow> Pod option \<times> bool \<times> error option" where
  "podExists woc nodeID =
     (case ctl_podInformerByIndex (woc_controller woc) (woc_wfNamespace woc @ ''/'' @ nodeID) of
        Inl err \<Rightarrow> (None, False, Some (FmtWrap ''failed to get pod from informer store: %w'' [] err))
      | Inr objs \<Rightarrow>
          if length objs = 0 then (None, False, None)
          else if length objs > 1 then
            (None, False,
             Some (FmtError ''expected < 2 pods, got %d - this is a bug''
                     [x_Itoa (woc_x woc) (int (length objs))]))
          else (case hd objs of
                  PodObj existing \<Rightarrow> (Some existing, True, None)
                | OtherObj \<Rightarrow> (None, False, None)))"

definition getDeadline :: "wfOperationCtx \<Rightarrow> createWorkflowPodOpts \<Rightarrow> time" where
  "getDeadline woc opts =
     (let deadline = (case woc_workflowDeadline woc of None \<Rightarrow> 0 | Some d \<Rightarrow> d)
      in if executionDeadline opts \<noteq> 0 \<and> (deadline = 0 \<or> executionDeadline opts < deadline)
         then executionDeadline opts else deadline)"

definition getImage :: "wfOperationCtx \<Rightarrow> string \<Rightarrow> Image" where
  "getImage woc img =
     (case cfg_Images (ctl_Config (woc_controller woc)) of
        None \<Rightarrow> \<lparr>img_Command = [], img_Args = None\<rparr>
      | Some images \<Rightarrow>
          (case images img of
             None \<Rightarrow> \<lparr>img_Command = [], img_Args = None\<rparr>
           | Some x \<Rightarrow> x))"

definition isResourcesSpecified :: "Container option \<Rightarrow> bool" where
  "isResourcesSpecified ctr =
     (case ctr of
        None \<Rightarrow> False
      | Some c \<Rightarrow> length (rr_Limits (c_Resources c)) \<noteq> 0 \<or> length (rr_Requests (c_Resources c)) \<noteq> 0)"

definition containerIsPrivileged :: "Container option \<Rightarrow> bool" where
  "containerIsPrivileged ctr =
     (case ctr of
        None \<Rightarrow> False
      | Some c \<Rightarrow>
          (case c_SecurityContext c of
             None \<Rightarrow> False
           | Some sc \<Rightarrow> (case sc_Privileged sc of None \<Rightarrow> False | Some b \<Rightarrow> b)))"

definition hasPrivilegedContainers :: "Template \<Rightarrow> bool" where
  "hasPrivilegedContainers tmpl =
     (if containerIsPrivileged (tmpl_Container tmpl) then True
      else list_ex (\<lambda>side. containerIsPrivileged (Some (uc_Container side))) (tmpl_Sidecars tmpl))"

definition findMainContainer :: "Pod \<Rightarrow> Container option" where
  "findMainContainer pod = find (\<lambda>ctr. MainContainerName = c_Name ctr) (ps_Containers (pod_Spec pod))"

definition mirrorVolumeMounts :: "Container \<Rightarrow> Container \<Rightarrow> Container" where
  "mirrorVolumeMounts sourceContainer targetContainer =
     targetContainer\<lparr>c_VolumeMounts :=
       c_VolumeMounts targetContainer @ c_VolumeMounts sourceContainer\<rparr>"

definition FormatBool :: "bool \<Rightarrow> string" where
  "FormatBool b = (if b then ''true'' else ''false'')"


text \<open>
  A loop of the form \<^verbatim>\<open>for i, c := range ctrs { if c.Name == name { change c; break } }\<close>:
  the first container of that name is changed.
\<close>

fun updateFirstNamed :: "string \<Rightarrow> (Container \<Rightarrow> Container) \<Rightarrow> Container list \<Rightarrow> Container list" where
  "updateFirstNamed name f [] = []"
| "updateFirstNamed name f (c # cs) =
     (if c_Name c = name then f c # cs else c # updateFirstNamed name f cs)"

definition appendVolumeMounts :: "VolumeMount list \<Rightarrow> Container \<Rightarrow> Container" where
  "appendVolumeMounts mnts c = c\<lparr>c_VolumeMounts := c_VolumeMounts c @ mnts\<rparr>"

subsection \<open>The executor's containers and the base volumes\<close>

definition createEnvVars :: "wfOperationCtx \<Rightarrow> EnvVar list" where
  "createEnvVars woc =
     [\<lparr>ev_Name = EnvVarPodName, ev_Value = [], ev_FieldRef = Some (''v1'', ''metadata.name'')\<rparr>,
      \<lparr>ev_Name = EnvVarContainerRuntimeExecutor, ev_Value = woc_getContainerRuntimeExecutor woc,
        ev_FieldRef = None\<rparr>,
      \<lparr>ev_Name = ''GODEBUG'', ev_Value = ''x509ignoreCN=0'', ev_FieldRef = None\<rparr>,
      \<lparr>ev_Name = EnvVarWorkflowName, ev_Value = woc_wfName woc, ev_FieldRef = None\<rparr>]
     @ (case cfg_Executor (ctl_Config (woc_controller woc)) of None \<Rightarrow> [] | Some e \<Rightarrow> c_Env e)
     @ (if woc_getContainerRuntimeExecutor woc = ContainerRuntimeExecutorKubelet
        then [\<lparr>ev_Name = EnvVarDownwardAPINodeIP, ev_Value = [],
                ev_FieldRef = Some ([], ''status.hostIP'')\<rparr>,
              \<lparr>ev_Name = EnvVarKubeletPort,
                ev_Value = x_Itoa (woc_x woc) (cfg_KubeletPort (ctl_Config (woc_controller woc))),
                ev_FieldRef = None\<rparr>,
              \<lparr>ev_Name = EnvVarKubeletInsecure,
                ev_Value = FormatBool (cfg_KubeletInsecure (ctl_Config (woc_controller woc))),
                ev_FieldRef = None\<rparr>]
        else [])"

definition createVolumes :: "wfOperationCtx \<Rightarrow> Template \<Rightarrow> Volume list" where
  "createVolumes woc tmpl =
     (case cfg_KubeConfig (ctl_Config (woc_controller woc)) of
        None \<Rightarrow> []
      | Some kc \<Rightarrow>
          [\<lparr>v_Name = (if kc_VolumeName kc = [] then KubeConfigDefaultVolumeName else kc_VolumeName kc),
            v_VolumeSource = Secret \<lparr>svs_SecretName = kc_SecretName kc, svs_Items = []\<rparr>\<rparr>])
     @ [volumeVarArgo]
     @ (if woc_getContainerRuntimeExecutor woc = ContainerRuntimeExecutorDocker
        then [getVolumeDockerSock woc tmpl] else [])
     @ tmpl_Volumes tmpl"

definition executorServiceAccountName :: "wfOperationCtx \<Rightarrow> Template \<Rightarrow> string" where
  "executorServiceAccountName woc tmpl =
     (case (case tmpl_Executor tmpl of
              None \<Rightarrow> None
            | Some e \<Rightarrow> if ec_ServiceAccountName e \<noteq> [] then Some (ec_ServiceAccountName e) else None) of
        Some n \<Rightarrow> n
      | None \<Rightarrow>
          (case wfs_Executor (woc_execWfSpec woc) of
             None \<Rightarrow> []
           | Some e \<Rightarrow> if ec_ServiceAccountName e \<noteq> [] then ec_ServiceAccountName e else []))"

definition newExecContainer :: "wfOperationCtx \<Rightarrow> string \<Rightarrow> Template \<Rightarrow> Container" where
  "newExecContainer woc name tmpl =
     (let cfg = ctl_Config (woc_controller woc);
          exec0 = \<lparr>c_Name = name,
                   c_Image = ctl_executorImage (woc_controller woc),
                   c_ImagePullPolicy = ctl_executorImagePullPolicy (woc_controller woc),
                   c_Command = [],
                   c_Args = None,
                   c_Env = createEnvVars woc,
                   c_VolumeMounts = [],
                   c_Resources = \<lparr>rr_Limits = [], rr_Requests = []\<rparr>,
                   c_SecurityContext = None\<rparr>;
          exec1 = (case cfg_Executor cfg of
                     None \<Rightarrow> exec0
                   | Some e \<Rightarrow>
                       exec0\<lparr>c_Args := c_Args e,
                             c_SecurityContext :=
                               (case c_SecurityContext e of None \<Rightarrow> None | Some sc \<Rightarrow> Some sc)\<rparr>);
          exec2 = (case (if isResourcesSpecified (cfg_Executor cfg) then cfg_Executor cfg else None) of
                     Some e \<Rightarrow> exec1\<lparr>c_Resources := c_Resources e\<rparr>
                   | None \<Rightarrow>
                       (case cfg_ExecutorResources cfg of
                          Some r \<Rightarrow> exec1\<lparr>c_Resources := r\<rparr>
                        | None \<Rightarrow> exec1));
          exec3 = (case cfg_KubeConfig cfg of
                     None \<Rightarrow> exec2
                   | Some kc \<Rightarrow>
                       (let path = (if kc_MountPath kc = [] then KubeConfigDefaultMountPath
                                    else kc_MountPath kc);
                            vname = (if kc_VolumeName kc = [] then KubeConfigDefaultVolumeName
                                     else kc_VolumeName kc)
                        in exec2\<lparr>c_VolumeMounts := c_VolumeMounts exec2 @
                                    [\<lparr>vm_Name = vname, vm_MountPath = path,
                                      vm_SubPath = kc_SecretKey kc, vm_ReadOnly = True\<rparr>],
                                  c_Args := Some ((case c_Args exec2 of None \<Rightarrow> [] | Some a \<Rightarrow> a)
                                                  @ [''--kubeconfig='' @ path])\<rparr>))
      in if executorServiceAccountName woc tmpl \<noteq> []
         then exec3\<lparr>c_VolumeMounts := c_VolumeMounts exec3 @
                      [\<lparr>vm_Name = ServiceAccountTokenVolumeName,
                        vm_MountPath = ServiceAccountTokenMountPath,
                        vm_SubPath = [], vm_ReadOnly = True\<rparr>]\<rparr>
         else exec3)"

definition newInitContainer :: "wfOperationCtx \<Rightarrow> Template \<Rightarrow> Container" where
  "newInitContainer woc tmpl =
     (newExecContainer woc InitContainerName tmpl)
       \<lparr>c_Command := [''argoexec'', ''init'', ''--loglevel'', x_getExecutorLogLevel (woc_x woc)]\<rparr>"

definition newWaitContainer :: "wfOperationCtx \<Rightarrow> Template \<Rightarrow> Container" where
  "newWaitContainer woc tmpl =
     (let ctr = (newExecContainer woc WaitContainerName tmpl)
                  \<lparr>c_Command := [''argoexec'', ''wait'', ''--loglevel'',
                                  x_getExecutorLogLevel (woc_x woc)]\<rparr>
      in if woc_getContainerRuntimeExecutor woc = ContainerRuntimeExecutorPNS
         then ctr\<lparr>c_SecurityContext := Some
                    \<lparr>sc_Privileged =
                       (if hasPrivilegedContainers tmpl \<or> x_Getenv (woc_x woc) ''PNS_PRIVILEGED'' = ''true''
                        then Some True else None),
                     sc_CapabilitiesAdd = [''SYS_PTRACE'', ''SYS_CHROOT'']\<rparr>\<rparr>
         else if woc_getContainerRuntimeExecutor woc = ContainerRuntimeExecutorDocker
         then ctr\<lparr>c_VolumeMounts := c_VolumeMounts ctr @ [getVolumeMountDockerSock woc tmpl]\<rparr>
         else ctr)"

subsection \<open>Secret volumes\<close>

text \<open>
  \<^verbatim>\<open>volMap\<close> is a Go map from the secret's name to its volume: an association list with one
  entry per key, in the order the keys came in. \<^verbatim>\<open>keyMap\<close> is a \<^verbatim>\<open>map[string]bool\<close>, whose
  lookup of a missing key answers false. The volume read from \<^verbatim>\<open>volMap\<close> shares its
  \<^verbatim>\<open>*SecretVolumeSource\<close> with the entry of the map, so the item appended through the copy
  is appended in the map.
\<close>

type_synonym volMap = "(string \<times> Volume) list"
type_synonym keyMap = "string \<Rightarrow> bool"

definition appendSecretItem :: "Volume \<Rightarrow> KeyToPath \<Rightarrow> Volume" where
  "appendSecretItem vol key =
     (case v_VolumeSource vol of
        Secret src \<Rightarrow> vol\<lparr>v_VolumeSource := Secret (src\<lparr>svs_Items := svs_Items src @ [key]\<rparr>)\<rparr>
      | _ \<Rightarrow> vol)"

definition createSecretVal :: "volMap \<Rightarrow> SecretKeySelector option \<Rightarrow> keyMap \<Rightarrow> volMap \<times> keyMap" where
  "createSecretVal volMap secret keyMap =
     (case secret of
        None \<Rightarrow> (volMap, keyMap)
      | Some s \<Rightarrow>
          if sks_Name s = [] \<or> sks_Key s = [] then (volMap, keyMap)
          else (case map_of volMap (sks_Name s) of
                  Some vol \<Rightarrow>
                    (let key = \<lparr>kp_Key = sks_Key s, kp_Path = sks_Key s\<rparr>
                     in if \<not> keyMap (sks_Name s @ ''-'' @ sks_Key s)
                        then (AList.update (sks_Name s) (appendSecretItem vol key) volMap,
                              keyMap(sks_Name s @ ''-'' @ sks_Key s := True))
                        else (volMap, keyMap))
                | None \<Rightarrow>
                    (let volume =
                           \<lparr>v_Name = sks_Name s,
                            v_VolumeSource = Secret
                              \<lparr>svs_SecretName = sks_Name s,
                               svs_Items = [\<lparr>kp_Key = sks_Key s, kp_Path = sks_Key s\<rparr>]\<rparr>\<rparr>
                     in (AList.update (sks_Name s) volume volMap,
                         keyMap(sks_Name s @ ''-'' @ sks_Key s := True)))))"

text \<open>Several calls of \<^verbatim>\<open>createSecretVal\<close> in a row, on the same two maps.\<close>

definition createSecretVals :: "volMap \<Rightarrow> SecretKeySelector option list \<Rightarrow> keyMap \<Rightarrow> volMap \<times> keyMap" where
  "createSecretVals volMap secrets keyMap =
     foldl (\<lambda>(vm, km) secret. createSecretVal vm secret km) (volMap, keyMap) secrets"

definition createArchiveLocationSecret :: "Template \<Rightarrow> volMap \<Rightarrow> keyMap \<Rightarrow> volMap \<times> keyMap" where
  "createArchiveLocationSecret tmpl volMap uniqueKeyMap =
     (case tmpl_ArchiveLocation tmpl of
        None \<Rightarrow> (volMap, uniqueKeyMap)
      | Some loc \<Rightarrow>
          (case al_S3 loc of
             Some s3ArtRepo \<Rightarrow>
               createSecretVals volMap
                 [s3_AccessKeySecret s3ArtRepo, s3_SecretKeySecret s3ArtRepo] uniqueKeyMap
           | None \<Rightarrow>
          (case al_HDFS loc of
             Some hdfsArtRepo \<Rightarrow>
               createSecretVals volMap
                 [hdfs_KrbKeytabSecret hdfsArtRepo, hdfs_KrbCCacheSecret hdfsArtRepo] uniqueKeyMap
           | None \<Rightarrow>
          (case al_Artifactory loc of
             Some artRepo \<Rightarrow>
               createSecretVals volMap
                 [arty_UsernameSecret artRepo, arty_PasswordSecret artRepo] uniqueKeyMap
           | None \<Rightarrow>
          (case al_Git loc of
             Some gitRepo \<Rightarrow>
               createSecretVals volMap
                 [git_UsernameSecret gitRepo, git_PasswordSecret gitRepo,
                  git_SSHPrivateKeySecret gitRepo] uniqueKeyMap
           | None \<Rightarrow>
          (case al_OSS loc of
             Some ossRepo \<Rightarrow>
               createSecretVals volMap
                 [oss_AccessKeySecret ossRepo, oss_SecretKeySecret ossRepo] uniqueKeyMap
           | None \<Rightarrow>
          (case al_GCS loc of
             Some gcsRepo \<Rightarrow>
               createSecretVals volMap [gcs_ServiceAccountKeySecret gcsRepo] uniqueKeyMap
           | None \<Rightarrow> (volMap, uniqueKeyMap))))))))"

definition createSecretVolume :: "volMap \<Rightarrow> Artifact \<Rightarrow> keyMap \<Rightarrow> volMap \<times> keyMap" where
  "createSecretVolume volMap art keyMap =
     (case al_S3 art of
        Some s3 \<Rightarrow> createSecretVals volMap [s3_AccessKeySecret s3, s3_SecretKeySecret s3] keyMap
      | None \<Rightarrow>
     (case al_Git art of
        Some git \<Rightarrow>
          createSecretVals volMap
            [git_UsernameSecret git, git_PasswordSecret git, git_SSHPrivateKeySecret git] keyMap
      | None \<Rightarrow>
     (case al_Artifactory art of
        Some arty \<Rightarrow>
          createSecretVals volMap [arty_UsernameSecret arty, arty_PasswordSecret arty] keyMap
      | None \<Rightarrow>
     (case al_HDFS art of
        Some hdfs \<Rightarrow>
          createSecretVals volMap [hdfs_KrbCCacheSecret hdfs, hdfs_KrbKeytabSecret hdfs] keyMap
      | None \<Rightarrow>
     (case al_OSS art of
        Some oss \<Rightarrow>
          createSecretVals volMap [oss_AccessKeySecret oss, oss_SecretKeySecret oss] keyMap
      | None \<Rightarrow>
     (case al_GCS art of
        Some gcs \<Rightarrow> createSecretVals volMap [gcs_ServiceAccountKeySecret gcs] keyMap
      | None \<Rightarrow> (volMap, keyMap)))))))"

definition createSecretVolumeList :: "volMap \<Rightarrow> Artifact list \<Rightarrow> keyMap \<Rightarrow> volMap \<times> keyMap" where
  "createSecretVolumeList volMap arts keyMap =
     foldl (\<lambda>(vm, km) art. createSecretVolume vm art km) (volMap, keyMap) arts"

text \<open>
  The two maps of \<^verbatim>\<open>createSecretVolumes\<close> after all the secrets are in, before the final
  \<^verbatim>\<open>range\<close> over \<^verbatim>\<open>allVolumesMap\<close>.
\<close>

definition collectSecretVolumes :: "Template \<Rightarrow> volMap \<times> keyMap" where
  "collectSecretVolumes tmpl =
     (let (vm0, km0) = createArchiveLocationSecret tmpl [] (\<lambda>_. False);
          (vm1, km1) = createSecretVolumeList vm0 (tmpl_OutputArtifacts tmpl) km0;
          (vm2, km2) = createSecretVolumeList vm1 (tmpl_InputArtifacts tmpl) km1
      in case tmpl_Data tmpl of
           None \<Rightarrow> (vm2, km2)
         | Some d \<Rightarrow>
             (case data_ArtifactIfNeeded d of
                None \<Rightarrow> (vm2, km2)
              | Some art \<Rightarrow> createSecretVolume vm2 art km2))"

definition createSecretVolumes :: "Externals \<Rightarrow> Template \<Rightarrow> Volume list \<times> VolumeMount list" where
  "createSecretVolumes x tmpl =
     (let allVolumesMap = sort_key (\<lambda>(k, val). x_mapRangeRank x k) (fst (collectSecretVolumes tmpl))
      in (map snd allVolumesMap,
          map (\<lambda>(volMountName, val).
                 \<lparr>vm_Name = volMountName,
                  vm_MountPath = SecretVolMountPath @ ''/'' @ v_Name val,
                  vm_SubPath = [],
                  vm_ReadOnly = True\<rparr>) allVolumesMap))"


subsection \<open>Volume references\<close>

definition getVolByName :: "Template \<Rightarrow> Volume list \<Rightarrow> Volume list \<Rightarrow> string \<Rightarrow> Volume option" where
  "getVolByName tmpl vols pvcs name =
     (case find (\<lambda>vol. v_Name vol = name) (tmpl_Volumes tmpl) of
        Some vol \<Rightarrow> Some vol
      | None \<Rightarrow>
          (case find (\<lambda>vol. v_Name vol = name) vols of
             Some vol \<Rightarrow> Some vol
           | None \<Rightarrow> find (\<lambda>pvc. v_Name pvc = name) pvcs))"

text \<open>
  The closure \<^verbatim>\<open>addVolumeRef\<close> of \<^verbatim>\<open>addVolumeReferences\<close>; the list it returns is
  \<^verbatim>\<open>pod.Spec.Volumes\<close>, which the closure appends to.
\<close>

fun addVolumeRef :: "Template \<Rightarrow> Volume list \<Rightarrow> Volume list \<Rightarrow> Volume list \<Rightarrow> VolumeMount list
    \<Rightarrow> error + Volume list" where
  "addVolumeRef tmpl vols pvcs podVolumes [] = Inr podVolumes"
| "addVolumeRef tmpl vols pvcs podVolumes (volMnt # volMounts) =
     (case getVolByName tmpl vols pvcs (vm_Name volMnt) of
        None \<Rightarrow> Inl (ArgoError CodeBadRequest ''volume '%s' not found in workflow spec'' [vm_Name volMnt])
      | Some vol \<Rightarrow>
          addVolumeRef tmpl vols pvcs
            (if list_ex (\<lambda>v. v_Name v = v_Name vol) podVolumes then podVolumes
             else podVolumes @ [vol])
            volMounts)"

text \<open>The loops over the template's init containers and over its sidecars.\<close>

fun addVolumeRefContainers :: "Template \<Rightarrow> Volume list \<Rightarrow> Volume list \<Rightarrow> Volume list
    \<Rightarrow> UserContainer list \<Rightarrow> error + Volume list" where
  "addVolumeRefContainers tmpl vols pvcs podVolumes [] = Inr podVolumes"
| "addVolumeRefContainers tmpl vols pvcs podVolumes (container # containers) =
     (case addVolumeRef tmpl vols pvcs podVolumes (c_VolumeMounts (uc_Container container)) of
        Inl err \<Rightarrow> Inl err
      | Inr podVolumes' \<Rightarrow> addVolumeRefContainers tmpl vols pvcs podVolumes' containers)"

definition addVolumeReferences :: "Externals \<Rightarrow> Pod \<Rightarrow> Volume list \<Rightarrow> Template \<Rightarrow> Volume list
    \<Rightarrow> error + Pod" where
  "addVolumeReferences x pod vols tmpl pvcs =
     (if GetType tmpl \<notin> {TemplateTypeContainer, TemplateTypeContainerSet, TemplateTypeScript,
                            TemplateTypeData}
      then Inr pod
      else
        (case addVolumeRef tmpl vols pvcs (ps_Volumes (pod_Spec pod)) (GetVolumeMounts tmpl) of
           Inl err \<Rightarrow> Inl err
         | Inr vs1 \<Rightarrow>
        (case addVolumeRefContainers tmpl vols pvcs vs1 (tmpl_InitContainers tmpl) of
           Inl err \<Rightarrow> Inl err
         | Inr vs2 \<Rightarrow>
        (case addVolumeRefContainers tmpl vols pvcs vs2 (tmpl_Sidecars tmpl) of
           Inl err \<Rightarrow> Inl err
         | Inr vs3 \<Rightarrow>
             (let (volumes, volumeMounts) = createSecretVolumes x tmpl;
                  spec = pod_Spec pod;
                  ctrs1 = updateFirstNamed WaitContainerName (appendVolumeMounts volumeMounts)
                            (ps_Containers spec);
                  inits1 = updateFirstNamed InitContainerName (appendVolumeMounts volumeMounts)
                             (ps_InitContainers spec);
                  ctrs2 = (if tmpl_Data tmpl \<noteq> None
                           then updateFirstNamed MainContainerName (appendVolumeMounts volumeMounts) ctrs1
                           else ctrs1)
              in Inr (pod\<lparr>pod_Spec := spec\<lparr>ps_Volumes := vs3 @ volumes,
                                             ps_Containers := ctrs2,
                                             ps_InitContainers := inits1\<rparr>\<rparr>))))))"

subsection \<open>Input artifacts\<close>

text \<open>The loop over the artifacts for one main container (lines 971 to 995).\<close>

fun addArtifactMounts :: "wfOperationCtx \<Rightarrow> Template \<Rightarrow> Container \<Rightarrow> Artifact list \<Rightarrow> error + Container" where
  "addArtifactMounts woc tmpl c [] = Inr c"
| "addArtifactMounts woc tmpl c (art # arts) =
     (if art_Path art = []
      then Inl (ArgoError CodeBadRequest ''inputs.artifacts.%s did not specify a path'' [art_Name art])
      else if \<not> x_HasLocationOrKey (woc_x woc) art \<and> art_Optional art
      then addArtifactMounts woc tmpl c arts
      else (case x_FindOverlappingVolume (woc_x woc) tmpl (art_Path art) of
              Some overlap \<Rightarrow> addArtifactMounts woc tmpl c arts
            | None \<Rightarrow>
                addArtifactMounts woc tmpl
                  (c\<lparr>c_VolumeMounts := c_VolumeMounts c @
                       [\<lparr>vm_Name = ''input-artifacts'', vm_MountPath = art_Path art,
                         vm_SubPath = art_Name art, vm_ReadOnly = False\<rparr>]\<rparr>)
                  arts))"

text \<open>The loop over the containers of the pod (lines 967 to 997).\<close>

fun addArtifactMountsToMain :: "wfOperationCtx \<Rightarrow> Template \<Rightarrow> Container list \<Rightarrow> error + Container list" where
  "addArtifactMountsToMain woc tmpl [] = Inr []"
| "addArtifactMountsToMain woc tmpl (c # cs) =
     (if c_Name c \<noteq> MainContainerName
      then (case addArtifactMountsToMain woc tmpl cs of
              Inl err \<Rightarrow> Inl err
            | Inr cs' \<Rightarrow> Inr (c # cs'))
      else (case addArtifactMounts woc tmpl c (tmpl_InputArtifacts tmpl) of
              Inl err \<Rightarrow> Inl err
            | Inr c' \<Rightarrow>
                (case addArtifactMountsToMain woc tmpl cs of
                   Inl err \<Rightarrow> Inl err
                 | Inr cs' \<Rightarrow> Inr (c' # cs'))))"

definition addInputArtifactsVolumes :: "wfOperationCtx \<Rightarrow> Pod \<Rightarrow> Template \<Rightarrow> error + Pod" where
  "addInputArtifactsVolumes woc pod tmpl =
     (if length (tmpl_InputArtifacts tmpl) = 0 then Inr pod
      else
        (let artVol = \<lparr>v_Name = ''input-artifacts'', v_VolumeSource = EmptyDir\<rparr>;
             spec = pod_Spec pod;
             inits = updateFirstNamed InitContainerName
                       (\<lambda>initCtr. initCtr\<lparr>c_VolumeMounts := c_VolumeMounts initCtr
                          @ [\<lparr>vm_Name = v_Name artVol, vm_MountPath = ExecutorArtifactBaseDir,
                               vm_SubPath = [], vm_ReadOnly = False\<rparr>]
                          @ map (\<lambda>mnt. mnt\<lparr>vm_MountPath :=
                                   x_filepathJoin (woc_x woc) ExecutorMainFilesystemDir (vm_MountPath mnt)\<rparr>)
                              (filter (\<lambda>mnt. \<not> x_IsWindowsUNCPath (woc_x woc) (vm_MountPath mnt) tmpl)
                                 (GetVolumeMounts tmpl))\<rparr>)
                       (ps_InitContainers spec)
         in case addArtifactMountsToMain woc tmpl (ps_Containers spec) of
              Inl err \<Rightarrow> Inl err
            | Inr ctrs \<Rightarrow>
                Inr (pod\<lparr>pod_Spec := spec\<lparr>ps_Volumes := ps_Volumes spec @ [artVol],
                                           ps_InitContainers := inits,
                                           ps_Containers := ctrs\<rparr>\<rparr>)))"

subsection \<open>Output artifacts\<close>

definition addOutputArtifactsVolumes :: "Externals \<Rightarrow> Pod \<Rightarrow> Template \<Rightarrow> Pod" where
  "addOutputArtifactsVolumes x pod tmpl =
     (if GetType tmpl = TemplateTypeResource \<or> GetType tmpl = TemplateTypeData then pod
      else
        (case FindWaitCtrIndex pod of
           Inl err \<Rightarrow> pod
         | Inr waitCtrIndex \<Rightarrow>
             (let spec = pod_Spec pod;
                  ctrs = ps_Containers spec;
                  mirrored = concat (map (\<lambda>c.
                      if c_Name c \<noteq> MainContainerName then []
                      else map (\<lambda>mnt. mnt\<lparr>vm_MountPath :=
                                   x_filepathJoin x ExecutorMainFilesystemDir (vm_MountPath mnt),
                                 vm_ReadOnly := False\<rparr>)
                             (filter (\<lambda>mnt. \<not> x_IsWindowsUNCPath x (vm_MountPath mnt) tmpl)
                                (c_VolumeMounts c))) ctrs)
              in pod\<lparr>pod_Spec := spec\<lparr>ps_Containers :=
                       ctrs[waitCtrIndex := appendVolumeMounts mirrored (ctrs ! waitCtrIndex)]\<rparr>\<rparr>)))"

subsection \<open>Archive location and service account\<close>

definition IsArchiveLogs :: "wfOperationCtx \<Rightarrow> Template \<Rightarrow> bool" where
  "IsArchiveLogs woc tmpl =
     (if woc_artifactRepositoryIsArchiveLogs woc then True
      else
        (let a1 = (case wfs_ArchiveLogs (woc_execWfSpec woc) of None \<Rightarrow> False | Some b \<Rightarrow> b)
         in case tmpl_ArchiveLocation tmpl of
              None \<Rightarrow> a1
            | Some loc \<Rightarrow> (case al_ArchiveLogs loc of None \<Rightarrow> a1 | Some b \<Rightarrow> b)))"

definition addArchiveLocation :: "wfOperationCtx \<Rightarrow> Template \<Rightarrow> Template step" where
  "addArchiveLocation woc tmpl =
     (if x_HasLocation (woc_x woc) (tmpl_ArchiveLocation tmpl) then Next tmpl
      else
        (let archiveLogs = IsArchiveLogs woc tmpl;
             needLocation =
               (archiveLogs \<or>
                list_ex (\<lambda>art. \<not> x_ArtifactHasLocation (woc_x woc) art)
                  (tmpl_InputArtifacts tmpl @ tmpl_OutputArtifacts tmpl))
         in if \<not> needLocation then Next tmpl
            else (case woc_artifactRepositoryToArtifactLocation woc of
                    None \<Rightarrow> Stop (Panicked ''invalid memory address or nil pointer dereference'')
                  | Some loc \<Rightarrow>
                      Next (tmpl\<lparr>tmpl_ArchiveLocation := Some (loc\<lparr>al_ArchiveLogs := Some archiveLogs\<rparr>)\<rparr>))))"

definition setupServiceAccount :: "wfOperationCtx \<Rightarrow> Pod \<Rightarrow> Template \<Rightarrow> error + Pod" where
  "setupServiceAccount woc pod tmpl =
     (let spec0 = pod_Spec pod;
          spec1 = (if tmpl_ServiceAccountName tmpl \<noteq> []
                   then spec0\<lparr>ps_ServiceAccountName := tmpl_ServiceAccountName tmpl\<rparr>
                   else if wfs_ServiceAccountName (woc_execWfSpec woc) \<noteq> []
                   then spec0\<lparr>ps_ServiceAccountName := wfs_ServiceAccountName (woc_execWfSpec woc)\<rparr>
                   else spec0);
          automountServiceAccountToken =
            (case tmpl_AutomountServiceAccountToken tmpl of
               Some b \<Rightarrow> Some b
             | None \<Rightarrow> wfs_AutomountServiceAccountToken (woc_execWfSpec woc));
          spec2 = (if automountServiceAccountToken = Some False
                   then spec1\<lparr>ps_AutomountServiceAccountToken := automountServiceAccountToken\<rparr>
                   else spec1)
      in if executorServiceAccountName woc tmpl \<noteq> []
         then (case x_GetServiceAccountTokenName (woc_x woc) (pod_Namespace pod)
                      (executorServiceAccountName woc tmpl) of
                 Inl err \<Rightarrow> Inl err
               | Inr tokenName \<Rightarrow>
                   Inr (pod\<lparr>pod_Spec := spec2\<lparr>ps_Volumes := ps_Volumes spec2 @
                          [\<lparr>v_Name = ServiceAccountTokenVolumeName,
                            v_VolumeSource = Secret \<lparr>svs_SecretName = tokenName, svs_Items = []\<rparr>\<rparr>]\<rparr>\<rparr>))
         else if automountServiceAccountToken = Some False
         then Inl (ArgoError CodeBadRequest
                 ''executor.serviceAccountName must not be empty if automountServiceAccountToken is false'' [])
         else Inr (pod\<lparr>pod_Spec := spec2\<rparr>))"

subsection \<open>Script staging, init containers and sidecars\<close>

definition addScriptStagingVolume :: "Pod \<Rightarrow> Pod step" where
  "addScriptStagingVolume pod =
     (let volName = ''argo-staging'';
          stagingVol = \<lparr>v_Name = volName, v_VolumeSource = EmptyDir\<rparr>;
          volMount = \<lparr>vm_Name = volName, vm_MountPath = ExecutorStagingEmptyDir,
                      vm_SubPath = [], vm_ReadOnly = False\<rparr>;
          spec = pod_Spec pod;
          found = list_ex (\<lambda>ctr. c_Name ctr = MainContainerName) (ps_Containers spec)
      in if \<not> found then Stop (Panicked ''Unable to locate main container'')
         else Next (pod\<lparr>pod_Spec := spec
                \<lparr>ps_Volumes := ps_Volumes spec @ [stagingVol],
                 ps_InitContainers :=
                   updateFirstNamed InitContainerName (appendVolumeMounts [volMount])
                     (ps_InitContainers spec),
                 ps_Containers :=
                   updateFirstNamed MainContainerName (appendVolumeMounts [volMount])
                     (ps_Containers spec)\<rparr>\<rparr>))"

definition mirroredContainer :: "Container option \<Rightarrow> UserContainer \<Rightarrow> Container" where
  "mirroredContainer mainCtr ctr =
     (case mainCtr of
        Some m \<Rightarrow>
          if uc_MirrorVolumeMounts ctr = Some True then mirrorVolumeMounts m (uc_Container ctr)
          else uc_Container ctr
      | None \<Rightarrow> uc_Container ctr)"

definition addInitContainers :: "Pod \<Rightarrow> Template \<Rightarrow> Pod" where
  "addInitContainers pod tmpl =
     (let mainCtr = findMainContainer pod; spec = pod_Spec pod
      in pod\<lparr>pod_Spec := spec\<lparr>ps_InitContainers :=
               ps_InitContainers spec @ map (mirroredContainer mainCtr) (tmpl_InitContainers tmpl)\<rparr>\<rparr>)"

definition addSidecars :: "Pod \<Rightarrow> Template \<Rightarrow> Pod" where
  "addSidecars pod tmpl =
     (let mainCtr = findMainContainer pod; spec = pod_Spec pod
      in pod\<lparr>pod_Spec := spec\<lparr>ps_Containers :=
               ps_Containers spec @ map (mirroredContainer mainCtr) (tmpl_Sidecars tmpl)\<rparr>\<rparr>)"

subsection \<open>Variable substitution\<close>

definition verifyResolvedVariables :: "Externals \<Rightarrow> ArtifactLocation option \<Rightarrow> error option" where
  "verifyResolvedVariables x obj =
     (case x_jsonMarshalArchiveLocation x obj of
        Inl err \<Rightarrow> Some err
      | Inr str \<Rightarrow>
          x_templateValidate x str
            (\<lambda>tag. ArgoError CodeBadRequest ''failed to resolve {{%s}}'' [tag]))"

text \<open>
  The loop of \<^verbatim>\<open>substitutePodParams\<close> over the input parameters; \<^verbatim>\<open>inParam.Value.String()\<close>
  dereferences the value.
\<close>

fun addInputParameters :: "(string \<rightharpoonup> string) \<Rightarrow> Parameter list \<Rightarrow> (string \<rightharpoonup> string) step" where
  "addInputParameters podParams [] = Next podParams"
| "addInputParameters podParams (inParam # inParams) =
     (case par_Value inParam of
        None \<Rightarrow> Stop (Panicked ''invalid memory address or nil pointer dereference'')
      | Some v \<Rightarrow>
          addInputParameters (podParams(''inputs.parameters.'' @ par_Name inParam \<mapsto> v)) inParams)"

definition substitutePodParams :: "Externals \<Rightarrow> Pod \<Rightarrow> (string \<rightharpoonup> string) \<Rightarrow> Template \<Rightarrow> Pod step" where
  "substitutePodParams x pod globalParams tmpl =
     (case addInputParameters globalParams (tmpl_InputParameters tmpl) of
        Stop r \<Rightarrow> Stop r
      | Next podParams0 \<Rightarrow>
          (let podParams = podParams0(LocalVarPodName \<mapsto> pod_Name pod)
           in case x_jsonMarshalPod x pod of
                Inl err \<Rightarrow> Stop (Failed err)
              | Inr specBytes \<Rightarrow>
                  (case x_templateReplace x specBytes podParams of
                     Inl err \<Rightarrow> Stop (Failed err)
                   | Inr newSpecBytes \<Rightarrow>
                       (case x_jsonUnmarshalPod x newSpecBytes of
                          Inl err \<Rightarrow> Stop (Failed (InternalWrapError err))
                        | Inr newSpec \<Rightarrow> Next newSpec))))"


subsection \<open>createWorkflowPod\<close>

text \<open>The body of the loop over the main containers (lines 152 to 175).\<close>

definition prepareMainCtr :: "wfOperationCtx \<Rightarrow> Template \<Rightarrow> Container \<Rightarrow> Container" where
  "prepareMainCtr woc tmpl c0 =
     (let mainCfg = cfg_MainContainer (ctl_Config (woc_controller woc));
          c1 = (if c_Name c0 = [] \<or> GetType tmpl \<noteq> TemplateTypeContainerSet
                then c0\<lparr>c_Name := MainContainerName\<rparr> else c0);
          c2 = (case (if isResourcesSpecified mainCfg then mainCfg else None) of
                  Some m \<Rightarrow> c1\<lparr>c_Resources := c_Resources m\<rparr>
                | None \<Rightarrow> c1)
      in case tmpl_Body tmpl of
           BContainer tc \<Rightarrow>
             if isResourcesSpecified (Some tc) \<and> c_Name tc = MainContainerName
             then c2\<lparr>c_Resources := c_Resources tc\<rparr> else c2
         | BScript sc \<Rightarrow>
             if isResourcesSpecified (Some (script_Container sc))
             then c2\<lparr>c_Resources := c_Resources (script_Container sc)\<rparr> else c2
         | _ \<Rightarrow> c2)"

text \<open>The loop of lines 197 to 203 sets the deadline to nil when it finds a marker.\<close>

definition markedForDebugging :: "Container list \<Rightarrow> bool" where
  "markedForDebugging mainCtrs =
     list_ex (\<lambda>c. list_ex (\<lambda>env. ev_Name env = ''ARGO_DEBUG_PAUSE_BEFORE''
                              \<or> ev_Name env = ''ARGO_DEBUG_PAUSE_AFTER'') (c_Env c)) mainCtrs"

text \<open>
  Lines 177 to 203: the deadline of the pod. \<^verbatim>\<open>Stop (Returned None)\<close> is the \<^verbatim>\<open>return nil, nil\<close>
  of line 188.
\<close>

definition resolveActiveDeadlineSeconds :: "wfOperationCtx \<Rightarrow> Container list \<Rightarrow> Template
    \<Rightarrow> createWorkflowPodOpts \<Rightarrow> int option step" where
  "resolveActiveDeadlineSeconds woc mainCtrs tmpl opts =
     (case intstr_Int64 (woc_x woc) (tmpl_ActiveDeadlineSeconds tmpl) of
        Inl err \<Rightarrow> Stop (Failed err)
      | Inr tmplActiveDeadlineSeconds \<Rightarrow>
          (case (case (if onExitPod opts then None else woc_getWorkflowDeadline woc) of
                   None \<Rightarrow> Next tmplActiveDeadlineSeconds
                 | Some wfDeadline \<Rightarrow>
                     (let wfActiveDeadlineSeconds = x_secondsUntil (woc_x woc) wfDeadline
                      in if wfActiveDeadlineSeconds \<le> 0 then Stop (Returned None)
                         else if tmpl_ActiveDeadlineSeconds tmpl = None
                         then Next (Some wfActiveDeadlineSeconds)
                         else (case tmplActiveDeadlineSeconds of
                                 None \<Rightarrow> Stop (Panicked ''invalid memory address or nil pointer dereference'')
                               | Some t \<Rightarrow>
                                   if wfActiveDeadlineSeconds < t then Next (Some wfActiveDeadlineSeconds)
                                   else Next tmplActiveDeadlineSeconds))) of
             Stop r \<Rightarrow> Stop r
           | Next activeDeadlineSeconds \<Rightarrow>
               Next (if markedForDebugging mainCtrs then None else activeDeadlineSeconds)))"

text \<open>Lines 205 to 251: the pod as it is first built.\<close>

definition newPod :: "wfOperationCtx \<Rightarrow> string \<Rightarrow> Template \<Rightarrow> createWorkflowPodOpts \<Rightarrow> int option \<Rightarrow> Pod" where
  "newPod woc nodeName tmpl opts activeDeadlineSeconds =
     \<lparr>pod_Name = x_PodName (woc_x woc) (woc_wfName woc) nodeName (tmpl_Name tmpl)
                   (woc_NodeID woc nodeName),
      pod_Namespace = woc_wfNamespace woc,
      pod_DefaultContainer = [],
      pod_OnExit = onExitPod opts,
      pod_Spec =
        \<lparr>ps_Volumes = createVolumes woc tmpl,
         ps_InitContainers = [],
         ps_Containers = [],
         ps_ActiveDeadlineSeconds = activeDeadlineSeconds,
         ps_ShareProcessNamespace =
           (if woc_getContainerRuntimeExecutor woc = ContainerRuntimeExecutorPNS
            then Some True else None),
         ps_ServiceAccountName = [],
         ps_AutomountServiceAccountToken = None\<rparr>\<rparr>"

text \<open>
  Lines 260 to 282: the wait container, the main containers and the default container.
  \<^verbatim>\<open>pod.Spec.Containers[len(pod.Spec.Containers)-1]\<close> panics on an empty list.
\<close>

definition addContainers :: "wfOperationCtx \<Rightarrow> Template \<Rightarrow> Container list \<Rightarrow> Pod \<Rightarrow> Pod step" where
  "addContainers woc tmpl mainCtrs pod =
     (let spec = pod_Spec pod;
          ctrs = ps_Containers spec
                 @ (if GetType tmpl \<noteq> TemplateTypeResource \<and> GetType tmpl \<noteq> TemplateTypeData
                    then [newWaitContainer woc tmpl] else [])
                 @ mainCtrs
      in if ctrs = [] then Stop (Panicked ''index out of range [-1]'')
         else Next (pod\<lparr>pod_DefaultContainer :=
                          (if list_ex (\<lambda>c. c_Name c = MainContainerName) ctrs
                           then MainContainerName else c_Name (last ctrs)),
                        pod_Spec := spec\<lparr>ps_Containers := ctrs\<rparr>\<rparr>))"

text \<open>Lines 286 to 289.\<close>

definition addExecInitContainer :: "wfOperationCtx \<Rightarrow> Template \<Rightarrow> Pod \<Rightarrow> Pod" where
  "addExecInitContainer woc tmpl pod =
     (if length (tmpl_InputArtifacts tmpl) > 0 \<or> GetType tmpl = TemplateTypeScript
         \<or> woc_getContainerRuntimeExecutor woc = ContainerRuntimeExecutorEmissary
      then pod\<lparr>pod_Spec := (pod_Spec pod)\<lparr>ps_InitContainers := [newInitContainer woc tmpl]\<rparr>\<rparr>
      else pod)"

text \<open>Lines 314 to 351: the mount of the init containers and the standard environment.\<close>

definition standardEnvVars :: "wfOperationCtx \<Rightarrow> Template \<Rightarrow> createWorkflowPodOpts \<Rightarrow> EnvVar list" where
  "standardEnvVars woc tmpl opts =
     [\<lparr>ev_Name = EnvVarTemplate, ev_Value = x_MustMarshallJSON (woc_x woc) tmpl, ev_FieldRef = None\<rparr>,
      \<lparr>ev_Name = EnvVarIncludeScriptOutput, ev_Value = FormatBool (includeScriptOutput opts),
        ev_FieldRef = None\<rparr>,
      \<lparr>ev_Name = EnvVarDeadline, ev_Value = x_FormatRFC3339 (woc_x woc) (getDeadline woc opts),
        ev_FieldRef = None\<rparr>,
      \<lparr>ev_Name = EnvVarProgressFile, ev_Value = ArgoProgressPath, ev_FieldRef = None\<rparr>]
     @ (if ctl_progressPatchTickDuration (woc_controller woc) \<noteq> 0
           \<and> ctl_progressFileTickDuration (woc_controller woc) \<noteq> 0
        then [\<lparr>ev_Name = EnvVarProgressPatchTickDuration,
                ev_Value = x_DurationString (woc_x woc) (ctl_progressPatchTickDuration (woc_controller woc)),
                ev_FieldRef = None\<rparr>,
              \<lparr>ev_Name = EnvVarProgressFileTickDuration,
                ev_Value = x_DurationString (woc_x woc) (ctl_progressFileTickDuration (woc_controller woc)),
                ev_FieldRef = None\<rparr>]
        else [])"

definition addEnvVars :: "EnvVar list \<Rightarrow> Container \<Rightarrow> Container" where
  "addEnvVars envVars c =
     c\<lparr>c_Env := c_Env c
         @ [\<lparr>ev_Name = EnvVarContainerName, ev_Value = c_Name c, ev_FieldRef = None\<rparr>]
         @ envVars\<rparr>"

definition addStandardEnv :: "wfOperationCtx \<Rightarrow> Template \<Rightarrow> createWorkflowPodOpts \<Rightarrow> Pod \<Rightarrow> Pod" where
  "addStandardEnv woc tmpl opts pod =
     (let spec = pod_Spec pod; envVars = standardEnvVars woc tmpl opts
      in pod\<lparr>pod_Spec := spec
           \<lparr>ps_InitContainers :=
              map (addEnvVars envVars)
                (map (appendVolumeMounts [volumeMountVarArgo]) (ps_InitContainers spec)),
            ps_Containers := map (addEnvVars envVars) (ps_Containers spec)\<rparr>\<rparr>)"

text \<open>
  Lines 294 to 312: the volumes and mounts of the assembled containers.
\<close>

definition addVolumesAndMounts :: "wfOperationCtx \<Rightarrow> Template \<Rightarrow> Pod \<Rightarrow> Pod step" where
  "addVolumesAndMounts woc tmpl pod =
     (case addVolumeReferences (woc_x woc) pod (woc_volumes woc) tmpl (woc_PersistentVolumeClaims woc) of
        Inl err \<Rightarrow> Stop (Failed err)
      | Inr pod1 \<Rightarrow>
          (case addInputArtifactsVolumes woc pod1 tmpl of
             Inl err \<Rightarrow> Stop (Failed err)
           | Inr pod2 \<Rightarrow>
               (case (if GetType tmpl = TemplateTypeScript then addScriptStagingVolume pod2
                      else Next pod2) of
                  Stop r \<Rightarrow> Stop r
                | Next pod3 \<Rightarrow>
                    Next (addOutputArtifactsVolumes (woc_x woc)
                            (addSidecars (addInitContainers pod3 tmpl) tmpl) tmpl))))"

text \<open>
  Lines 149 to 351: the assembled descriptor, before the substitution of variables, with
  the template as \<^verbatim>\<open>addArchiveLocation\<close> left it.
\<close>

definition assemblePod :: "wfOperationCtx \<Rightarrow> string \<Rightarrow> Container list \<Rightarrow> Template
    \<Rightarrow> createWorkflowPodOpts \<Rightarrow> (Pod \<times> Template) step" where
  "assemblePod woc nodeName mainCtrs0 tmpl0 opts =
     (let mainCtrs = map (prepareMainCtr woc tmpl0) mainCtrs0
      in case resolveActiveDeadlineSeconds woc mainCtrs tmpl0 opts of
           Stop r \<Rightarrow> Stop r
         | Next activeDeadlineSeconds \<Rightarrow>
         (case addArchiveLocation woc tmpl0 of
           Stop r \<Rightarrow> Stop r
         | Next tmpl \<Rightarrow>
         (case setupServiceAccount woc (newPod woc nodeName tmpl0 opts activeDeadlineSeconds) tmpl of
           Inl err \<Rightarrow> Stop (Failed err)
         | Inr pod1 \<Rightarrow>
         (case addContainers woc tmpl mainCtrs pod1 of
           Stop r \<Rightarrow> Stop r
         | Next pod2 \<Rightarrow>
         (case addVolumesAndMounts woc tmpl (addExecInitContainer woc tmpl pod2) of
           Stop r \<Rightarrow> Stop r
         | Next pod3 \<Rightarrow> Next (addStandardEnv woc tmpl opts pod3, tmpl))))))"

text \<open>Lines 365 to 380, over the values of the template variables of all containers.\<close>

fun verifyTemplateEnv :: "Externals \<Rightarrow> Template \<Rightarrow> string list \<Rightarrow> Template step" where
  "verifyTemplateEnv x tmpl [] = Next tmpl"
| "verifyTemplateEnv x tmpl (v # vs) =
     (case x_jsonUnmarshalTemplate x v tmpl of
        Inl err \<Rightarrow> Stop (Failed err)
      | Inr tmpl' \<Rightarrow>
          (case verifyResolvedVariables x (tmpl_ArchiveLocation tmpl') of
             Some err \<Rightarrow> Stop (Failed err)
           | None \<Rightarrow> verifyTemplateEnv x tmpl' vs))"

definition templateEnvValues :: "Pod \<Rightarrow> string list" where
  "templateEnvValues pod =
     concat (map (\<lambda>c. map ev_Value (filter (\<lambda>e. ev_Name e = EnvVarTemplate) (c_Env c)))
               (ps_Containers (pod_Spec pod)))"

text \<open>Lines 356 to 380.\<close>

definition substituteAndVerify :: "wfOperationCtx \<Rightarrow> Pod \<Rightarrow> Template \<Rightarrow> (Pod \<times> Template) step" where
  "substituteAndVerify woc pod0 tmpl0 =
     (case substitutePodParams (woc_x woc) pod0 (woc_globalParams woc) tmpl0 of
        Stop r \<Rightarrow> Stop r
      | Next pod \<Rightarrow>
          (case verifyTemplateEnv (woc_x woc) tmpl0 (templateEnvValues pod) of
             Stop r \<Rightarrow> Stop r
           | Next tmpl \<Rightarrow> Next (pod, tmpl)))"

text \<open>
  Lines 383 to 418. The template that \<^verbatim>\<open>ProcessArgs\<close> returns is local to the block; the
  template that goes on is the one whose patch is the merged patch.
\<close>

definition applyPodSpecPatch :: "wfOperationCtx \<Rightarrow> Pod \<Rightarrow> Template \<Rightarrow> (Pod \<times> Template) step" where
  "applyPodSpecPatch woc pod tmpl0 =
     (if \<not> hasPodSpecPatch woc tmpl0 then Next (pod, tmpl0)
      else
        (case x_jsonMarshalPodSpec (woc_x woc) (pod_Spec pod) of
           Inl err \<Rightarrow> Stop (Failed (ArgoWrap err CodeEmpty ''Failed to marshal the Pod spec''))
         | Inr jsonstr \<Rightarrow>
        (case x_PodSpecPatchMerge (woc_x woc) tmpl0 of
           Inl err \<Rightarrow> Stop (Failed (ArgoWrap err CodeEmpty
             ''Failed to merge the workflow PodSpecPatch with the template PodSpecPatch due to invalid format''))
         | Inr merged \<Rightarrow>
        (let tmpl1 = tmpl0\<lparr>tmpl_PodSpecPatch := merged\<rparr>;
             localParams = (if IsPodType tmpl1 then [LocalVarPodName \<mapsto> pod_Name pod] else Map.empty)
         in case x_ProcessArgs (woc_x woc) tmpl1 (woc_globalParams woc) localParams of
           Inl err \<Rightarrow> Stop (Failed (ArgoWrap err CodeEmpty ''Failed to substitute the PodSpecPatch variables''))
         | Inr tmpl \<Rightarrow>
        (case x_jsonUnmarshalPodSpec (woc_x woc) (tmpl_PodSpecPatch tmpl) of
           Inl err \<Rightarrow> Stop (Failed (FmtWrap ''invalid podSpecPatch %q: %w'' [tmpl_PodSpecPatch tmpl] err))
         | Inr _ \<Rightarrow>
        (case x_StrategicMergePatch (woc_x woc) jsonstr (tmpl_PodSpecPatch tmpl) of
           Inl err \<Rightarrow> Stop (Failed (ArgoWrap err CodeEmpty ''Error occurred during strategic merge patch''))
         | Inr modJson \<Rightarrow>
        (case x_jsonUnmarshalPodSpec (woc_x woc) modJson of
           Inl err \<Rightarrow> Stop (Failed (ArgoWrap err CodeEmpty ''Error in Unmarshalling after merge the patch''))
         | Inr spec \<Rightarrow> Next (pod\<lparr>pod_Spec := spec\<rparr>, tmpl1))))))))"

text \<open>Lines 420 to 437: the loop over the containers of the pod.\<close>

definition emissaryCommand :: "wfOperationCtx \<Rightarrow> Container \<Rightarrow> Container" where
  "emissaryCommand woc c =
     (if length (c_Command c) = 0
      then (let x = getImage woc (c_Image c)
            in c\<lparr>c_Command := img_Command x,
                 c_Args := (if c_Args c = None then img_Args x else c_Args c)\<rparr>)
      else c)"

definition emissaryNoCommandFormat :: string where
  "emissaryNoCommandFormat =
     ''container %q in template %q, does not have the command specified: when using the emissary executor you must either explicitly specify the command, or list the image's command in the index: https://argoproj.github.io/argo-workflows/workflow-executors/#emissary-emissary''"

fun wrapContainers :: "wfOperationCtx \<Rightarrow> Template \<Rightarrow> Container list \<Rightarrow> Container list step" where
  "wrapContainers woc tmpl [] = Next []"
| "wrapContainers woc tmpl (c # cs) =
     (if woc_getContainerRuntimeExecutor woc = ContainerRuntimeExecutorEmissary
         \<and> c_Name c \<noteq> WaitContainerName
      then
        (let c1 = emissaryCommand woc c
         in if length (c_Command c1) = 0
            then Stop (Failed (FmtError emissaryNoCommandFormat [c_Name c1, tmpl_Name tmpl]))
            else (case wrapContainers woc tmpl cs of
                    Stop r \<Rightarrow> Stop r
                  | Next cs' \<Rightarrow>
                      Next (appendVolumeMounts [volumeMountVarArgo]
                              (c1\<lparr>c_Command := [''/var/run/argo/argoexec'', ''emissary'', ''--'']
                                                @ c_Command c1\<rparr>) # cs')))
      else (case wrapContainers woc tmpl cs of
              Stop r \<Rightarrow> Stop r
            | Next cs' \<Rightarrow> Next (appendVolumeMounts [volumeMountVarArgo] c # cs')))"

definition wrapEmissary :: "wfOperationCtx \<Rightarrow> Template \<Rightarrow> Pod \<Rightarrow> Pod step" where
  "wrapEmissary woc tmpl pod =
     (case wrapContainers woc tmpl (ps_Containers (pod_Spec pod)) of
        Stop r \<Rightarrow> Stop r
      | Next ctrs \<Rightarrow> Next (pod\<lparr>pod_Spec := (pod_Spec pod)\<lparr>ps_Containers := ctrs\<rparr>\<rparr>))"

text \<open>Lines 440 to 457: the timeout of the template.\<close>

definition applyTemplateDeadline :: "wfOperationCtx \<Rightarrow> string \<Rightarrow> Template \<Rightarrow> Pod \<Rightarrow> Pod step" where
  "applyTemplateDeadline woc nodeName tmpl pod =
     (let node = woc_GetNodeByName woc nodeName
      in case woc_checkTemplateTimeout woc tmpl node of
           Inl err \<Rightarrow> Stop (Failed err)
         | Inr templateDeadline \<Rightarrow>
             (case scheduleOnDifferentHost woc node pod of
                Some err \<Rightarrow> Stop (Failed err)
              | None \<Rightarrow>
                  (case templateDeadline of
                     None \<Rightarrow> Next pod
                   | Some td \<Rightarrow>
                       if (case ps_ActiveDeadlineSeconds (pod_Spec pod) of
                             None \<Rightarrow> True
                           | Some ads \<Rightarrow> x_sinceSecondsLess (woc_x woc) td ads)
                       then (let newActiveDeadlineSeconds = x_timeUntilSeconds (woc_x woc) td
                             in if newActiveDeadlineSeconds \<le> 1
                                then Stop (Failed (FmtError ''%s exceeded its deadline'' [nodeName]))
                                else Next (pod\<lparr>pod_Spec := (pod_Spec pod)
                                       \<lparr>ps_ActiveDeadlineSeconds := Some newActiveDeadlineSeconds\<rparr>\<rparr>))
                       else Next pod)))"

text \<open>Lines 149 to 380: the descriptor after the substitution of the variables.\<close>

definition substitutedPod :: "wfOperationCtx \<Rightarrow> string \<Rightarrow> Container list \<Rightarrow> Template
    \<Rightarrow> createWorkflowPodOpts \<Rightarrow> (Pod \<times> Template) step" where
  "substitutedPod woc nodeName mainCtrs tmpl0 opts =
     (case assemblePod woc nodeName mainCtrs tmpl0 opts of
        Stop r \<Rightarrow> Stop r
      | Next (pod1, tmpl1) \<Rightarrow> substituteAndVerify woc pod1 tmpl1)"

text \<open>Lines 149 to 418: the descriptor after the pod spec patch.\<close>

definition patchedPod :: "wfOperationCtx \<Rightarrow> string \<Rightarrow> Container list \<Rightarrow> Template
    \<Rightarrow> createWorkflowPodOpts \<Rightarrow> (Pod \<times> Template) step" where
  "patchedPod woc nodeName mainCtrs tmpl0 opts =
     (case substitutedPod woc nodeName mainCtrs tmpl0 opts of
        Stop r \<Rightarrow> Stop r
      | Next (pod2, tmpl2) \<Rightarrow> applyPodSpecPatch woc pod2 tmpl2)"

text \<open>Lines 149 to 457: the pod that is handed to the rate limiter and the create call.\<close>

definition buildPod :: "wfOperationCtx \<Rightarrow> string \<Rightarrow> Container list \<Rightarrow> Template
    \<Rightarrow> createWorkflowPodOpts \<Rightarrow> Pod step" where
  "buildPod woc nodeName mainCtrs tmpl0 opts =
     (case patchedPod woc nodeName mainCtrs tmpl0 opts of
        Stop r \<Rightarrow> Stop r
      | Next (pod3, tmpl3) \<Rightarrow>
          (case wrapEmissary woc tmpl3 pod3 of
             Stop r \<Rightarrow> Stop r
           | Next pod4 \<Rightarrow> applyTemplateDeadline woc nodeName tmpl3 pod4))"

text \<open>Lines 459 to 481: the rate limiter and the create call.\<close>

definition submitPod :: "wfOperationCtx \<Rightarrow> Pod \<Rightarrow> result \<times> wfOperationCtx" where
  "submitPod woc pod =
     (if \<not> ctl_rateLimiterAllow (woc_controller woc) then (Failed ErrResourceRateLimitReached, woc)
      else
        (let woc' = woc\<lparr>woc_createCalls := woc_createCalls woc @ [pod]\<rparr>
         in case ctl_podsCreate (woc_controller woc) pod of
              (created, Some err) \<Rightarrow>
                if x_IsAlreadyExists (woc_x woc) err then (Returned created, woc')
                else if x_IsTransientErr (woc_x woc) err then (Failed err, woc')
                else (Failed (InternalWrapError err), woc')
            | (created, None) \<Rightarrow>
                (case created of
                   None \<Rightarrow> (Panicked ''invalid memory address or nil pointer dereference'', woc')
                 | Some c \<Rightarrow> (Returned (Some c), woc'\<lparr>woc_activePods := woc_activePods woc' + 1\<rparr>))))"

definition createWorkflowPod :: "wfOperationCtx \<Rightarrow> string \<Rightarrow> Container list \<Rightarrow> Template
    \<Rightarrow> createWorkflowPodOpts \<Rightarrow> result \<times> wfOperationCtx" where
  "createWorkflowPod woc nodeName mainCtrs tmpl opts =
     (case podExists woc (woc_NodeID woc nodeName) of
        (existing, exists, Some err) \<Rightarrow> (Failed err, woc)
      | (existing, exists, None) \<Rightarrow>
          if exists then (Returned existing, woc)
          else if \<not> woc_ShouldExecute woc (onExitPod opts)
          then (Returned None,
                woc\<lparr>woc_markedNodes := woc_markedNodes woc @
                  [(nodeName, NodeSkipped,
                    ''workflow shutdown with strategy: '' @ woc_ShutdownStrategy woc)]\<rparr>)
          else (case buildPod woc nodeName mainCtrs tmpl opts of
                  Stop r \<Rightarrow> (r, woc)
                | Next pod \<Rightarrow> submitPod woc pod))"

text \<open>
  Modelled from the spec: \<^verbatim>\<open>errors.IsCode\<close> of package errors is not under src/. The spec
  has the bad-request errors and the internal errors as two kinds, told apart by the code
  an error carries; an error that \<^verbatim>\<open>fmt.Errorf\<close> or a collaborator made carries none.
\<close>

fun IsCode :: "ErrorCode \<Rightarrow> error \<Rightarrow> bool" where
  "IsCode code (ArgoError c format args) = (c = code)"
| "IsCode code (ArgoWrap err c message) = (c = code)"
| "IsCode code (InternalWrapError err) = (code = CodeInternal)"
| "IsCode code err = False"

subsection \<open>Notions of the statements\<close>

text \<open>
  \<open>appendsFreshNames before after\<close>: the list \<open>after\<close> is \<open>before\<close> with volumes appended
  whose names differ from each other and from every name in \<open>before\<close>.
\<close>

definition appendsFreshNames :: "Volume list \<Rightarrow> Volume list \<Rightarrow> bool" where
  "appendsFreshNames before after =
     (\<exists>added. after = before @ added \<and> distinct (map v_Name added)
        \<and> set (map v_Name added) \<inter> set (map v_Name before) = {})"

text \<open>
  The names of the volumes a pod starts with (\<^verbatim>\<open>createVolumes\<close>, then the token volume of
  \<^verbatim>\<open>setupServiceAccount\<close>), and the names of the volumes that \<^verbatim>\<open>addVolumeReferences\<close>,
  \<^verbatim>\<open>addInputArtifactsVolumes\<close> and \<^verbatim>\<open>addScriptStagingVolume\<close> append without looking at the
  names in the list.
\<close>

definition baseVolumeNames :: "wfOperationCtx \<Rightarrow> Template \<Rightarrow> string list" where
  "baseVolumeNames woc tmpl =
     map v_Name (createVolumes woc tmpl)
     @ (if executorServiceAccountName woc tmpl \<noteq> [] then [ServiceAccountTokenVolumeName] else [])"

definition uncheckedVolumeNames :: "wfOperationCtx \<Rightarrow> Template \<Rightarrow> string list" where
  "uncheckedVolumeNames woc tmpl =
     (if GetType tmpl \<in> {TemplateTypeContainer, TemplateTypeContainerSet, TemplateTypeScript,
                            TemplateTypeData}
      then map v_Name (fst (createSecretVolumes (woc_x woc) tmpl)) else [])
     @ (if tmpl_InputArtifacts tmpl = [] then [] else [''input-artifacts''])
     @ (if GetType tmpl = TemplateTypeScript then [''argo-staging''] else [])"

text \<open>
  A container the emissary executor cannot start: it is not the wait container, it has
  no command, and the image index has no command for its image.
\<close>

definition commandUnresolved :: "wfOperationCtx \<Rightarrow> Container \<Rightarrow> bool" where
  "commandUnresolved woc c =
     (c_Name c \<noteq> WaitContainerName \<and> c_Command c = []
      \<and> img_Command (getImage woc (c_Image c)) = [])"

text \<open>
  The stages after the assembly leave the deadline of the assembled descriptor \<open>pod1\<close>
  alone: the substitution gives it back as it was, no pod spec patch is configured and no
  timeout of the template applies. (When the substitution fails no pod is created.)
\<close>

definition deadlineLeftAlone :: "wfOperationCtx \<Rightarrow> string \<Rightarrow> Pod \<Rightarrow> Template \<Rightarrow> bool" where
  "deadlineLeftAlone woc nodeName pod1 t1 =
     (case substituteAndVerify woc pod1 t1 of
        Next (pod2, t2) \<Rightarrow>
          ps_ActiveDeadlineSeconds (pod_Spec pod2) = ps_ActiveDeadlineSeconds (pod_Spec pod1)
          \<and> \<not> hasPodSpecPatch woc t2
          \<and> woc_checkTemplateTimeout woc t2 (woc_GetNodeByName woc nodeName) = Inr None
      | Stop r \<Rightarrow> True)"

text \<open>
  The invariant of \<^verbatim>\<open>volMap\<close>: one entry per secret name, and the volume of an entry is named
  after its key.
\<close>

definition volMapOk :: "volMap \<Rightarrow> bool" where
  "volMapOk vm = (distinct (map fst vm) \<and> (\<forall>(k, v) \<in> set vm. v_Name v = k))"

subsection \<open>Concrete inputs\<close>

definition secretRef :: "string \<Rightarrow> string \<Rightarrow> SecretKeySelector option" where
  "secretRef name key = Some \<lparr>sks_Name = name, sks_Key = key\<rparr>"

definition s3Artifact :: "string \<Rightarrow> string \<Rightarrow> SecretKeySelector option \<Rightarrow> SecretKeySelector option \<Rightarrow> Artifact" where
  "s3Artifact name path accessKey secretKey =
     \<lparr>al_ArchiveLogs = None,
      al_S3 = Some \<lparr>s3_AccessKeySecret = accessKey, s3_SecretKeySecret = secretKey\<rparr>,
      al_Git = None, al_Artifactory = None, al_HDFS = None, al_OSS = None, al_GCS = None,
      art_Name = name, art_Path = path, art_Optional = False\<rparr>"

definition secretVolume :: "string \<Rightarrow> string list \<Rightarrow> Volume" where
  "secretVolume name keys =
     \<lparr>v_Name = name,
      v_VolumeSource = Secret \<lparr>svs_SecretName = name,
                               svs_Items = map (\<lambda>k. \<lparr>kp_Key = k, kp_Path = k\<rparr>) keys\<rparr>\<rparr>"

definition plainContainer :: "string \<Rightarrow> string \<Rightarrow> string list \<Rightarrow> Container" where
  "plainContainer name img command =
     \<lparr>c_Name = name, c_Image = img, c_ImagePullPolicy = [], c_Command = command, c_Args = None,
      c_Env = [], c_VolumeMounts = [],
      c_Resources = \<lparr>rr_Limits = [], rr_Requests = []\<rparr>,
      c_SecurityContext = None\<rparr>"

definition debugContainer :: Container where
  "debugContainer =
     (plainContainer ''main'' ''alpine'' [''sh''])
       \<lparr>c_Env := [\<lparr>ev_Name = ''ARGO_DEBUG_PAUSE_AFTER'', ev_Value = ''true'', ev_FieldRef = None\<rparr>]\<rparr>"

definition plainTemplate :: "string \<Rightarrow> TemplateBody \<Rightarrow> Template" where
  "plainTemplate name body =
     \<lparr>tmpl_Name = name, tmpl_Body = body, tmpl_InputParameters = [], tmpl_InputArtifacts = [],
      tmpl_OutputArtifacts = [], tmpl_Volumes = [], tmpl_InitContainers = [], tmpl_Sidecars = [],
      tmpl_ArchiveLocation = None, tmpl_ActiveDeadlineSeconds = None, tmpl_Executor = None,
      tmpl_ServiceAccountName = [], tmpl_AutomountServiceAccountToken = None,
      tmpl_NodeSelector = [], tmpl_PodSpecPatch = []\<rparr>"

definition containerTemplate :: Template where
  "containerTemplate = plainTemplate ''t'' (BContainer (plainContainer ''main'' ''alpine'' [''sh'']))"

definition scriptTemplate :: Template where
  "scriptTemplate =
     plainTemplate ''s''
       (BScript \<lparr>script_Container = plainContainer ''main'' ''python'' [''python''],
                 script_Source = ''print(1)''\<rparr>)"

text \<open>
  Two artifacts on the secrets \<^verbatim>\<open>s3-creds\<close> and \<^verbatim>\<open>s3\<close>: the name and key of the first
  reference and of the third one both concatenate to \<^verbatim>\<open>s3-creds-access\<close>.
\<close>

definition collidingSecretsTemplate :: Template where
  "collidingSecretsTemplate =
     containerTemplate
       \<lparr>tmpl_OutputArtifacts :=
          [s3Artifact ''out'' ''/out'' (secretRef ''s3-creds'' ''access'') (secretRef ''s3'' ''secret'')],
        tmpl_InputArtifacts :=
          [s3Artifact ''in'' ''/in'' (secretRef ''s3'' ''creds-access'') None]\<rparr>"

text \<open>
  A template that declares the secret \<^verbatim>\<open>s3-creds\<close> as a volume of its own and uses the
  same secret for the credentials of an output artifact.
\<close>

definition mountedSecretTemplate :: Template where
  "mountedSecretTemplate =
     containerTemplate
       \<lparr>tmpl_Volumes := [secretVolume ''s3-creds'' []],
        tmpl_OutputArtifacts :=
          [s3Artifact ''out'' ''/out'' (secretRef ''s3-creds'' ''access'') None]\<rparr>"

text \<open>
  A container set whose containers are named \<^verbatim>\<open>a\<close> and \<^verbatim>\<open>b\<close>, with an input artifact that
  has no path.
\<close>

definition noMainTemplate :: Template where
  "noMainTemplate =
     (plainTemplate ''set''
        (BContainerSet \<lparr>cs_VolumeMounts = [],
                        cs_Containers = [plainContainer ''a'' ''alpine'' [''sh''],
                                         plainContainer ''b'' ''alpine'' [''sh'']]\<rparr>))
       \<lparr>tmpl_InputArtifacts := [s3Artifact ''in'' [] None None]\<rparr>"

text \<open>
  Three pod spec patches: a YAML text that breaks off in the middle, a JSON object whose
  \<^verbatim>\<open>containers\<close> is a number, and a JSON object whose only container has no name, the key
  by which a strategic merge matches the containers of a pod spec. \<open>keylessSpec\<close> is the
  pod spec the last one decodes to.
\<close>

definition malformedPatch :: string where
  "malformedPatch = ''containers: [{name: main''"

definition schemaPatch :: string where
  \<open>schemaPatch = ''{"containers":5}''\<close>

definition keylessPatch :: string where
  \<open>keylessPatch = ''{"containers":[{"image":"x"}]}''\<close>

definition keylessSpec :: PodSpec where
  "keylessSpec =
     \<lparr>ps_Volumes = [], ps_InitContainers = [], ps_Containers = [plainContainer [] ''x'' []],
      ps_ActiveDeadlineSeconds = None, ps_ShareProcessNamespace = None,
      ps_ServiceAccountName = [], ps_AutomountServiceAccountToken = None\<rparr>"

text \<open>
  Collaborators that answer plainly: the clock reads an instant as the seconds until it,
  nothing is a Windows path, no artifact path overlaps a mount, the template variables
  resolve, and JSON of a pod is not available (see \<open>roundTrip\<close> below). The JSON of a pod
  spec is not spelled out, the text \<^verbatim>\<open>spec\<close> stands for it. Of the patch texts above,
  \<^verbatim>\<open>util.PodSpecPatchMerge\<close> gives the two JSON objects back as they are (no patch of the
  workflow is merged in) and cannot convert any other text; only \<open>keylessPatch\<close> decodes
  to a pod spec; and the strategic merge of \<open>keylessPatch\<close> into a pod spec fails on the
  container without a name.
\<close>

definition plainExternals :: Externals where
  "plainExternals =
     \<lparr>x_Atoi = (\<lambda>s. None),
      x_secondsUntil = (\<lambda>t. t),
      x_timeUntilSeconds = (\<lambda>t. t),
      x_sinceSecondsLess = (\<lambda>t n. - t < n),
      x_FormatRFC3339 = (\<lambda>t. ''0001-01-01T00:00:00Z''),
      x_DurationString = (\<lambda>d. ''0s''),
      x_Itoa = (\<lambda>i. ''0''),
      x_PodName = (\<lambda>wfName nodeName tmplName nodeID. nodeID),
      x_HasWindowsOSNodeSelector = (\<lambda>sel. False),
      x_IsWindowsUNCPath = (\<lambda>path tmpl. False),
      x_filepathJoin = (\<lambda>a b. a @ b),
      x_GetServiceAccountTokenName = (\<lambda>ns name. Inr (name @ ''-token'')),
      x_getExecutorLogLevel = ''info'',
      x_Getenv = (\<lambda>name. []),
      x_HasLocation = (\<lambda>loc. loc \<noteq> None),
      x_ArtifactHasLocation = (\<lambda>art. True),
      x_HasLocationOrKey = (\<lambda>art. True),
      x_FindOverlappingVolume = (\<lambda>tmpl path. None),
      x_MustMarshallJSON = (\<lambda>tmpl. ''{}''),
      x_jsonMarshalPod = (\<lambda>pod. Inl (External ''json: unsupported value'')),
      x_templateReplace = (\<lambda>s params. Inr s),
      x_jsonUnmarshalPod = (\<lambda>s. Inl (External ''unexpected end of JSON input'')),
      x_jsonUnmarshalTemplate = (\<lambda>s tmpl. Inr tmpl),
      x_jsonMarshalArchiveLocation = (\<lambda>loc. Inr ''null''),
      x_templateValidate = (\<lambda>s validator. None),
      x_jsonMarshalPodSpec = (\<lambda>spec. Inr ''spec''),
      x_PodSpecPatchMerge =
        (\<lambda>tmpl. if tmpl_PodSpecPatch tmpl = schemaPatch \<or> tmpl_PodSpecPatch tmpl = keylessPatch
               then Inr (tmpl_PodSpecPatch tmpl)
               else Inl (External ''yaml: did not find expected node content'')),
      x_ProcessArgs = (\<lambda>tmpl globalParams localParams. Inr tmpl),
      x_jsonUnmarshalPodSpec =
        (\<lambda>s. if s = keylessPatch then Inr keylessSpec
             else Inl (External ''json: cannot unmarshal number into Go struct field PodSpec.containers'')),
      x_StrategicMergePatch =
        (\<lambda>original patch.
           if patch = keylessPatch
           then Inl (External ''map: map[image:x] does not contain declared merge key: name'')
           else Inr original),
      x_IsAlreadyExists = (\<lambda>err. err = External ''AlreadyExists''),
      x_IsTransientErr = (\<lambda>err. err = External ''ServiceUnavailable''),
      x_mapRangeRank = (\<lambda>k. 0)\<rparr>"

definition plainConfig :: Config where
  "plainConfig =
     \<lparr>cfg_MainContainer = None, cfg_Executor = None, cfg_ExecutorResources = None,
      cfg_KubeConfig = None, cfg_DockerSockPath = [], cfg_Images = None,
      cfg_KubeletPort = 10250, cfg_KubeletInsecure = False\<rparr>"

definition plainController :: WorkflowController where
  "plainController =
     \<lparr>ctl_Config = plainConfig,
      ctl_executorImage = ''argoexec:latest'',
      ctl_executorImagePullPolicy = ''IfNotPresent'',
      ctl_progressPatchTickDuration = 0,
      ctl_progressFileTickDuration = 0,
      ctl_rateLimiterAllow = True,
      ctl_podsCreate = (\<lambda>pod. (Some pod, None)),
      ctl_podInformerByIndex = (\<lambda>key. Inr [])\<rparr>"

text \<open>
  An operation context for the executor given: no pod of the node in the informer, no
  shutdown, no workflow deadline, no timeout of the template.
\<close>

definition plainWoc :: "string \<Rightarrow> wfOperationCtx" where
  "plainWoc executor =
     \<lparr>woc_wfName = ''wf'',
      woc_wfNamespace = ''argo'',
      woc_NodeID = (\<lambda>nodeName. ''wf-'' @ nodeName),
      woc_GetNodeByName = (\<lambda>nodeName. Some \<lparr>node_ID = ''wf-'' @ nodeName, node_Name = nodeName\<rparr>),
      woc_execWfSpec = \<lparr>wfs_ServiceAccountName = [], wfs_AutomountServiceAccountToken = None,
                        wfs_Executor = None, wfs_ArchiveLogs = None, wfs_PodSpecPatch = []\<rparr>,
      woc_controller = plainController,
      woc_volumes = [],
      woc_PersistentVolumeClaims = [],
      woc_globalParams = Map.empty,
      woc_workflowDeadline = None,
      woc_getWorkflowDeadline = None,
      woc_ShouldExecute = (\<lambda>onExit. True),
      woc_ShutdownStrategy = [],
      woc_getContainerRuntimeExecutor = executor,
      woc_artifactRepositoryIsArchiveLogs = False,
      woc_artifactRepositoryToArtifactLocation = None,
      woc_checkTemplateTimeout = (\<lambda>tmpl node. Inr None),
      woc_retryOnDifferentHost = (\<lambda>node. None),
      woc_activePods = 0,
      woc_markedNodes = [],
      woc_createCalls = [],
      woc_x = plainExternals\<rparr>"

definition plainOpts :: createWorkflowPodOpts where
  "plainOpts = \<lparr>includeScriptOutput = False, onExitPod = False, executionDeadline = 0\<rparr>"

definition emptyPod :: Pod where
  "emptyPod =
     \<lparr>pod_Name = [], pod_Namespace = [], pod_DefaultContainer = [], pod_OnExit = False,
      pod_Spec = \<lparr>ps_Volumes = [], ps_InitContainers = [], ps_Containers = [],
                  ps_ActiveDeadlineSeconds = None, ps_ShareProcessNamespace = None,
                  ps_ServiceAccountName = [], ps_AutomountServiceAccountToken = None\<rparr>\<rparr>"

text \<open>
  \<open>roundTrip woc nodeName mainCtrs tmpl opts\<close> is \<open>woc\<close> with a JSON of pods that gives the
  assembled descriptor of this invocation back as it is: no placeholder is left in it to
  substitute.
\<close>

definition assembledPod :: "wfOperationCtx \<Rightarrow> string \<Rightarrow> Container list \<Rightarrow> Template
    \<Rightarrow> createWorkflowPodOpts \<Rightarrow> Pod" where
  "assembledPod woc nodeName mainCtrs tmpl opts =
     (case assemblePod woc nodeName mainCtrs tmpl opts of
        Next (pod, t) \<Rightarrow> pod
      | Stop r \<Rightarrow> emptyPod)"

definition roundTrip :: "wfOperationCtx \<Rightarrow> string \<Rightarrow> Container list \<Rightarrow> Template
    \<Rightarrow> createWorkflowPodOpts \<Rightarrow> wfOperationCtx" where
  "roundTrip woc nodeName mainCtrs tmpl opts =
     woc\<lparr>woc_x := (woc_x woc)
       \<lparr>x_jsonMarshalPod :=
          (\<lambda>pod. if pod = assembledPod woc nodeName mainCtrs tmpl opts then Inr ''pod''
                 else Inl (External ''json: unsupported value'')),
        x_jsonUnmarshalPod :=
          (\<lambda>s. if s = ''pod'' then Inr (assembledPod woc nodeName mainCtrs tmpl opts)
               else Inl (External ''unexpected end of JSON input''))\<rparr>\<rparr>"


text \<open>
  Contexts of the examples: a workflow deadline the given number of seconds away, a
  template with \<^verbatim>\<open>activeDeadlineSeconds: 30\<close> and one with \<^verbatim>\<open>activeDeadlineSeconds: soon\<close>, a
  timeout of the template an hour away for a node that exists (alone, and with a workflow
  deadline a minute away), an informer whose index is missing while the workflow deadline
  is five seconds in the past, and a cluster client whose create call fails with the
  error given and hands back no object.
\<close>

definition deadlineWoc :: "int \<Rightarrow> wfOperationCtx" where
  "deadlineWoc seconds =
     (plainWoc ContainerRuntimeExecutorDocker)
       \<lparr>woc_workflowDeadline := Some seconds, woc_getWorkflowDeadline := Some seconds\<rparr>"

definition deadlineTemplate :: Template where
  "deadlineTemplate = containerTemplate\<lparr>tmpl_ActiveDeadlineSeconds := Some (IntVal 30)\<rparr>"

definition timeoutWoc :: wfOperationCtx where
  "timeoutWoc =
     (plainWoc ContainerRuntimeExecutorDocker)
       \<lparr>woc_checkTemplateTimeout :=
          (\<lambda>tmpl node. case node of None \<Rightarrow> Inr None | Some n \<Rightarrow> Inr (Some 3600))\<rparr>"

definition unconvertibleTemplate :: Template where
  "unconvertibleTemplate = containerTemplate\<lparr>tmpl_ActiveDeadlineSeconds := Some (StrVal ''soon'')\<rparr>"

definition deadlineTimeoutWoc :: wfOperationCtx where
  "deadlineTimeoutWoc =
     (deadlineWoc 60)
       \<lparr>woc_checkTemplateTimeout :=
          (\<lambda>tmpl node. case node of None \<Rightarrow> Inr None | Some n \<Rightarrow> Inr (Some 3600))\<rparr>"

definition brokenInformerWoc :: wfOperationCtx where
  "brokenInformerWoc =
     (deadlineWoc (- 5))
       \<lparr>woc_controller := plainController
          \<lparr>ctl_podInformerByIndex :=
             (\<lambda>key. Inl (External ''Index with name workflows.argoproj.io/node-id does not exist''))\<rparr>\<rparr>"

definition createFailsWoc :: "error \<Rightarrow> wfOperationCtx" where
  "createFailsWoc err =
     (plainWoc ContainerRuntimeExecutorDocker)
       \<lparr>woc_controller := plainController
          \<lparr>ctl_podsCreate := (\<lambda>pod. (None, Some err))\<rparr>\<rparr>"

definition mainContainer :: Container where
  "mainContainer = plainContainer ''main'' ''alpine'' [''sh'']"

text \<open>
  A pod with the wait container and one main container, and the same pod with two
  containers of a container set that are named \<^verbatim>\<open>a\<close> and \<^verbatim>\<open>b\<close>.
\<close>

definition waitAndMainPod :: Pod where
  "waitAndMainPod =
     emptyPod\<lparr>pod_Spec := (pod_Spec emptyPod)
       \<lparr>ps_Containers := [plainContainer ''wait'' ''argoexec:latest'' [''argoexec'', ''wait''],
                           mainContainer]\<rparr>\<rparr>"

definition waitAndSetPod :: Pod where
  "waitAndSetPod =
     emptyPod\<lparr>pod_Spec := (pod_Spec emptyPod)
       \<lparr>ps_Containers := [plainContainer ''wait'' ''argoexec:latest'' [''argoexec'', ''wait''],
                           plainContainer ''a'' ''alpine'' [''sh''],
                           plainContainer ''b'' ''alpine'' [''sh'']]\<rparr>\<rparr>"

text \<open>
  A template with a volume mounted at \<^verbatim>\<open>/data\<close> and three input artifacts: one under
  \<^verbatim>\<open>/data/sub\<close>, one that is optional and has no location, one at \<^verbatim>\<open>/in\<close>; and the same
  template with a fourth artifact that has no path. In \<open>overlapWoc\<close> the path
  \<^verbatim>\<open>/data/sub\<close> overlaps the mount, and an artifact has a location when its S3 part is set.
\<close>

definition dataMount :: VolumeMount where
  "dataMount = \<lparr>vm_Name = ''data'', vm_MountPath = ''/data'', vm_SubPath = [], vm_ReadOnly = False\<rparr>"

definition noLocationArtifact :: "string \<Rightarrow> string \<Rightarrow> bool \<Rightarrow> Artifact" where
  "noLocationArtifact name path optional =
     \<lparr>al_ArchiveLogs = None, al_S3 = None, al_Git = None, al_Artifactory = None, al_HDFS = None,
      al_OSS = None, al_GCS = None, art_Name = name, art_Path = path, art_Optional = optional\<rparr>"

definition artifactsTemplate :: Template where
  "artifactsTemplate =
     (plainTemplate ''arts''
        (BContainer ((plainContainer ''main'' ''alpine'' [''sh''])\<lparr>c_VolumeMounts := [dataMount]\<rparr>)))
       \<lparr>tmpl_Volumes := [\<lparr>v_Name = ''data'', v_VolumeSource = EmptyDir\<rparr>],
        tmpl_InputArtifacts :=
          [s3Artifact ''sub'' ''/data/sub'' None None,
           noLocationArtifact ''opt'' ''/opt'' True,
           s3Artifact ''in'' ''/in'' None None]\<rparr>"

definition noPathTemplate :: Template where
  "noPathTemplate =
     artifactsTemplate\<lparr>tmpl_InputArtifacts :=
       tmpl_InputArtifacts artifactsTemplate @ [s3Artifact ''nowhere'' [] None None]\<rparr>"

definition overlapWoc :: wfOperationCtx where
  "overlapWoc =
     (plainWoc ContainerRuntimeExecutorDocker)
       \<lparr>woc_x := plainExternals
          \<lparr>x_HasLocationOrKey := (\<lambda>art. al_S3 art \<noteq> None),
           x_FindOverlappingVolume :=
             (\<lambda>tmpl path. if path = ''/data/sub'' then Some dataMount else None)\<rparr>\<rparr>"

definition setContainers :: "Container list" where
  "setContainers = [plainContainer ''a'' ''alpine'' [''sh''], plainContainer ''b'' ''alpine'' [''sh'']]"

text \<open>
  The emissary executor with an image index that knows the command of \<^verbatim>\<open>alpine\<close>; two
  main containers that give no command, one on \<^verbatim>\<open>alpine\<close> and one on an image the index
  does not list.
\<close>

definition emissaryWoc :: wfOperationCtx where
  "emissaryWoc =
     (plainWoc ContainerRuntimeExecutorEmissary)
       \<lparr>woc_controller := plainController
          \<lparr>ctl_Config := plainConfig
             \<lparr>cfg_Images := Some [''alpine'' \<mapsto> \<lparr>img_Command = [''/bin/sh''], img_Args = Some [''-c'']\<rparr>]\<rparr>\<rparr>\<rparr>"

definition indexedContainer :: Container where
  "indexedContainer = plainContainer ''main'' ''alpine'' []"

definition unindexedContainer :: Container where
  "unindexedContainer = plainContainer ''main'' ''busybox'' []"

text \<open>A container template with the pod spec patch given.\<close>

definition patchTemplate :: "string \<Rightarrow> Template" where
  "patchTemplate patch = containerTemplate\<lparr>tmpl_PodSpecPatch := patch\<rparr>"

section \<open>Properties of the stages\<close>

subsection \<open>What a stage leaves as it is\<close>

lemma updateFirstNamed_names:
  "(\<And>c. c_Name (f c) = c_Name c) \<Longrightarrow> map c_Name (updateFirstNamed n f cs) = map c_Name cs"
  by (induction cs) auto

lemma appendVolumeMounts_name [simp]: "c_Name (appendVolumeMounts m c) = c_Name c"
  by (simp add: appendVolumeMounts_def)

lemma updateFirstNamed_append_names [simp]:
  "map c_Name (updateFirstNamed n (appendVolumeMounts m) cs) = map c_Name cs"
  by (rule updateFirstNamed_names) simp

lemma addVolumeReferences_frame:
  assumes "addVolumeReferences x pod vols tmpl pvcs = Inr pod'"
  shows "map c_Name (ps_Containers (pod_Spec pod')) = map c_Name (ps_Containers (pod_Spec pod))
       \<and> ps_ActiveDeadlineSeconds (pod_Spec pod') = ps_ActiveDeadlineSeconds (pod_Spec pod)
       \<and> ps_ShareProcessNamespace (pod_Spec pod') = ps_ShareProcessNamespace (pod_Spec pod)"
  using assms
  by (auto simp: addVolumeReferences_def Let_def split: if_splits sum.splits prod.splits)

lemma addArtifactMounts_name:
  "addArtifactMounts woc tmpl c arts = Inr c' \<Longrightarrow> c_Name c' = c_Name c"
  by (induction arts arbitrary: c) (auto split: if_splits option.splits)

lemma addArtifactMountsToMain_names:
  "addArtifactMountsToMain woc tmpl cs = Inr cs' \<Longrightarrow> map c_Name cs' = map c_Name cs"
  by (induction cs arbitrary: cs') (auto split: if_splits sum.splits dest: addArtifactMounts_name)

lemma addInputArtifactsVolumes_frame:
  assumes "addInputArtifactsVolumes woc pod tmpl = Inr pod'"
  shows "map c_Name (ps_Containers (pod_Spec pod')) = map c_Name (ps_Containers (pod_Spec pod))
       \<and> ps_ActiveDeadlineSeconds (pod_Spec pod') = ps_ActiveDeadlineSeconds (pod_Spec pod)
       \<and> ps_ShareProcessNamespace (pod_Spec pod') = ps_ShareProcessNamespace (pod_Spec pod)"
  using assms
  by (auto simp: addInputArtifactsVolumes_def Let_def split: if_splits sum.splits
           dest: addArtifactMountsToMain_names)

lemma addScriptStagingVolume_frame:
  assumes "addScriptStagingVolume pod = Next pod'"
  shows "map c_Name (ps_Containers (pod_Spec pod')) = map c_Name (ps_Containers (pod_Spec pod))
       \<and> ps_ActiveDeadlineSeconds (pod_Spec pod') = ps_ActiveDeadlineSeconds (pod_Spec pod)
       \<and> ps_ShareProcessNamespace (pod_Spec pod') = ps_ShareProcessNamespace (pod_Spec pod)"
  using assms
  by (auto simp: addScriptStagingVolume_def Let_def split: if_splits)

lemma mirroredContainer_name [simp]: "c_Name (mirroredContainer m u) = c_Name (uc_Container u)"
  by (simp add: mirroredContainer_def mirrorVolumeMounts_def split: option.splits)

lemma map_update_same: "(map f xs)[i := f (xs ! i)] = map f xs"
  by (metis list_update_id map_update)

lemma addOutputArtifactsVolumes_frame:
  "map c_Name (ps_Containers (pod_Spec (addOutputArtifactsVolumes x pod tmpl))) = map c_Name (ps_Containers (pod_Spec pod))
       \<and> ps_ActiveDeadlineSeconds (pod_Spec (addOutputArtifactsVolumes x pod tmpl)) = ps_ActiveDeadlineSeconds (pod_Spec pod)
       \<and> ps_ShareProcessNamespace (pod_Spec (addOutputArtifactsVolumes x pod tmpl)) = ps_ShareProcessNamespace (pod_Spec pod)
       \<and> ps_Volumes (pod_Spec (addOutputArtifactsVolumes x pod tmpl)) = ps_Volumes (pod_Spec pod)"
  by (auto simp: addOutputArtifactsVolumes_def Let_def map_update map_update_same split: sum.splits)

subsection \<open>Secret volumes\<close>

lemma appendSecretItem_name [simp]: "v_Name (appendSecretItem vol key) = v_Name vol"
  by (simp add: appendSecretItem_def split: VolumeSource.splits)

lemma set_update_subset: "set (AList.update k v al) \<subseteq> insert (k, v) (set al)"
  by (induction al) auto

lemma volMapOk_update: "volMapOk vm \<Longrightarrow> v_Name v = k \<Longrightarrow> volMapOk (AList.update k v vm)"
  unfolding volMapOk_def using set_update_subset [of k v vm]
  by (auto simp: distinct_update)

lemma volMapOk_lookup: "volMapOk vm \<Longrightarrow> map_of vm k = Some v \<Longrightarrow> v_Name v = k"
  unfolding volMapOk_def by (auto dest!: map_of_SomeD)

lemma createSecretVal_ok:
  "volMapOk vm \<Longrightarrow> volMapOk (fst (createSecretVal vm s km))"
  by (auto simp: createSecretVal_def Let_def split: option.splits
           intro!: volMapOk_update dest: volMapOk_lookup)

lemma createSecretVals_ok:
  "volMapOk vm \<Longrightarrow> volMapOk (fst (createSecretVals vm ss km))"
  unfolding createSecretVals_def
proof (induction ss arbitrary: vm km)
  case Nil
  then show ?case by simp
next
  case (Cons s ss)
  obtain vm' km' where e: "createSecretVal vm s km = (vm', km')" by force
  with createSecretVal_ok [OF Cons.prems, of s km] have "volMapOk vm'" by simp
  from Cons.IH [OF this, of km'] e show ?case by simp
qed

lemma createSecretVolume_ok:
  "volMapOk vm \<Longrightarrow> volMapOk (fst (createSecretVolume vm art km))"
  by (simp add: createSecretVolume_def createSecretVals_ok split: option.splits)

lemma createSecretVolumeList_ok:
  "volMapOk vm \<Longrightarrow> volMapOk (fst (createSecretVolumeList vm arts km))"
  unfolding createSecretVolumeList_def
proof (induction arts arbitrary: vm km)
  case Nil
  then show ?case by simp
next
  case (Cons a arts)
  obtain vm' km' where e: "createSecretVolume vm a km = (vm', km')" by force
  with createSecretVolume_ok [OF Cons.prems, of a km] have "volMapOk vm'" by simp
  from Cons.IH [OF this, of km'] e show ?case by simp
qed

lemma createArchiveLocationSecret_ok:
  "volMapOk vm \<Longrightarrow> volMapOk (fst (createArchiveLocationSecret tmpl vm km))"
  by (simp add: createArchiveLocationSecret_def createSecretVals_ok split: option.splits)

lemma collectSecretVolumes_ok: "volMapOk (fst (collectSecretVolumes tmpl))"
proof -
  have 0: "volMapOk []" by (simp add: volMapOk_def)
  obtain vm0 km0 where e0: "createArchiveLocationSecret tmpl [] (\<lambda>_. False) = (vm0, km0)" by force
  with createArchiveLocationSecret_ok [OF 0, of tmpl "\<lambda>_. False"] have 1: "volMapOk vm0" by simp
  obtain vm1 km1 where e1: "createSecretVolumeList vm0 (tmpl_OutputArtifacts tmpl) km0 = (vm1, km1)" by force
  with createSecretVolumeList_ok [OF 1, of "tmpl_OutputArtifacts tmpl" km0] have 2: "volMapOk vm1" by simp
  obtain vm2 km2 where e2: "createSecretVolumeList vm1 (tmpl_InputArtifacts tmpl) km1 = (vm2, km2)" by force
  with createSecretVolumeList_ok [OF 2, of "tmpl_InputArtifacts tmpl" km1] have 3: "volMapOk vm2" by simp
  show ?thesis
    using e0 e1 e2 3 createSecretVolume_ok [OF 3]
    by (simp add: collectSecretVolumes_def split: option.splits)
qed

lemma createSecretVolumes_names:
  "map v_Name (fst (createSecretVolumes x tmpl))
     = map fst (sort_key (\<lambda>(k, val). x_mapRangeRank x k) (fst (collectSecretVolumes tmpl)))"
proof -
  have "\<forall>(k, v) \<in> set (fst (collectSecretVolumes tmpl)). v_Name v = k"
    using collectSecretVolumes_ok [of tmpl] by (simp add: volMapOk_def)
  then show ?thesis
    by (auto simp: createSecretVolumes_def Let_def)
qed

lemma createSecretVolumes_distinct:
  "distinct (map v_Name (fst (createSecretVolumes x tmpl)))"
proof -
  have "distinct (map fst (fst (collectSecretVolumes tmpl)))"
    using collectSecretVolumes_ok [of tmpl] by (simp add: volMapOk_def)
  then show ?thesis
    unfolding createSecretVolumes_names by (simp add: distinct_map)
qed

subsection \<open>Volumes and containers of the assembled descriptor\<close>

lemma appendsFreshNames_refl: "appendsFreshNames vs vs"
  by (simp add: appendsFreshNames_def)

lemma appendsFreshNames_trans:
  assumes "appendsFreshNames a b" "appendsFreshNames b c"
  shows "appendsFreshNames a c"
proof -
  from assms(1) obtain ab where ab: "b = a @ ab" "distinct (map v_Name ab)"
    "set (map v_Name ab) \<inter> set (map v_Name a) = {}"
    unfolding appendsFreshNames_def by blast
  from assms(2) obtain bc where bc: "c = b @ bc" "distinct (map v_Name bc)"
    "set (map v_Name bc) \<inter> set (map v_Name b) = {}"
    unfolding appendsFreshNames_def by blast
  have "c = a @ (ab @ bc)" using ab(1) bc(1) by simp
  moreover have "distinct (map v_Name (ab @ bc))" using ab bc by auto
  moreover have "set (map v_Name (ab @ bc)) \<inter> set (map v_Name a) = {}" using ab bc by auto
  ultimately show ?thesis unfolding appendsFreshNames_def by blast
qed

lemma appendsFreshNames_snoc:
  "v_Name vol \<notin> set (map v_Name vs) \<Longrightarrow> appendsFreshNames vs (vs @ [vol])"
  unfolding appendsFreshNames_def by (intro exI [of _ "[vol]"]) simp

lemma addVolumeRef_fresh:
  "addVolumeRef tmpl vols pvcs pv ms = Inr pv' \<Longrightarrow> appendsFreshNames pv pv'"
proof (induction ms arbitrary: pv)
  case Nil
  then show ?case by (simp add: appendsFreshNames_refl)
next
  case (Cons m ms)
  from Cons.prems obtain vol where
    r: "addVolumeRef tmpl vols pvcs
          (if list_ex (\<lambda>v. v_Name v = v_Name vol) pv then pv else pv @ [vol]) ms = Inr pv'"
    by (auto split: option.splits)
  have "appendsFreshNames pv (if list_ex (\<lambda>v. v_Name v = v_Name vol) pv then pv else pv @ [vol])"
  proof (cases "list_ex (\<lambda>v. v_Name v = v_Name vol) pv")
    case True
    then show ?thesis by (simp add: appendsFreshNames_refl)
  next
    case False
    then have "v_Name vol \<notin> set (map v_Name pv)" by (force simp: list_ex_iff)
    with False show ?thesis by (simp add: appendsFreshNames_snoc)
  qed
  from appendsFreshNames_trans [OF this Cons.IH [OF r]] show ?case .
qed

lemma addVolumeRefContainers_fresh:
  "addVolumeRefContainers tmpl vols pvcs pv cs = Inr pv' \<Longrightarrow> appendsFreshNames pv pv'"
proof (induction cs arbitrary: pv)
  case Nil
  then show ?case by (simp add: appendsFreshNames_refl)
next
  case (Cons c cs)
  from Cons.prems obtain pv1 where
    1: "addVolumeRef tmpl vols pvcs pv (c_VolumeMounts (uc_Container c)) = Inr pv1"
    and 2: "addVolumeRefContainers tmpl vols pvcs pv1 cs = Inr pv'"
    by (auto split: sum.splits)
  from appendsFreshNames_trans [OF addVolumeRef_fresh [OF 1] Cons.IH [OF 2]] show ?case .
qed

lemma addVolumeReferences_volumes:
  assumes "addVolumeReferences x pod vols tmpl pvcs = Inr pod'"
  shows "\<exists>vs. appendsFreshNames (ps_Volumes (pod_Spec pod)) vs
           \<and> ps_Volumes (pod_Spec pod') =
               vs @ (if GetType tmpl \<in> {TemplateTypeContainer, TemplateTypeContainerSet,
                                           TemplateTypeScript, TemplateTypeData}
                     then fst (createSecretVolumes x tmpl) else [])"
proof (cases "GetType tmpl \<in> {TemplateTypeContainer, TemplateTypeContainerSet,
                                 TemplateTypeScript, TemplateTypeData}")
  case False
  with assms show ?thesis
    by (auto simp: addVolumeReferences_def appendsFreshNames_refl intro!: exI [of _ "ps_Volumes (pod_Spec pod)"])
next
  case True
  with assms obtain vs1 vs2 vs3 where
    1: "addVolumeRef tmpl vols pvcs (ps_Volumes (pod_Spec pod)) (GetVolumeMounts tmpl) = Inr vs1"
    and 2: "addVolumeRefContainers tmpl vols pvcs vs1 (tmpl_InitContainers tmpl) = Inr vs2"
    and 3: "addVolumeRefContainers tmpl vols pvcs vs2 (tmpl_Sidecars tmpl) = Inr vs3"
    and 4: "ps_Volumes (pod_Spec pod') = vs3 @ fst (createSecretVolumes x tmpl)"
    by (auto simp: addVolumeReferences_def Let_def split: sum.splits prod.splits)
  have "appendsFreshNames (ps_Volumes (pod_Spec pod)) vs3"
    using appendsFreshNames_trans [OF appendsFreshNames_trans [OF addVolumeRef_fresh [OF 1]
      addVolumeRefContainers_fresh [OF 2]] addVolumeRefContainers_fresh [OF 3]] .
  with 4 True show ?thesis by auto
qed

lemma addInputArtifactsVolumes_volumes:
  assumes "addInputArtifactsVolumes woc pod tmpl = Inr pod'"
  shows "ps_Volumes (pod_Spec pod') = ps_Volumes (pod_Spec pod)
           @ (if tmpl_InputArtifacts tmpl = [] then []
              else [\<lparr>v_Name = ''input-artifacts'', v_VolumeSource = EmptyDir\<rparr>])"
  using assms
  by (auto simp: addInputArtifactsVolumes_def Let_def split: if_splits sum.splits)

lemma addScriptStagingVolume_volumes:
  assumes "addScriptStagingVolume pod = Next pod'"
  shows "ps_Volumes (pod_Spec pod') = ps_Volumes (pod_Spec pod)
           @ [\<lparr>v_Name = ''argo-staging'', v_VolumeSource = EmptyDir\<rparr>]"
  using assms
  by (auto simp: addScriptStagingVolume_def Let_def split: if_splits)

lemma setupServiceAccount_frame:
  assumes "setupServiceAccount woc pod tmpl = Inr pod'"
  shows "ps_Containers (pod_Spec pod') = ps_Containers (pod_Spec pod)
       \<and> ps_InitContainers (pod_Spec pod') = ps_InitContainers (pod_Spec pod)
       \<and> ps_ActiveDeadlineSeconds (pod_Spec pod') = ps_ActiveDeadlineSeconds (pod_Spec pod)
       \<and> ps_ShareProcessNamespace (pod_Spec pod') = ps_ShareProcessNamespace (pod_Spec pod)
       \<and> map v_Name (ps_Volumes (pod_Spec pod')) = map v_Name (ps_Volumes (pod_Spec pod))
           @ (if executorServiceAccountName woc tmpl \<noteq> [] then [ServiceAccountTokenVolumeName] else [])"
  using assms
  by (auto simp: setupServiceAccount_def Let_def split: if_splits sum.splits)

lemma addContainers_frame:
  assumes "addContainers woc tmpl mainCtrs pod = Next pod'"
  shows "ps_Containers (pod_Spec pod') = ps_Containers (pod_Spec pod)
           @ (if GetType tmpl \<noteq> TemplateTypeResource \<and> GetType tmpl \<noteq> TemplateTypeData
              then [newWaitContainer woc tmpl] else []) @ mainCtrs
       \<and> ps_ActiveDeadlineSeconds (pod_Spec pod') = ps_ActiveDeadlineSeconds (pod_Spec pod)
       \<and> ps_ShareProcessNamespace (pod_Spec pod') = ps_ShareProcessNamespace (pod_Spec pod)
       \<and> ps_Volumes (pod_Spec pod') = ps_Volumes (pod_Spec pod)"
  using assms
  by (auto simp: addContainers_def Let_def split: if_splits)

lemma addExecInitContainer_frame:
  "ps_Containers (pod_Spec (addExecInitContainer woc tmpl pod)) = ps_Containers (pod_Spec pod)
       \<and> ps_ActiveDeadlineSeconds (pod_Spec (addExecInitContainer woc tmpl pod)) = ps_ActiveDeadlineSeconds (pod_Spec pod)
       \<and> ps_ShareProcessNamespace (pod_Spec (addExecInitContainer woc tmpl pod)) = ps_ShareProcessNamespace (pod_Spec pod)
       \<and> ps_Volumes (pod_Spec (addExecInitContainer woc tmpl pod)) = ps_Volumes (pod_Spec pod)"
  by (simp add: addExecInitContainer_def)

lemma addEnvVars_name [simp]: "c_Name (addEnvVars e c) = c_Name c"
  by (simp add: addEnvVars_def)

lemma addStandardEnv_frame:
  "map c_Name (ps_Containers (pod_Spec (addStandardEnv woc tmpl opts pod))) = map c_Name (ps_Containers (pod_Spec pod))
       \<and> ps_ActiveDeadlineSeconds (pod_Spec (addStandardEnv woc tmpl opts pod)) = ps_ActiveDeadlineSeconds (pod_Spec pod)
       \<and> ps_ShareProcessNamespace (pod_Spec (addStandardEnv woc tmpl opts pod)) = ps_ShareProcessNamespace (pod_Spec pod)
       \<and> ps_Volumes (pod_Spec (addStandardEnv woc tmpl opts pod)) = ps_Volumes (pod_Spec pod)"
  by (simp add: addStandardEnv_def Let_def)

lemma addInitSidecars_frame:
  "map c_Name (ps_Containers (pod_Spec (addSidecars (addInitContainers pod tmpl) tmpl)))
      = map c_Name (ps_Containers (pod_Spec pod)) @ map (\<lambda>u. c_Name (uc_Container u)) (tmpl_Sidecars tmpl)
   \<and> ps_ActiveDeadlineSeconds (pod_Spec (addSidecars (addInitContainers pod tmpl) tmpl)) = ps_ActiveDeadlineSeconds (pod_Spec pod)
   \<and> ps_ShareProcessNamespace (pod_Spec (addSidecars (addInitContainers pod tmpl) tmpl)) = ps_ShareProcessNamespace (pod_Spec pod)
   \<and> ps_Volumes (pod_Spec (addSidecars (addInitContainers pod tmpl) tmpl)) = ps_Volumes (pod_Spec pod)"
  by (simp add: addSidecars_def addInitContainers_def Let_def)

lemma addVolumesAndMounts_stages:
  assumes "addVolumesAndMounts woc tmpl pod = Next pod'"
  obtains pod1 pod2 pod3 where
    "addVolumeReferences (woc_x woc) pod (woc_volumes woc) tmpl (woc_PersistentVolumeClaims woc) = Inr pod1"
    "addInputArtifactsVolumes woc pod1 tmpl = Inr pod2"
    "(if GetType tmpl = TemplateTypeScript then addScriptStagingVolume pod2 else Next pod2) = Next pod3"
    "pod' = addOutputArtifactsVolumes (woc_x woc) (addSidecars (addInitContainers pod3 tmpl) tmpl) tmpl"
  using assms unfolding addVolumesAndMounts_def
  by (auto split: sum.splits step.splits)

lemma addVolumesAndMounts_frame:
  assumes "addVolumesAndMounts woc tmpl pod = Next pod'"
  shows "map c_Name (ps_Containers (pod_Spec pod')) =
           map c_Name (ps_Containers (pod_Spec pod))
           @ map (\<lambda>u. c_Name (uc_Container u)) (tmpl_Sidecars tmpl)"
    and "ps_ActiveDeadlineSeconds (pod_Spec pod') = ps_ActiveDeadlineSeconds (pod_Spec pod)"
    and "ps_ShareProcessNamespace (pod_Spec pod') = ps_ShareProcessNamespace (pod_Spec pod)"
proof -
  from assms obtain pod1 pod2 pod3 where
    1: "addVolumeReferences (woc_x woc) pod (woc_volumes woc) tmpl (woc_PersistentVolumeClaims woc) = Inr pod1"
    and 2: "addInputArtifactsVolumes woc pod1 tmpl = Inr pod2"
    and 3: "(if GetType tmpl = TemplateTypeScript then addScriptStagingVolume pod2 else Next pod2) = Next pod3"
    and 4: "pod' = addOutputArtifactsVolumes (woc_x woc) (addSidecars (addInitContainers pod3 tmpl) tmpl) tmpl"
    by (rule addVolumesAndMounts_stages)
  note f1 = addVolumeReferences_frame [OF 1]
  note f2 = addInputArtifactsVolumes_frame [OF 2]
  have f3: "map c_Name (ps_Containers (pod_Spec pod3)) = map c_Name (ps_Containers (pod_Spec pod2))
       \<and> ps_ActiveDeadlineSeconds (pod_Spec pod3) = ps_ActiveDeadlineSeconds (pod_Spec pod2)
       \<and> ps_ShareProcessNamespace (pod_Spec pod3) = ps_ShareProcessNamespace (pod_Spec pod2)"
    using 3 addScriptStagingVolume_frame [of pod2 pod3] by (simp split: if_splits)
  note f4 = addInitSidecars_frame [of pod3 tmpl]
  note f5 = addOutputArtifactsVolumes_frame [of "woc_x woc" "addSidecars (addInitContainers pod3 tmpl) tmpl" tmpl]
  show "map c_Name (ps_Containers (pod_Spec pod')) =
           map c_Name (ps_Containers (pod_Spec pod))
           @ map (\<lambda>u. c_Name (uc_Container u)) (tmpl_Sidecars tmpl)"
    using f1 f2 f3 f4 f5 unfolding 4 by simp
  show "ps_ActiveDeadlineSeconds (pod_Spec pod') = ps_ActiveDeadlineSeconds (pod_Spec pod)"
    using f1 f2 f3 f4 f5 unfolding 4 by simp
  show "ps_ShareProcessNamespace (pod_Spec pod') = ps_ShareProcessNamespace (pod_Spec pod)"
    using f1 f2 f3 f4 f5 unfolding 4 by simp
qed

lemma addVolumesAndMounts_volumes:
  assumes "addVolumesAndMounts woc tmpl pod = Next pod'"
  shows "\<exists>vs. appendsFreshNames (ps_Volumes (pod_Spec pod)) vs
           \<and> ps_Volumes (pod_Spec pod') =
               vs @ (if GetType tmpl \<in> {TemplateTypeContainer, TemplateTypeContainerSet,
                                           TemplateTypeScript, TemplateTypeData}
                     then fst (createSecretVolumes (woc_x woc) tmpl) else [])
                  @ (if tmpl_InputArtifacts tmpl = [] then []
                     else [\<lparr>v_Name = ''input-artifacts'', v_VolumeSource = EmptyDir\<rparr>])
                  @ (if GetType tmpl = TemplateTypeScript
                     then [\<lparr>v_Name = ''argo-staging'', v_VolumeSource = EmptyDir\<rparr>] else [])"
proof -
  from assms obtain pod1 pod2 pod3 where
    1: "addVolumeReferences (woc_x woc) pod (woc_volumes woc) tmpl (woc_PersistentVolumeClaims woc) = Inr pod1"
    and 2: "addInputArtifactsVolumes woc pod1 tmpl = Inr pod2"
    and 3: "(if GetType tmpl = TemplateTypeScript then addScriptStagingVolume pod2 else Next pod2) = Next pod3"
    and 4: "pod' = addOutputArtifactsVolumes (woc_x woc) (addSidecars (addInitContainers pod3 tmpl) tmpl) tmpl"
    by (rule addVolumesAndMounts_stages)
  from addVolumeReferences_volumes [OF 1] obtain vs where
    vs: "appendsFreshNames (ps_Volumes (pod_Spec pod)) vs"
    and v1: "ps_Volumes (pod_Spec pod1) =
               vs @ (if GetType tmpl \<in> {TemplateTypeContainer, TemplateTypeContainerSet,
                                           TemplateTypeScript, TemplateTypeData}
                     then fst (createSecretVolumes (woc_x woc) tmpl) else [])"
    by blast
  note v2 = addInputArtifactsVolumes_volumes [OF 2]
  have v3: "ps_Volumes (pod_Spec pod3) = ps_Volumes (pod_Spec pod2)
              @ (if GetType tmpl = TemplateTypeScript
                 then [\<lparr>v_Name = ''argo-staging'', v_VolumeSource = EmptyDir\<rparr>] else [])"
    using 3 addScriptStagingVolume_volumes [of pod2 pod3] by (simp split: if_splits)
  have v4: "ps_Volumes (pod_Spec pod') = ps_Volumes (pod_Spec pod3)"
    unfolding 4 using addInitSidecars_frame [of pod3 tmpl]
      addOutputArtifactsVolumes_frame [of "woc_x woc" "addSidecars (addInitContainers pod3 tmpl) tmpl" tmpl]
    by simp
  show ?thesis
    by (rule exI [of _ vs]) (simp only: vs v1 v2 v3 v4 append_assoc simp_thms)
qed

lemma assemblePod_stages:
  assumes "assemblePod woc nodeName mainCtrs tmpl opts = Next (pod, t)"
  obtains ads pod1 pod2 pod3 where
    "resolveActiveDeadlineSeconds woc (map (prepareMainCtr woc tmpl) mainCtrs) tmpl opts = Next ads"
    "addArchiveLocation woc tmpl = Next t"
    "setupServiceAccount woc (newPod woc nodeName tmpl opts ads) t = Inr pod1"
    "addContainers woc t (map (prepareMainCtr woc tmpl) mainCtrs) pod1 = Next pod2"
    "addVolumesAndMounts woc t (addExecInitContainer woc t pod2) = Next pod3"
    "pod = addStandardEnv woc t opts pod3"
  using assms unfolding assemblePod_def Let_def
  by (auto split: sum.splits step.splits)

lemma addArchiveLocation_frame:
  "addArchiveLocation woc tmpl = Next t \<Longrightarrow> \<exists>loc. t = tmpl\<lparr>tmpl_ArchiveLocation := loc\<rparr>"
  by (auto simp: addArchiveLocation_def Let_def split: if_splits option.splits
           intro: exI [of _ "tmpl_ArchiveLocation tmpl"])

lemma GetType_ArchiveLocation [simp]: "GetType (tmpl\<lparr>tmpl_ArchiveLocation := loc\<rparr>) = GetType tmpl"
  by (simp add: GetType_def)

lemma createVolumes_ArchiveLocation [simp]:
  "createVolumes woc (tmpl\<lparr>tmpl_ArchiveLocation := loc\<rparr>) = createVolumes woc tmpl"
  by (simp add: createVolumes_def getVolumeDockerSock_def getDockerSockPath_def
        getVolumeHostPathType_def)

lemma executorServiceAccountName_ArchiveLocation [simp]:
  "executorServiceAccountName woc (tmpl\<lparr>tmpl_ArchiveLocation := loc\<rparr>) = executorServiceAccountName woc tmpl"
  by (simp add: executorServiceAccountName_def)

lemma newExecContainer_name [simp]: "c_Name (newExecContainer woc name tmpl) = name"
  by (simp add: newExecContainer_def Let_def split: option.splits)

lemma newWaitContainer_name [simp]: "c_Name (newWaitContainer woc tmpl) = WaitContainerName"
  by (simp add: newWaitContainer_def Let_def)

lemma prepareMainCtr_name:
  "c_Name (prepareMainCtr woc tmpl c) =
     (if c_Name c = [] \<or> GetType tmpl \<noteq> TemplateTypeContainerSet then MainContainerName else c_Name c)"
  by (simp add: prepareMainCtr_def Let_def split: TemplateBody.splits option.splits)

lemma prepareMainCtr_env [simp]: "c_Env (prepareMainCtr woc tmpl c) = c_Env c"
  by (simp add: prepareMainCtr_def Let_def split: TemplateBody.splits option.splits)

lemma markedForDebugging_prepare [simp]:
  "markedForDebugging (map (prepareMainCtr woc tmpl) mainCtrs) = markedForDebugging mainCtrs"
  by (simp add: markedForDebugging_def list_ex_iff)

lemma newPod_spec [simp]:
  "ps_Containers (pod_Spec (newPod woc nodeName tmpl opts ads)) = []"
  "ps_ActiveDeadlineSeconds (pod_Spec (newPod woc nodeName tmpl opts ads)) = ads"
  "ps_ShareProcessNamespace (pod_Spec (newPod woc nodeName tmpl opts ads)) =
     (if woc_getContainerRuntimeExecutor woc = ContainerRuntimeExecutorPNS then Some True else None)"
  "ps_Volumes (pod_Spec (newPod woc nodeName tmpl opts ads)) = createVolumes woc tmpl"
  by (simp_all add: newPod_def)

lemma assemblePod_containers:
  assumes "assemblePod woc nodeName mainCtrs tmpl opts = Next (pod, t)"
  shows "map c_Name (ps_Containers (pod_Spec pod)) =
           (if GetType tmpl = TemplateTypeResource \<or> GetType tmpl = TemplateTypeData then []
            else [WaitContainerName])
           @ map (\<lambda>c. if c_Name c = [] \<or> GetType tmpl \<noteq> TemplateTypeContainerSet
                       then MainContainerName else c_Name c) mainCtrs
           @ map (\<lambda>u. c_Name (uc_Container u)) (tmpl_Sidecars tmpl)"
proof -
  from assms obtain ads pod1 pod2 pod3 where
    s: "addArchiveLocation woc tmpl = Next t"
       "setupServiceAccount woc (newPod woc nodeName tmpl opts ads) t = Inr pod1"
       "addContainers woc t (map (prepareMainCtr woc tmpl) mainCtrs) pod1 = Next pod2"
       "addVolumesAndMounts woc t (addExecInitContainer woc t pod2) = Next pod3"
       "pod = addStandardEnv woc t opts pod3"
    by (rule assemblePod_stages)
  from addArchiveLocation_frame [OF s(1)] obtain loc where t: "t = tmpl\<lparr>tmpl_ArchiveLocation := loc\<rparr>" ..
  have 1: "ps_Containers (pod_Spec pod1) = []"
    using setupServiceAccount_frame [OF s(2)] by simp
  have 2: "map c_Name (ps_Containers (pod_Spec pod2)) =
            (if GetType tmpl = TemplateTypeResource \<or> GetType tmpl = TemplateTypeData then []
             else [WaitContainerName])
            @ map (\<lambda>c. if c_Name c = [] \<or> GetType tmpl \<noteq> TemplateTypeContainerSet
                       then MainContainerName else c_Name c) mainCtrs"
    using addContainers_frame [OF s(3)] 1 by (simp add: t prepareMainCtr_name comp_def)
  have 3: "map c_Name (ps_Containers (pod_Spec pod3)) =
             map c_Name (ps_Containers (pod_Spec pod2))
             @ map (\<lambda>u. c_Name (uc_Container u)) (tmpl_Sidecars tmpl)"
    using addVolumesAndMounts_frame(1) [OF s(4)] addExecInitContainer_frame [of woc t pod2]
    by (simp add: t)
  show ?thesis
    unfolding s(5) using addStandardEnv_frame [of woc t opts pod3] 2 3 by simp
qed

lemma assemblePod_deadline:
  assumes "assemblePod woc nodeName mainCtrs tmpl opts = Next (pod, t)"
  shows "resolveActiveDeadlineSeconds woc (map (prepareMainCtr woc tmpl) mainCtrs) tmpl opts
           = Next (ps_ActiveDeadlineSeconds (pod_Spec pod))"
    and "ps_ShareProcessNamespace (pod_Spec pod) =
           (if woc_getContainerRuntimeExecutor woc = ContainerRuntimeExecutorPNS then Some True else None)"
proof -
  from assms obtain ads pod1 pod2 pod3 where
    s: "resolveActiveDeadlineSeconds woc (map (prepareMainCtr woc tmpl) mainCtrs) tmpl opts = Next ads"
       "setupServiceAccount woc (newPod woc nodeName tmpl opts ads) t = Inr pod1"
       "addContainers woc t (map (prepareMainCtr woc tmpl) mainCtrs) pod1 = Next pod2"
       "addVolumesAndMounts woc t (addExecInitContainer woc t pod2) = Next pod3"
       "pod = addStandardEnv woc t opts pod3"
    by (rule assemblePod_stages)
  note f = setupServiceAccount_frame [OF s(2)] addContainers_frame [OF s(3)]
    addVolumesAndMounts_frame(2,3) [OF s(4)] addExecInitContainer_frame [of woc t pod2]
    addStandardEnv_frame [of woc t opts pod3]
  have "ps_ActiveDeadlineSeconds (pod_Spec pod) = ads"
    unfolding s(5) using f by simp
  with s(1) show "resolveActiveDeadlineSeconds woc (map (prepareMainCtr woc tmpl) mainCtrs) tmpl opts
           = Next (ps_ActiveDeadlineSeconds (pod_Spec pod))" by simp
  show "ps_ShareProcessNamespace (pod_Spec pod) =
           (if woc_getContainerRuntimeExecutor woc = ContainerRuntimeExecutorPNS then Some True else None)"
    unfolding s(5) using f by simp
qed

lemma assemblePod_volumes:
  assumes "assemblePod woc nodeName mainCtrs tmpl opts = Next (pod, t)"
  shows "\<exists>refs. map v_Name (ps_Volumes (pod_Spec pod)) =
                  baseVolumeNames woc t @ refs @ uncheckedVolumeNames woc t
               \<and> distinct refs \<and> set refs \<inter> set (baseVolumeNames woc t) = {}"
proof -
  from assms obtain ads pod1 pod2 pod3 where
    s: "addArchiveLocation woc tmpl = Next t"
       "setupServiceAccount woc (newPod woc nodeName tmpl opts ads) t = Inr pod1"
       "addContainers woc t (map (prepareMainCtr woc tmpl) mainCtrs) pod1 = Next pod2"
       "addVolumesAndMounts woc t (addExecInitContainer woc t pod2) = Next pod3"
       "pod = addStandardEnv woc t opts pod3"
    by (rule assemblePod_stages)
  from addArchiveLocation_frame [OF s(1)] obtain loc where t: "t = tmpl\<lparr>tmpl_ArchiveLocation := loc\<rparr>" ..
  have 1: "map v_Name (ps_Volumes (pod_Spec (addExecInitContainer woc t pod2))) = baseVolumeNames woc t"
    using setupServiceAccount_frame [OF s(2)] addContainers_frame [OF s(3)]
      addExecInitContainer_frame [of woc t pod2]
    by (simp add: baseVolumeNames_def t)
  from addVolumesAndMounts_volumes [OF s(4)] obtain vs where
    vs: "appendsFreshNames (ps_Volumes (pod_Spec (addExecInitContainer woc t pod2))) vs"
    and v: "ps_Volumes (pod_Spec pod3) =
               vs @ (if GetType t \<in> {TemplateTypeContainer, TemplateTypeContainerSet,
                                           TemplateTypeScript, TemplateTypeData}
                     then fst (createSecretVolumes (woc_x woc) t) else [])
                  @ (if tmpl_InputArtifacts t = [] then []
                     else [\<lparr>v_Name = ''input-artifacts'', v_VolumeSource = EmptyDir\<rparr>])
                  @ (if GetType t = TemplateTypeScript
                     then [\<lparr>v_Name = ''argo-staging'', v_VolumeSource = EmptyDir\<rparr>] else [])"
    by blast
  from vs obtain added where
    a: "vs = ps_Volumes (pod_Spec (addExecInitContainer woc t pod2)) @ added"
       "distinct (map v_Name added)"
       "set (map v_Name added) \<inter> set (map v_Name (ps_Volumes (pod_Spec (addExecInitContainer woc t pod2)))) = {}"
    unfolding appendsFreshNames_def by blast
  have "map v_Name (ps_Volumes (pod_Spec pod)) =
          baseVolumeNames woc t @ map v_Name added @ uncheckedVolumeNames woc t"
    unfolding s(5) using addStandardEnv_frame [of woc t opts pod3] v a(1) 1
    by (simp add: uncheckedVolumeNames_def)
  moreover have "distinct (map v_Name added)" by (rule a(2))
  moreover have "set (map v_Name added) \<inter> set (baseVolumeNames woc t) = {}"
    using a(3) 1 by simp
  ultimately show ?thesis by blast
qed

subsection \<open>From the assembled descriptor to the create call\<close>

lemma substitutedPod_stages:
  assumes "substitutedPod woc nodeName mainCtrs tmpl opts = Next (pod2, t2)"
  obtains pod1 t1 where
    "assemblePod woc nodeName mainCtrs tmpl opts = Next (pod1, t1)"
    "substituteAndVerify woc pod1 t1 = Next (pod2, t2)"
  using assms unfolding substitutedPod_def
  by (auto split: step.splits prod.splits)

lemma patchedPod_stages:
  assumes "patchedPod woc nodeName mainCtrs tmpl opts = Next (pod3, t3)"
  obtains pod1 t1 pod2 t2 where
    "assemblePod woc nodeName mainCtrs tmpl opts = Next (pod1, t1)"
    "substituteAndVerify woc pod1 t1 = Next (pod2, t2)"
    "applyPodSpecPatch woc pod2 t2 = Next (pod3, t3)"
  using assms unfolding patchedPod_def substitutedPod_def
  by (auto split: step.splits prod.splits)

lemma buildPod_patched:
  assumes "buildPod woc nodeName mainCtrs tmpl opts = Next pod"
  obtains pod3 t3 pod4 where
    "patchedPod woc nodeName mainCtrs tmpl opts = Next (pod3, t3)"
    "wrapEmissary woc t3 pod3 = Next pod4"
    "applyTemplateDeadline woc nodeName t3 pod4 = Next pod"
  using assms unfolding buildPod_def
  by (auto split: step.splits prod.splits)

lemma buildPod_stages:
  assumes "buildPod woc nodeName mainCtrs tmpl opts = Next pod"
  obtains pod1 t1 pod2 t2 pod3 t3 pod4 where
    "assemblePod woc nodeName mainCtrs tmpl opts = Next (pod1, t1)"
    "substituteAndVerify woc pod1 t1 = Next (pod2, t2)"
    "applyPodSpecPatch woc pod2 t2 = Next (pod3, t3)"
    "wrapEmissary woc t3 pod3 = Next pod4"
    "applyTemplateDeadline woc nodeName t3 pod4 = Next pod"
  using assms unfolding buildPod_def patchedPod_def substitutedPod_def
  by (auto split: step.splits prod.splits)

lemma wrapEmissary_deadline:
  "wrapEmissary woc tmpl pod = Next pod' \<Longrightarrow>
     ps_ActiveDeadlineSeconds (pod_Spec pod') = ps_ActiveDeadlineSeconds (pod_Spec pod)"
  by (auto simp: wrapEmissary_def split: step.splits)

lemma applyPodSpecPatch_unconfigured:
  "\<not> hasPodSpecPatch woc tmpl \<Longrightarrow> applyPodSpecPatch woc pod tmpl = Next (pod, tmpl)"
  by (simp add: applyPodSpecPatch_def)

lemma applyTemplateDeadline_none:
  "woc_checkTemplateTimeout woc tmpl (woc_GetNodeByName woc nodeName) = Inr None \<Longrightarrow>
     applyTemplateDeadline woc nodeName tmpl pod = Next pod' \<Longrightarrow> pod' = pod"
  by (auto simp: applyTemplateDeadline_def Let_def split: option.splits)

lemma submitPod_createCalls:
  "woc_createCalls (snd (submitPod woc pod)) = woc_createCalls woc @ [p] \<Longrightarrow> p = pod"
  by (auto simp: submitPod_def Let_def split: if_splits prod.splits option.splits)

lemma createWorkflowPod_createCalls:
  assumes "woc_createCalls (snd (createWorkflowPod woc nodeName mainCtrs tmpl opts)) = woc_createCalls woc @ [p]"
  shows "buildPod woc nodeName mainCtrs tmpl opts = Next p"
proof (cases "buildPod woc nodeName mainCtrs tmpl opts")
  case (Next pod)
  with assms have "woc_createCalls (snd (submitPod woc pod)) = woc_createCalls woc @ [p]"
    by (auto simp: createWorkflowPod_def split: prod.splits option.splits if_splits)
  from submitPod_createCalls [OF this] Next show ?thesis by simp
next
  case (Stop r)
  with assms show ?thesis
    by (auto simp: createWorkflowPod_def split: prod.splits option.splits if_splits)
qed

lemma submitted_deadline:
  assumes a: "assemblePod woc nodeName mainCtrs tmpl opts = Next (pod1, t1)"
    and l: "deadlineLeftAlone woc nodeName pod1 t1"
    and c: "woc_createCalls (snd (createWorkflowPod woc nodeName mainCtrs tmpl opts)) = woc_createCalls woc @ [p]"
  shows "ps_ActiveDeadlineSeconds (pod_Spec p) = ps_ActiveDeadlineSeconds (pod_Spec pod1)"
proof -
  from createWorkflowPod_createCalls [OF c] obtain pod1' t1' pod2 t2 pod3 t3 pod4 where
    s: "assemblePod woc nodeName mainCtrs tmpl opts = Next (pod1', t1')"
      "substituteAndVerify woc pod1' t1' = Next (pod2, t2)"
      "applyPodSpecPatch woc pod2 t2 = Next (pod3, t3)"
      "wrapEmissary woc t3 pod3 = Next pod4"
      "applyTemplateDeadline woc nodeName t3 pod4 = Next p"
    by (rule buildPod_stages)
  from s(1) a have e: "pod1' = pod1" "t1' = t1" by simp_all
  from l s(2) have k: "ps_ActiveDeadlineSeconds (pod_Spec pod2) = ps_ActiveDeadlineSeconds (pod_Spec pod1)"
    "\<not> hasPodSpecPatch woc t2"
    "woc_checkTemplateTimeout woc t2 (woc_GetNodeByName woc nodeName) = Inr None"
    unfolding deadlineLeftAlone_def e by simp_all
  from applyPodSpecPatch_unconfigured [OF k(2), of pod2] s(3) have p3: "pod3 = pod2" "t3 = t2" by simp_all
  from applyTemplateDeadline_none [OF k(3)] s(5) have "p = pod4" unfolding p3 by blast
  with wrapEmissary_deadline [OF s(4)] k(1) p3 show ?thesis by simp
qed

lemma resolveActiveDeadlineSeconds_debug:
  "markedForDebugging mainCtrs \<Longrightarrow> resolveActiveDeadlineSeconds woc mainCtrs tmpl opts = Next ads
     \<Longrightarrow> ads = None"
  by (auto simp: resolveActiveDeadlineSeconds_def split: sum.splits step.splits)

subsection \<open>Mounts of the input artifacts\<close>

lemma addArtifactMounts_empty_path:
  "find (\<lambda>art. art_Path art = []) arts = Some a \<Longrightarrow>
     addArtifactMounts woc tmpl c arts =
       Inl (ArgoError CodeBadRequest ''inputs.artifacts.%s did not specify a path'' [art_Name a])"
  by (induction arts arbitrary: c) (auto split: if_splits option.splits)

lemma addArtifactMounts_result:
  "find (\<lambda>art. art_Path art = []) arts = None \<Longrightarrow>
     addArtifactMounts woc tmpl c arts =
       Inr (c\<lparr>c_VolumeMounts := c_VolumeMounts c @
              map (\<lambda>art. \<lparr>vm_Name = ''input-artifacts'', vm_MountPath = art_Path art,
                            vm_SubPath = art_Name art, vm_ReadOnly = False\<rparr>)
                (filter (\<lambda>art. \<not> (\<not> x_HasLocationOrKey (woc_x woc) art \<and> art_Optional art)
                           \<and> x_FindOverlappingVolume (woc_x woc) tmpl (art_Path art) = None) arts)\<rparr>)"
  by (induction arts arbitrary: c) (auto split: if_splits option.splits)

lemma addArtifactMountsToMain_empty_path:
  "find (\<lambda>art. art_Path art = []) (tmpl_InputArtifacts tmpl) = Some a \<Longrightarrow>
   list_ex (\<lambda>c. c_Name c = MainContainerName) cs \<Longrightarrow>
     addArtifactMountsToMain woc tmpl cs =
       Inl (ArgoError CodeBadRequest ''inputs.artifacts.%s did not specify a path'' [art_Name a])"
  by (induction cs) (auto simp: addArtifactMounts_empty_path split: sum.splits)

lemma addArtifactMountsToMain_no_main:
  "\<not> list_ex (\<lambda>c. c_Name c = MainContainerName) cs \<Longrightarrow> addArtifactMountsToMain woc tmpl cs = Inr cs"
  by (induction cs) auto

lemma addArtifactMountsToMain_result:
  "addArtifactMountsToMain woc tmpl cs = Inr cs' \<Longrightarrow>
     map c_VolumeMounts cs' =
       map (\<lambda>c. c_VolumeMounts c @
              (if c_Name c = MainContainerName
               then map (\<lambda>art. \<lparr>vm_Name = ''input-artifacts'', vm_MountPath = art_Path art,
                                  vm_SubPath = art_Name art, vm_ReadOnly = False\<rparr>)
                      (filter (\<lambda>art. \<not> (\<not> x_HasLocationOrKey (woc_x woc) art \<and> art_Optional art)
                                 \<and> x_FindOverlappingVolume (woc_x woc) tmpl (art_Path art) = None)
                         (tmpl_InputArtifacts tmpl))
               else [])) cs"
proof (induction cs arbitrary: cs')
  case Nil
  then show ?case by simp
next
  case (Cons c cs)
  show ?case
  proof (cases "c_Name c = MainContainerName")
    case False
    with Cons show ?thesis by (auto split: sum.splits)
  next
    case True
    with Cons.prems obtain c' cs'' where
      1: "addArtifactMounts woc tmpl c (tmpl_InputArtifacts tmpl) = Inr c'"
      and 2: "addArtifactMountsToMain woc tmpl cs = Inr cs''" and 3: "cs' = c' # cs''"
      by (auto split: sum.splits)
    have "find (\<lambda>art. art_Path art = []) (tmpl_InputArtifacts tmpl) = None"
    proof (cases "find (\<lambda>art. art_Path art = []) (tmpl_InputArtifacts tmpl)")
      case None
      then show ?thesis .
    next
      case (Some a)
      from addArtifactMounts_empty_path [OF this, of woc tmpl c] 1 show ?thesis by simp
    qed
    from addArtifactMounts_result [OF this, of woc tmpl c] 1 True Cons.IH [OF 2] 3
    show ?thesis by auto
  qed
qed


subsection \<open>The commands under the emissary executor\<close>

lemma emissaryCommand_name [simp]: "c_Name (emissaryCommand woc c) = c_Name c"
  by (simp add: emissaryCommand_def Let_def)

lemma wrapContainers_unresolved:
  assumes "woc_getContainerRuntimeExecutor woc = ContainerRuntimeExecutorEmissary"
  shows "find (commandUnresolved woc) cs = Some d \<Longrightarrow>
     wrapContainers woc tmpl cs = Stop (Failed (FmtError emissaryNoCommandFormat [c_Name d, tmpl_Name tmpl]))"
proof (induction cs)
  case Nil
  then show ?case by simp
next
  case (Cons c cs)
  show ?case
  proof (cases "commandUnresolved woc c")
    case True
    with Cons.prems have "d = c" by simp
    with True assms show ?thesis
      by (simp add: commandUnresolved_def emissaryCommand_def Let_def)
  next
    case False
    with Cons.prems have "find (commandUnresolved woc) cs = Some d" by simp
    from Cons.IH [OF this] False assms show ?thesis
      by (auto simp: commandUnresolved_def emissaryCommand_def Let_def)
  qed
qed

lemma wrapContainers_resolved:
  assumes "woc_getContainerRuntimeExecutor woc = ContainerRuntimeExecutorEmissary"
  shows "find (commandUnresolved woc) cs = None \<Longrightarrow>
     wrapContainers woc tmpl cs =
       Next (map (\<lambda>c. appendVolumeMounts [volumeMountVarArgo]
                    (if c_Name c = WaitContainerName then c
                     else if c_Command c = []
                     then c\<lparr>c_Command := [''/var/run/argo/argoexec'', ''emissary'', ''--'']
                                          @ img_Command (getImage woc (c_Image c)),
                            c_Args := (if c_Args c = None then img_Args (getImage woc (c_Image c))
                                       else c_Args c)\<rparr>
                     else c\<lparr>c_Command := [''/var/run/argo/argoexec'', ''emissary'', ''--'']
                                          @ c_Command c\<rparr>)) cs)"
proof (induction cs)
  case Nil
  then show ?case by simp
next
  case (Cons c cs)
  from Cons.prems have u: "\<not> commandUnresolved woc c" and r: "find (commandUnresolved woc) cs = None"
    by (auto split: if_splits)
  from Cons.IH [OF r] u assms show ?case
    by (auto simp: commandUnresolved_def emissaryCommand_def appendVolumeMounts_def Let_def)
qed

lemma applyTemplateDeadline_containers:
  "applyTemplateDeadline woc nodeName tmpl pod = Next pod' \<Longrightarrow>
     ps_Containers (pod_Spec pod') = ps_Containers (pod_Spec pod)"
  by (auto simp: applyTemplateDeadline_def Let_def split: sum.splits option.splits if_splits)

subsection \<open>Where the panic of the script staging volume can come from\<close>

lemma resolveActiveDeadlineSeconds_panic:
  "resolveActiveDeadlineSeconds woc mainCtrs tmpl opts = Stop (Panicked s) \<Longrightarrow>
     s \<noteq> ''Unable to locate main container''"
  by (auto simp: resolveActiveDeadlineSeconds_def Let_def
           split: sum.splits option.splits if_splits step.splits)

lemma addArchiveLocation_panic:
  "addArchiveLocation woc tmpl = Stop (Panicked s) \<Longrightarrow> s \<noteq> ''Unable to locate main container''"
  by (auto simp: addArchiveLocation_def Let_def split: option.splits if_splits)

lemma addContainers_panic:
  "addContainers woc tmpl mainCtrs pod = Stop (Panicked s) \<Longrightarrow> s \<noteq> ''Unable to locate main container''"
  by (auto simp: addContainers_def Let_def split: if_splits)

lemma addVolumesAndMounts_panic:
  assumes "addVolumesAndMounts woc tmpl pod = Stop (Panicked s)"
  shows "GetType tmpl = TemplateTypeScript
       \<and> MainContainerName \<notin> set (map c_Name (ps_Containers (pod_Spec pod)))"
proof -
  from assms obtain pod1 pod2 where
    1: "addVolumeReferences (woc_x woc) pod (woc_volumes woc) tmpl (woc_PersistentVolumeClaims woc) = Inr pod1"
    and 2: "addInputArtifactsVolumes woc pod1 tmpl = Inr pod2"
    and 3: "GetType tmpl = TemplateTypeScript"
    and 4: "addScriptStagingVolume pod2 = Stop (Panicked s)"
    unfolding addVolumesAndMounts_def
    by (auto split: sum.splits step.splits if_splits)
  from 4 have "MainContainerName \<notin> set (map c_Name (ps_Containers (pod_Spec pod2)))"
    by (auto simp: addScriptStagingVolume_def Let_def list_ex_iff split: if_splits)
  with addVolumeReferences_frame [OF 1] addInputArtifactsVolumes_frame [OF 2] 3
  show ?thesis by simp
qed

lemma assemblePod_panic:
  assumes "assemblePod woc nodeName mainCtrs tmpl opts = Stop (Panicked ''Unable to locate main container'')"
  shows "mainCtrs = []"
proof (rule ccontr)
  assume ne: "mainCtrs \<noteq> []"
  let ?m = "map (prepareMainCtr woc tmpl) mainCtrs"
  from assms resolveActiveDeadlineSeconds_panic [of woc ?m tmpl opts]
  obtain ads where r: "resolveActiveDeadlineSeconds woc ?m tmpl opts = Next ads"
    by (cases "resolveActiveDeadlineSeconds woc ?m tmpl opts")
       (auto simp: assemblePod_def Let_def)
  from assms r addArchiveLocation_panic [of woc tmpl]
  obtain t where a: "addArchiveLocation woc tmpl = Next t"
    by (cases "addArchiveLocation woc tmpl") (auto simp: assemblePod_def Let_def)
  from assms r a obtain pod1 where
    s: "setupServiceAccount woc (newPod woc nodeName tmpl opts ads) t = Inr pod1"
    by (cases "setupServiceAccount woc (newPod woc nodeName tmpl opts ads) t")
       (auto simp: assemblePod_def Let_def)
  from assms r a s addContainers_panic [of woc t ?m pod1]
  obtain pod2 where c: "addContainers woc t ?m pod1 = Next pod2"
    by (cases "addContainers woc t ?m pod1") (auto simp: assemblePod_def Let_def)
  from assms r a s c
  have "addVolumesAndMounts woc t (addExecInitContainer woc t pod2)
          = Stop (Panicked ''Unable to locate main container'')"
    by (auto simp: assemblePod_def Let_def split: step.splits)
  from addVolumesAndMounts_panic [OF this]
  have ty: "GetType t = TemplateTypeScript"
    and nm: "MainContainerName \<notin> set (map c_Name (ps_Containers (pod_Spec (addExecInitContainer woc t pod2))))"
    by simp_all
  from addArchiveLocation_frame [OF a] obtain loc where t: "t = tmpl\<lparr>tmpl_ArchiveLocation := loc\<rparr>" ..
  from ty have ty': "GetType tmpl = TemplateTypeScript" by (simp add: t)
  from ne obtain m ms where "mainCtrs = m # ms" by (cases mainCtrs) auto
  then have "prepareMainCtr woc tmpl m \<in> set (ps_Containers (pod_Spec pod2))"
    using addContainers_frame [OF c] by simp
  moreover have "c_Name (prepareMainCtr woc tmpl m) = MainContainerName"
    by (simp add: prepareMainCtr_name ty')
  ultimately have "MainContainerName \<in> set (map c_Name (ps_Containers (pod_Spec pod2)))"
    by force
  with nm addExecInitContainer_frame [of woc t pod2] show False by simp
qed

lemma addInputParameters_panic:
  "addInputParameters params ps = Stop r \<Longrightarrow> r \<noteq> Panicked ''Unable to locate main container''"
  by (induction ps arbitrary: params) (auto split: option.splits)

lemma substitutePodParams_panic:
  "substitutePodParams x pod gp tmpl = Stop r \<Longrightarrow> r \<noteq> Panicked ''Unable to locate main container''"
  by (auto simp: substitutePodParams_def Let_def split: step.splits sum.splits
           dest: addInputParameters_panic)

lemma verifyTemplateEnv_panic:
  "verifyTemplateEnv x tmpl vs = Stop r \<Longrightarrow> r \<noteq> Panicked ''Unable to locate main container''"
  by (induction vs arbitrary: tmpl) (auto split: sum.splits option.splits)

lemma substituteAndVerify_panic:
  "substituteAndVerify woc pod tmpl = Stop r \<Longrightarrow> r \<noteq> Panicked ''Unable to locate main container''"
  by (auto simp: substituteAndVerify_def split: step.splits
           dest: substitutePodParams_panic verifyTemplateEnv_panic)

lemma applyPodSpecPatch_panic:
  "applyPodSpecPatch woc pod tmpl = Stop r \<Longrightarrow> r \<noteq> Panicked ''Unable to locate main container''"
  by (auto simp: applyPodSpecPatch_def Let_def split: if_splits sum.splits)

lemma wrapContainers_panic:
  "wrapContainers woc tmpl cs = Stop r \<Longrightarrow> r \<noteq> Panicked ''Unable to locate main container''"
  by (induction cs) (auto simp: Let_def split: if_splits step.splits)

lemma wrapEmissary_panic:
  "wrapEmissary woc tmpl pod = Stop r \<Longrightarrow> r \<noteq> Panicked ''Unable to locate main container''"
  by (auto simp: wrapEmissary_def split: step.splits dest: wrapContainers_panic)

lemma applyTemplateDeadline_panic:
  "applyTemplateDeadline woc nodeName tmpl pod = Stop r \<Longrightarrow> r \<noteq> Panicked ''Unable to locate main container''"
  by (auto simp: applyTemplateDeadline_def Let_def split: sum.splits option.splits if_splits)

lemma submitPod_panic:
  "fst (submitPod woc pod) \<noteq> Panicked ''Unable to locate main container''"
  by (auto simp: submitPod_def Let_def split: prod.splits option.splits)

lemma buildPod_panic:
  assumes "buildPod woc nodeName mainCtrs tmpl opts = Stop (Panicked ''Unable to locate main container'')"
  shows "mainCtrs = []"
proof (cases "assemblePod woc nodeName mainCtrs tmpl opts")
  case (Stop r)
  with assms have "r = Panicked ''Unable to locate main container''"
    by (simp add: buildPod_def patchedPod_def substitutedPod_def)
  with Stop assemblePod_panic show ?thesis by blast
next
  case (Next v)
  obtain pod1 t1 where v: "v = (pod1, t1)" by (cases v)
  show ?thesis
  proof (cases "substituteAndVerify woc pod1 t1")
    case (Stop r)
    with assms Next v substituteAndVerify_panic [OF Stop] show ?thesis
      by (simp add: buildPod_def patchedPod_def substitutedPod_def)
  next
    case n2: (Next v2)
    obtain pod2 t2 where v2: "v2 = (pod2, t2)" by (cases v2)
    show ?thesis
    proof (cases "applyPodSpecPatch woc pod2 t2")
      case (Stop r)
      with assms Next v n2 v2 applyPodSpecPatch_panic [OF Stop] show ?thesis
        by (simp add: buildPod_def patchedPod_def substitutedPod_def)
    next
      case n3: (Next v3)
      obtain pod3 t3 where v3: "v3 = (pod3, t3)" by (cases v3)
      show ?thesis
      proof (cases "wrapEmissary woc t3 pod3")
        case (Stop r)
        with assms Next v n2 v2 n3 v3 wrapEmissary_panic [OF Stop] show ?thesis
          by (simp add: buildPod_def patchedPod_def substitutedPod_def)
      next
        case n4: (Next pod4)
        with assms Next v n2 v2 n3 v3
        have "applyTemplateDeadline woc nodeName t3 pod4 = Stop (Panicked ''Unable to locate main container'')"
          by (simp add: buildPod_def patchedPod_def substitutedPod_def)
        from applyTemplateDeadline_panic [OF this] show ?thesis by simp
      qed
    qed
  qed
qed

subsection \<open>The lookup of the pod\<close>

lemma podExists_absent:
  "\<not> fst (snd (podExists woc nodeID)) \<Longrightarrow> fst (podExists woc nodeID) = None"
  by (auto simp: podExists_def split: sum.splits if_splits obj.splits)
section \<open>The claims\<close>

subsection \<open>C1: the errors of the create call\<close>

text \<open>
  C1. When no pod of the node exists yet, the workflow is not shut down, the descriptor
  \<open>pod\<close> has been built and the rate limiter lets the call through, the pod is handed to
  the create call of the cluster exactly once. When that call fails with \<open>err\<close> and hands
  back \<open>created\<close>: an already-exists error makes \<^verbatim>\<open>createWorkflowPod\<close> return \<open>created\<close>, the
  object of the failed call whatever it is, with no error; otherwise a transient error is
  returned as it is; every other error is returned wrapped as an internal error.
  Already-exists is looked at first. The pod that exists in the cluster is not fetched.
\<close>

theorem create_call_errors:
  assumes "snd (podExists woc (woc_NodeID woc nodeName)) = (False, None)"
    and "woc_ShouldExecute woc (onExitPod opts)"
    and "buildPod woc nodeName mainCtrs tmpl opts = Next pod"
    and "ctl_rateLimiterAllow (woc_controller woc)"
    and "ctl_podsCreate (woc_controller woc) pod = (created, Some err)"
  shows "createWorkflowPod woc nodeName mainCtrs tmpl opts =
           (if x_IsAlreadyExists (woc_x woc) err then Returned created
            else if x_IsTransientErr (woc_x woc) err then Failed err
            else Failed (InternalWrapError err),
            woc\<lparr>woc_createCalls := woc_createCalls woc @ [pod]\<rparr>)"
  using assms
  by (cases "podExists woc (woc_NodeID woc nodeName)")
     (simp add: createWorkflowPod_def submitPod_def Let_def)

text \<open>
  A create call that hands back no object and fails: with an already-exists error the
  result is no pod and no error, with an unavailable server the error itself, with a
  refusal the error wrapped as an internal error.
\<close>

theorem create_call_errors_witness:
  "fst (createWorkflowPod
      (roundTrip (createFailsWoc (External ''AlreadyExists'')) ''n'' [mainContainer] containerTemplate plainOpts)
      ''n'' [mainContainer] containerTemplate plainOpts) = Returned None
   \<and> fst (createWorkflowPod
      (roundTrip (createFailsWoc (External ''ServiceUnavailable'')) ''n'' [mainContainer] containerTemplate plainOpts)
      ''n'' [mainContainer] containerTemplate plainOpts) = Failed (External ''ServiceUnavailable'')
   \<and> fst (createWorkflowPod
      (roundTrip (createFailsWoc (External ''Forbidden'')) ''n'' [mainContainer] containerTemplate plainOpts)
      ''n'' [mainContainer] containerTemplate plainOpts) = Failed (InternalWrapError (External ''Forbidden''))"
proof (intro conjI)
  let ?e = "External ''AlreadyExists''"
  let ?w = "roundTrip (createFailsWoc ?e) ''n'' [mainContainer] containerTemplate plainOpts"
  have "case buildPod ?w ''n'' [mainContainer] containerTemplate plainOpts of
          Next v \<Rightarrow> True | Stop r \<Rightarrow> False"
    by code_simp
  then obtain pod where b: "buildPod ?w ''n'' [mainContainer] containerTemplate plainOpts = Next pod"
    by (auto split: step.splits)
  have 1: "snd (podExists ?w (woc_NodeID ?w ''n'')) = (False, None)" by code_simp
  have 2: "woc_ShouldExecute ?w (onExitPod plainOpts)" by code_simp
  have 3: "ctl_rateLimiterAllow (woc_controller ?w)" by code_simp
  have 4: "ctl_podsCreate (woc_controller ?w) pod = (None, Some ?e)"
    by (simp add: roundTrip_def createFailsWoc_def)
  have 5: "x_IsAlreadyExists (woc_x ?w) ?e" by code_simp
  from create_call_errors [OF 1 2 b 3 4] 5
  show "fst (createWorkflowPod ?w ''n'' [mainContainer] containerTemplate plainOpts) = Returned None"
    by simp
next
  let ?e = "External ''ServiceUnavailable''"
  let ?w = "roundTrip (createFailsWoc ?e) ''n'' [mainContainer] containerTemplate plainOpts"
  have "case buildPod ?w ''n'' [mainContainer] containerTemplate plainOpts of
          Next v \<Rightarrow> True | Stop r \<Rightarrow> False"
    by code_simp
  then obtain pod where b: "buildPod ?w ''n'' [mainContainer] containerTemplate plainOpts = Next pod"
    by (auto split: step.splits)
  have 1: "snd (podExists ?w (woc_NodeID ?w ''n'')) = (False, None)" by code_simp
  have 2: "woc_ShouldExecute ?w (onExitPod plainOpts)" by code_simp
  have 3: "ctl_rateLimiterAllow (woc_controller ?w)" by code_simp
  have 4: "ctl_podsCreate (woc_controller ?w) pod = (None, Some ?e)"
    by (simp add: roundTrip_def createFailsWoc_def)
  have 5: "\<not> x_IsAlreadyExists (woc_x ?w) ?e" "x_IsTransientErr (woc_x ?w) ?e" by code_simp+
  from create_call_errors [OF 1 2 b 3 4] 5
  show "fst (createWorkflowPod ?w ''n'' [mainContainer] containerTemplate plainOpts) = Failed ?e"
    by simp
next
  let ?e = "External ''Forbidden''"
  let ?w = "roundTrip (createFailsWoc ?e) ''n'' [mainContainer] containerTemplate plainOpts"
  have "case buildPod ?w ''n'' [mainContainer] containerTemplate plainOpts of
          Next v \<Rightarrow> True | Stop r \<Rightarrow> False"
    by code_simp
  then obtain pod where b: "buildPod ?w ''n'' [mainContainer] containerTemplate plainOpts = Next pod"
    by (auto split: step.splits)
  have 1: "snd (podExists ?w (woc_NodeID ?w ''n'')) = (False, None)" by code_simp
  have 2: "woc_ShouldExecute ?w (onExitPod plainOpts)" by code_simp
  have 3: "ctl_rateLimiterAllow (woc_controller ?w)" by code_simp
  have 4: "ctl_podsCreate (woc_controller ?w) pod = (None, Some ?e)"
    by (simp add: roundTrip_def createFailsWoc_def)
  have 5: "\<not> x_IsAlreadyExists (woc_x ?w) ?e" "\<not> x_IsTransientErr (woc_x ?w) ?e" by code_simp+
  from create_call_errors [OF 1 2 b 3 4] 5
  show "fst (createWorkflowPod ?w ''n'' [mainContainer] containerTemplate plainOpts)
          = Failed (InternalWrapError ?e)"
    by simp
qed

text \<open>
  The create call fails with an already-exists error and hands back no object:
  \<^verbatim>\<open>createWorkflowPod\<close> returns no object, after one create call.
\<close>

theorem create_call_nil_counterexample:
  "x_IsAlreadyExists
      (woc_x (roundTrip (createFailsWoc (External ''AlreadyExists'')) ''n'' [mainContainer]
                containerTemplate plainOpts))
      (External ''AlreadyExists'')
   \<and> ctl_podsCreate
        (woc_controller (roundTrip (createFailsWoc (External ''AlreadyExists'')) ''n'' [mainContainer]
                containerTemplate plainOpts))
        (assembledPod (createFailsWoc (External ''AlreadyExists'')) ''n'' [mainContainer]
                containerTemplate plainOpts)
       = (None, Some (External ''AlreadyExists''))
   \<and> fst (createWorkflowPod
        (roundTrip (createFailsWoc (External ''AlreadyExists'')) ''n'' [mainContainer] containerTemplate plainOpts)
        ''n'' [mainContainer] containerTemplate plainOpts) = Returned None
   \<and> length (woc_createCalls (snd (createWorkflowPod
        (roundTrip (createFailsWoc (External ''AlreadyExists'')) ''n'' [mainContainer] containerTemplate plainOpts)
        ''n'' [mainContainer] containerTemplate plainOpts))) = 1"
  by code_simp

subsection \<open>C2: the deadline of the pod\<close>

text \<open>
  C2. Let the template's \<^verbatim>\<open>activeDeadlineSeconds\<close> convert to \<open>tmplSeconds\<close>. For a pod that is
  not an exit handler, in a workflow whose deadline \<open>d\<close> has elapsed, when the lookup of
  the pod in the informer does not fail: \<^verbatim>\<open>createWorkflowPod\<close> returns no error and hands no
  pod to the cluster; it returns the pod of the node that exists already, and nil when
  there is none. When the descriptor is assembled and no main container carries a debug
  pause marker: with a workflow deadline and no exit handler, the deadline is ahead and
  the descriptor's \<^verbatim>\<open>activeDeadlineSeconds\<close> is the smaller of the seconds left and the
  template's value (the seconds left when the template has none); for an exit handler, or
  with no workflow deadline, it is the template's value. The pod handed to the cluster
  has the same value whenever the later stages leave the deadline alone: the substitution
  gives it back, no pod spec patch is configured and no timeout of the template applies.
\<close>

theorem workflow_deadline_of_pod:
  assumes "intstr_Int64 (woc_x woc) (tmpl_ActiveDeadlineSeconds tmpl) = Inr tmplSeconds"
  shows "(\<not> onExitPod opts \<and> woc_getWorkflowDeadline woc = Some d
            \<and> x_secondsUntil (woc_x woc) d \<le> 0
            \<and> snd (snd (podExists woc (woc_NodeID woc nodeName))) = None
          \<longrightarrow> fst (createWorkflowPod woc nodeName mainCtrs tmpl opts)
                = Returned (fst (podExists woc (woc_NodeID woc nodeName)))
              \<and> woc_createCalls (snd (createWorkflowPod woc nodeName mainCtrs tmpl opts))
                  = woc_createCalls woc)
       \<and> (assemblePod woc nodeName mainCtrs tmpl opts = Next (pod1, t1)
            \<and> \<not> markedForDebugging mainCtrs \<longrightarrow>
            (\<not> onExitPod opts \<and> woc_getWorkflowDeadline woc = Some d \<longrightarrow>
               0 < x_secondsUntil (woc_x woc) d
               \<and> ps_ActiveDeadlineSeconds (pod_Spec pod1) =
                   Some (case tmplSeconds of
                           None \<Rightarrow> x_secondsUntil (woc_x woc) d
                         | Some s \<Rightarrow> min (x_secondsUntil (woc_x woc) d) s))
          \<and> (onExitPod opts \<or> woc_getWorkflowDeadline woc = None \<longrightarrow>
               ps_ActiveDeadlineSeconds (pod_Spec pod1) = tmplSeconds)
          \<and> (deadlineLeftAlone woc nodeName pod1 t1 \<longrightarrow>
               (\<forall>p. woc_createCalls (snd (createWorkflowPod woc nodeName mainCtrs tmpl opts))
                       = woc_createCalls woc @ [p]
                    \<longrightarrow> ps_ActiveDeadlineSeconds (pod_Spec p)
                          = ps_ActiveDeadlineSeconds (pod_Spec pod1))))"
proof (intro conjI impI)
  assume h: "\<not> onExitPod opts \<and> woc_getWorkflowDeadline woc = Some d
            \<and> x_secondsUntil (woc_x woc) d \<le> 0
            \<and> snd (snd (podExists woc (woc_NodeID woc nodeName))) = None"
  then have "resolveActiveDeadlineSeconds woc (map (prepareMainCtr woc tmpl) mainCtrs) tmpl opts
               = Stop (Returned None)"
    using assms by (simp add: resolveActiveDeadlineSeconds_def)
  then have b: "buildPod woc nodeName mainCtrs tmpl opts = Stop (Returned None)"
    by (simp add: buildPod_def patchedPod_def substitutedPod_def assemblePod_def Let_def)
  obtain existing exists err where
    p: "podExists woc (woc_NodeID woc nodeName) = (existing, exists, err)"
    by (cases "podExists woc (woc_NodeID woc nodeName)") auto
  with h have e: "err = None" by simp
  from p podExists_absent [of woc "woc_NodeID woc nodeName"]
  have a: "\<not> exists \<Longrightarrow> existing = None" by simp
  from p e b a
  show "fst (createWorkflowPod woc nodeName mainCtrs tmpl opts)
          = Returned (fst (podExists woc (woc_NodeID woc nodeName)))"
    by (auto simp: createWorkflowPod_def)
  from p e b
  show "woc_createCalls (snd (createWorkflowPod woc nodeName mainCtrs tmpl opts))
          = woc_createCalls woc"
    by (auto simp: createWorkflowPod_def)
next
  assume a: "assemblePod woc nodeName mainCtrs tmpl opts = Next (pod1, t1)
               \<and> \<not> markedForDebugging mainCtrs"
  then have r: "resolveActiveDeadlineSeconds woc (map (prepareMainCtr woc tmpl) mainCtrs) tmpl opts
          = Next (ps_ActiveDeadlineSeconds (pod_Spec pod1))"
    using assemblePod_deadline(1) by blast
  {
    assume w: "\<not> onExitPod opts \<and> woc_getWorkflowDeadline woc = Some d"
    from r w a assms show "0 < x_secondsUntil (woc_x woc) d"
      by (auto simp: resolveActiveDeadlineSeconds_def Let_def split: if_splits option.splits)
    from r w a assms show "ps_ActiveDeadlineSeconds (pod_Spec pod1) =
                   Some (case tmplSeconds of
                           None \<Rightarrow> x_secondsUntil (woc_x woc) d
                         | Some s \<Rightarrow> min (x_secondsUntil (woc_x woc) d) s)"
      by (auto simp: resolveActiveDeadlineSeconds_def intstr_Int64_def Let_def min_def
               split: if_splits option.splits IntOrString.splits)
  }
  {
    assume w: "onExitPod opts \<or> woc_getWorkflowDeadline woc = None"
    from r w a assms show "ps_ActiveDeadlineSeconds (pod_Spec pod1) = tmplSeconds"
      by (auto simp: resolveActiveDeadlineSeconds_def Let_def split: if_splits option.splits)
  }
  {
    assume l: "deadlineLeftAlone woc nodeName pod1 t1"
    from a have a1: "assemblePod woc nodeName mainCtrs tmpl opts = Next (pod1, t1)" by simp
    show "\<forall>p. woc_createCalls (snd (createWorkflowPod woc nodeName mainCtrs tmpl opts))
                       = woc_createCalls woc @ [p]
                    \<longrightarrow> ps_ActiveDeadlineSeconds (pod_Spec p)
                          = ps_ActiveDeadlineSeconds (pod_Spec pod1)"
      using submitted_deadline [OF a1 l] by blast
  }
qed

text \<open>
  A template deadline of 30 seconds: with the workflow deadline 5 seconds in the past no
  pod is created and nothing is returned; 60 seconds ahead the pod gets 30; 20 seconds
  ahead it gets 20; with no workflow deadline it gets 30.
\<close>

theorem workflow_deadline_of_pod_witness:
  "(fst (createWorkflowPod (deadlineWoc (- 5)) ''n'' [mainContainer] deadlineTemplate plainOpts)
      = Returned None
    \<and> woc_createCalls (snd (createWorkflowPod (deadlineWoc (- 5)) ''n'' [mainContainer]
         deadlineTemplate plainOpts)) = [])
   \<and> map (ps_ActiveDeadlineSeconds \<circ> pod_Spec)
        (woc_createCalls (snd (createWorkflowPod
           (roundTrip (deadlineWoc 60) ''n'' [mainContainer] deadlineTemplate plainOpts)
           ''n'' [mainContainer] deadlineTemplate plainOpts))) = [Some 30]
   \<and> map (ps_ActiveDeadlineSeconds \<circ> pod_Spec)
        (woc_createCalls (snd (createWorkflowPod
           (roundTrip (deadlineWoc 20) ''n'' [mainContainer] deadlineTemplate plainOpts)
           ''n'' [mainContainer] deadlineTemplate plainOpts))) = [Some 20]
   \<and> map (ps_ActiveDeadlineSeconds \<circ> pod_Spec)
        (woc_createCalls (snd (createWorkflowPod
           (roundTrip (plainWoc ContainerRuntimeExecutorDocker) ''n'' [mainContainer] deadlineTemplate plainOpts)
           ''n'' [mainContainer] deadlineTemplate plainOpts))) = [Some 30]"
proof (intro conjI)
  let ?w = "deadlineWoc (- 5)"
  have i: "intstr_Int64 (woc_x ?w) (tmpl_ActiveDeadlineSeconds deadlineTemplate) = Inr (Some 30)"
    by code_simp
  have h: "\<not> onExitPod plainOpts \<and> woc_getWorkflowDeadline ?w = Some (- 5)
            \<and> x_secondsUntil (woc_x ?w) (- 5) \<le> 0
            \<and> snd (snd (podExists ?w (woc_NodeID ?w ''n''))) = None"
    by code_simp
  have e: "fst (podExists ?w (woc_NodeID ?w ''n'')) = None" "woc_createCalls ?w = []"
    by code_simp+
  from workflow_deadline_of_pod [OF i, of plainOpts "- 5" "''n''" "[mainContainer]"] h e
  have r: "fst (createWorkflowPod ?w ''n'' [mainContainer] deadlineTemplate plainOpts) = Returned None
        \<and> woc_createCalls (snd (createWorkflowPod ?w ''n'' [mainContainer] deadlineTemplate plainOpts)) = []"
    by simp
  from r show "fst (createWorkflowPod ?w ''n'' [mainContainer] deadlineTemplate plainOpts) = Returned None"
    by simp
  from r show "woc_createCalls (snd (createWorkflowPod ?w ''n'' [mainContainer] deadlineTemplate plainOpts)) = []"
    by simp
next
  let ?w = "roundTrip (deadlineWoc 60) ''n'' [mainContainer] deadlineTemplate plainOpts"
  have i: "intstr_Int64 (woc_x ?w) (tmpl_ActiveDeadlineSeconds deadlineTemplate) = Inr (Some 30)"
    by code_simp
  have "case assemblePod ?w ''n'' [mainContainer] deadlineTemplate plainOpts of
          Next (pod1, t1) \<Rightarrow> deadlineLeftAlone ?w ''n'' pod1 t1 | Stop r \<Rightarrow> False"
    by code_simp
  then obtain pod1 t1 where
    a: "assemblePod ?w ''n'' [mainContainer] deadlineTemplate plainOpts = Next (pod1, t1)"
    and l: "deadlineLeftAlone ?w ''n'' pod1 t1"
    by (auto split: step.splits)
  have "case woc_createCalls (snd (createWorkflowPod ?w ''n'' [mainContainer] deadlineTemplate plainOpts)) of
          [p] \<Rightarrow> True | _ \<Rightarrow> False"
    by code_simp
  then obtain p where
    c: "woc_createCalls (snd (createWorkflowPod ?w ''n'' [mainContainer] deadlineTemplate plainOpts)) = [p]"
    by (auto split: list.splits)
  have e: "woc_createCalls ?w = []" "\<not> markedForDebugging [mainContainer]"
    "\<not> onExitPod plainOpts" "woc_getWorkflowDeadline ?w = Some 60" "x_secondsUntil (woc_x ?w) 60 = 60"
    by code_simp+
  from workflow_deadline_of_pod [OF i, of plainOpts 60 "''n''" "[mainContainer]" pod1 t1] a l c e
  have "ps_ActiveDeadlineSeconds (pod_Spec p) = Some 30" by simp
  with c show "map (ps_ActiveDeadlineSeconds \<circ> pod_Spec)
        (woc_createCalls (snd (createWorkflowPod ?w ''n'' [mainContainer] deadlineTemplate plainOpts))) = [Some 30]"
    by simp
next
  let ?w = "roundTrip (deadlineWoc 20) ''n'' [mainContainer] deadlineTemplate plainOpts"
  have i: "intstr_Int64 (woc_x ?w) (tmpl_ActiveDeadlineSeconds deadlineTemplate) = Inr (Some 30)"
    by code_simp
  have "case assemblePod ?w ''n'' [mainContainer] deadlineTemplate plainOpts of
          Next (pod1, t1) \<Rightarrow> deadlineLeftAlone ?w ''n'' pod1 t1 | Stop r \<Rightarrow> False"
    by code_simp
  then obtain pod1 t1 where
    a: "assemblePod ?w ''n'' [mainContainer] deadlineTemplate plainOpts = Next (pod1, t1)"
    and l: "deadlineLeftAlone ?w ''n'' pod1 t1"
    by (auto split: step.splits)
  have "case woc_createCalls (snd (createWorkflowPod ?w ''n'' [mainContainer] deadlineTemplate plainOpts)) of
          [p] \<Rightarrow> True | _ \<Rightarrow> False"
    by code_simp
  then obtain p where
    c: "woc_createCalls (snd (createWorkflowPod ?w ''n'' [mainContainer] deadlineTemplate plainOpts)) = [p]"
    by (auto split: list.splits)
  have e: "woc_createCalls ?w = []" "\<not> markedForDebugging [mainContainer]"
    "\<not> onExitPod plainOpts" "woc_getWorkflowDeadline ?w = Some 20" "x_secondsUntil (woc_x ?w) 20 = 20"
    by code_simp+
  from workflow_deadline_of_pod [OF i, of plainOpts 20 "''n''" "[mainContainer]" pod1 t1] a l c e
  have "ps_ActiveDeadlineSeconds (pod_Spec p) = Some 20" by simp
  with c show "map (ps_ActiveDeadlineSeconds \<circ> pod_Spec)
        (woc_createCalls (snd (createWorkflowPod ?w ''n'' [mainContainer] deadlineTemplate plainOpts))) = [Some 20]"
    by simp
next
  let ?w = "roundTrip (plainWoc ContainerRuntimeExecutorDocker) ''n'' [mainContainer] deadlineTemplate plainOpts"
  have i: "intstr_Int64 (woc_x ?w) (tmpl_ActiveDeadlineSeconds deadlineTemplate) = Inr (Some 30)"
    by code_simp
  have "case assemblePod ?w ''n'' [mainContainer] deadlineTemplate plainOpts of
          Next (pod1, t1) \<Rightarrow> deadlineLeftAlone ?w ''n'' pod1 t1 | Stop r \<Rightarrow> False"
    by code_simp
  then obtain pod1 t1 where
    a: "assemblePod ?w ''n'' [mainContainer] deadlineTemplate plainOpts = Next (pod1, t1)"
    and l: "deadlineLeftAlone ?w ''n'' pod1 t1"
    by (auto split: step.splits)
  have "case woc_createCalls (snd (createWorkflowPod ?w ''n'' [mainContainer] deadlineTemplate plainOpts)) of
          [p] \<Rightarrow> True | _ \<Rightarrow> False"
    by code_simp
  then obtain p where
    c: "woc_createCalls (snd (createWorkflowPod ?w ''n'' [mainContainer] deadlineTemplate plainOpts)) = [p]"
    by (auto split: list.splits)
  have e: "woc_createCalls ?w = []" "\<not> markedForDebugging [mainContainer]"
    "woc_getWorkflowDeadline ?w = None"
    by code_simp+
  from workflow_deadline_of_pod [OF i, of plainOpts 0 "''n''" "[mainContainer]" pod1 t1] a l c e
  have "ps_ActiveDeadlineSeconds (pod_Spec p) = Some 30" by simp
  with c show "map (ps_ActiveDeadlineSeconds \<circ> pod_Spec)
        (woc_createCalls (snd (createWorkflowPod ?w ''n'' [mainContainer] deadlineTemplate plainOpts))) = [Some 30]"
    by simp
qed

text \<open>
  Three invocations that are no exit handlers and have a workflow deadline. The deadline
  has elapsed and the index of the informer is missing: an error is returned. The
  deadline has elapsed and the template's value is the string \<^verbatim>\<open>soon\<close>: an error is
  returned. The deadline is 60 seconds ahead, the template's value is 30 and the timeout
  of the template is an hour ahead: the created pod has a deadline of 3600 seconds.
\<close>

theorem workflow_deadline_reach_counterexample:
  "\<not> onExitPod plainOpts
   \<and> woc_getWorkflowDeadline brokenInformerWoc = Some (- 5)
   \<and> x_secondsUntil (woc_x brokenInformerWoc) (- 5) = - 5
   \<and> fst (createWorkflowPod brokenInformerWoc ''n'' [mainContainer] deadlineTemplate plainOpts)
       = Failed (FmtWrap ''failed to get pod from informer store: %w'' []
                   (External ''Index with name workflows.argoproj.io/node-id does not exist''))
   \<and> woc_getWorkflowDeadline (deadlineWoc (- 5)) = Some (- 5)
   \<and> x_secondsUntil (woc_x (deadlineWoc (- 5))) (- 5) = - 5
   \<and> fst (createWorkflowPod (deadlineWoc (- 5)) ''n'' [mainContainer] unconvertibleTemplate plainOpts)
       = Failed (FmtError ''value '%s' cannot be resolved to an int'' [''soon''])
   \<and> woc_getWorkflowDeadline deadlineTimeoutWoc = Some 60
   \<and> x_secondsUntil (woc_x deadlineTimeoutWoc) 60 = 60
   \<and> tmpl_ActiveDeadlineSeconds deadlineTemplate = Some (IntVal 30)
   \<and> \<not> markedForDebugging [mainContainer]
   \<and> map (ps_ActiveDeadlineSeconds \<circ> pod_Spec)
        (woc_createCalls (snd (createWorkflowPod
           (roundTrip deadlineTimeoutWoc ''n'' [mainContainer] deadlineTemplate plainOpts)
           ''n'' [mainContainer] deadlineTemplate plainOpts))) = [Some 3600]"
  by code_simp

subsection \<open>C3: the containers of the assembled descriptor\<close>

text \<open>
  C3. In every assembled descriptor the containers stand in this order: the wait
  container, then the main containers, then the sidecars of the template. For a template
  of type resource or data no wait container is put in: the list is the main containers,
  each under the canonical main name, followed by the template's sidecars under the
  names the user gave them. For every other type the wait container is the first entry,
  so it stands before every main container. Under the PNS executor the pod spec shares
  the process namespace.
\<close>

theorem assembled_containers:
  assumes "assemblePod woc nodeName mainCtrs tmpl opts = Next (pod, t)"
  shows "(GetType tmpl = TemplateTypeResource \<or> GetType tmpl = TemplateTypeData \<longrightarrow>
            map c_Name (ps_Containers (pod_Spec pod)) =
              replicate (length mainCtrs) MainContainerName
              @ map (\<lambda>u. c_Name (uc_Container u)) (tmpl_Sidecars tmpl))
       \<and> (GetType tmpl \<noteq> TemplateTypeResource \<and> GetType tmpl \<noteq> TemplateTypeData \<longrightarrow>
            map c_Name (ps_Containers (pod_Spec pod)) =
              WaitContainerName
              # map (\<lambda>c. if c_Name c = [] \<or> GetType tmpl \<noteq> TemplateTypeContainerSet
                          then MainContainerName else c_Name c) mainCtrs
              @ map (\<lambda>u. c_Name (uc_Container u)) (tmpl_Sidecars tmpl))
       \<and> (woc_getContainerRuntimeExecutor woc = ContainerRuntimeExecutorPNS \<longrightarrow>
            ps_ShareProcessNamespace (pod_Spec pod) = Some True)"
proof -
  have "GetType tmpl = TemplateTypeResource \<or> GetType tmpl = TemplateTypeData \<Longrightarrow>
          map (\<lambda>c. if c_Name c = [] \<or> GetType tmpl \<noteq> TemplateTypeContainerSet
                     then MainContainerName else c_Name c) mainCtrs
            = replicate (length mainCtrs) MainContainerName"
    by (auto simp: map_replicate_const)
  then show ?thesis
    using assemblePod_containers [OF assms] assemblePod_deadline(2) [OF assms] by auto
qed

text \<open>
  A container template with one main container under the PNS executor: the containers
  are the wait container and the main container, and the process namespace is shared.
\<close>

theorem assembled_containers_witness:
  "case assemblePod (plainWoc ContainerRuntimeExecutorPNS) ''n''
          [plainContainer [] ''alpine'' [''sh'']] containerTemplate plainOpts of
     Next (pod, t) \<Rightarrow>
       map c_Name (ps_Containers (pod_Spec pod)) = [''wait'', ''main'']
       \<and> ps_ShareProcessNamespace (pod_Spec pod) = Some True
   | Stop r \<Rightarrow> False"
proof -
  have "case assemblePod (plainWoc ContainerRuntimeExecutorPNS) ''n''
          [plainContainer [] ''alpine'' [''sh'']] containerTemplate plainOpts of
          Next v \<Rightarrow> True | Stop r \<Rightarrow> False"
    by code_simp
  then obtain pod t where
    e: "assemblePod (plainWoc ContainerRuntimeExecutorPNS) ''n''
          [plainContainer [] ''alpine'' [''sh'']] containerTemplate plainOpts = Next (pod, t)"
    by (auto split: step.splits)
  have ty: "GetType containerTemplate = TemplateTypeContainer"
    by (simp add: GetType_def containerTemplate_def plainTemplate_def)
  have ex: "woc_getContainerRuntimeExecutor (plainWoc ContainerRuntimeExecutorPNS) = ContainerRuntimeExecutorPNS"
    by (simp add: plainWoc_def)
  from assembled_containers [OF e] ty ex
  have "map c_Name (ps_Containers (pod_Spec pod)) = [''wait'', ''main'']
          \<and> ps_ShareProcessNamespace (pod_Spec pod) = Some True"
    by (simp add: containerTemplate_def plainTemplate_def plainContainer_def
          MainContainerName_def WaitContainerName_def)
  then show ?thesis unfolding e by simp
qed

subsection \<open>C4: the names of the volumes\<close>

text \<open>
  C4. A template that declares a volume named \<^verbatim>\<open>s3-creds\<close> and has an output artifact whose
  access key is in the secret \<^verbatim>\<open>s3-creds\<close>: \<^verbatim>\<open>createVolumes\<close> puts the template's volume
  into the pod (line 683), and \<^verbatim>\<open>addVolumeReferences\<close> appends the volume of the secret
  with no look at the names that are there (line 890), other than \<^verbatim>\<open>addVolumeRef\<close> a few
  lines above. The assembled descriptor and the created pod have two volumes named
  \<^verbatim>\<open>s3-creds\<close>.
\<close>

theorem assembled_volume_names_repeated:
  "map v_Name (ps_Volumes (pod_Spec (assembledPod (plainWoc ContainerRuntimeExecutorDocker) ''n''
      [mainContainer] mountedSecretTemplate plainOpts)))
     = [''var-run-argo'', ''docker-sock'', ''s3-creds'', ''s3-creds'']
   \<and> \<not> distinct (map v_Name (ps_Volumes (pod_Spec (assembledPod
           (plainWoc ContainerRuntimeExecutorDocker) ''n'' [mainContainer] mountedSecretTemplate
           plainOpts))))
   \<and> map (map v_Name \<circ> ps_Volumes \<circ> pod_Spec)
        (woc_createCalls (snd (createWorkflowPod
           (roundTrip (plainWoc ContainerRuntimeExecutorDocker) ''n'' [mainContainer]
              mountedSecretTemplate plainOpts)
           ''n'' [mainContainer] mountedSecretTemplate plainOpts)))
       = [[''var-run-argo'', ''docker-sock'', ''s3-creds'', ''s3-creds'']]"
  by code_simp

subsection \<open>C5: secret volumes\<close>

lemma collectSecretVolumes_colliding:
  "fst (collectSecretVolumes collidingSecretsTemplate) =
     [(''s3-creds'', secretVolume ''s3-creds'' [''access'']), (''s3'', secretVolume ''s3'' [''secret''])]"
  by code_simp

text \<open>
  C5. The template \<open>collidingSecretsTemplate\<close> refers to the pairs (s3-creds, access),
  (s3, secret) and (s3, creds-access). \<^verbatim>\<open>createSecretVal\<close> remembers a pair under the string
  name-key, which is \<^verbatim>\<open>s3-creds-access\<close> for the first pair and for the third one: the
  third pair is taken for a repetition, and the volume of the secret s3 gets no entry for
  the key creds-access, in whatever order the map is ranged over.
\<close>

theorem createSecretVolumes_colliding_keys:
  "set (fst (createSecretVolumes x collidingSecretsTemplate)) =
     {secretVolume ''s3-creds'' [''access''], secretVolume ''s3'' [''secret'']}"
  unfolding createSecretVolumes_def Let_def fst_conv set_map set_sort collectSecretVolumes_colliding
  by simp

subsection \<open>C6: the mounts of the input artifacts\<close>

text \<open>
  C6. When \<^verbatim>\<open>addInputArtifactsVolumes\<close> succeeds, every container named main has got, after
  the mounts it had, one mount of the input-artifacts volume for each input artifact, in
  their order, except the artifacts that are optional with no location or key and the
  artifacts whose path overlaps a volume the template mounts; the other containers keep
  their mounts. When the pod has a container named main and \<open>a\<close> is the first input
  artifact with an empty path, the function fails with the bad-request error that names
  \<open>a\<close>. When the pod has no container named main, the paths are not looked at: the
  function succeeds and no container gets a mount.
\<close>

theorem input_artifact_mounts:
  "(addInputArtifactsVolumes woc pod tmpl = Inr pod' \<longrightarrow>
      map c_VolumeMounts (ps_Containers (pod_Spec pod')) =
        map (\<lambda>c. c_VolumeMounts c @
               (if c_Name c = MainContainerName
                then map (\<lambda>art. \<lparr>vm_Name = ''input-artifacts'', vm_MountPath = art_Path art,
                                   vm_SubPath = art_Name art, vm_ReadOnly = False\<rparr>)
                       (filter (\<lambda>art. \<not> (\<not> x_HasLocationOrKey (woc_x woc) art \<and> art_Optional art)
                                  \<and> x_FindOverlappingVolume (woc_x woc) tmpl (art_Path art) = None)
                          (tmpl_InputArtifacts tmpl))
                else []))
          (ps_Containers (pod_Spec pod)))
   \<and> (list_ex (\<lambda>c. c_Name c = MainContainerName) (ps_Containers (pod_Spec pod))
        \<and> find (\<lambda>art. art_Path art = []) (tmpl_InputArtifacts tmpl) = Some a \<longrightarrow>
      addInputArtifactsVolumes woc pod tmpl =
        Inl (ArgoError CodeBadRequest ''inputs.artifacts.%s did not specify a path'' [art_Name a]))
   \<and> (\<not> list_ex (\<lambda>c. c_Name c = MainContainerName) (ps_Containers (pod_Spec pod)) \<longrightarrow>
        \<not> isl (addInputArtifactsVolumes woc pod tmpl)
        \<and> map c_VolumeMounts (ps_Containers (pod_Spec (projr (addInputArtifactsVolumes woc pod tmpl))))
            = map c_VolumeMounts (ps_Containers (pod_Spec pod)))"
proof (intro conjI impI)
  assume "addInputArtifactsVolumes woc pod tmpl = Inr pod'"
  then show "map c_VolumeMounts (ps_Containers (pod_Spec pod')) =
        map (\<lambda>c. c_VolumeMounts c @
               (if c_Name c = MainContainerName
                then map (\<lambda>art. \<lparr>vm_Name = ''input-artifacts'', vm_MountPath = art_Path art,
                                   vm_SubPath = art_Name art, vm_ReadOnly = False\<rparr>)
                       (filter (\<lambda>art. \<not> (\<not> x_HasLocationOrKey (woc_x woc) art \<and> art_Optional art)
                                  \<and> x_FindOverlappingVolume (woc_x woc) tmpl (art_Path art) = None)
                          (tmpl_InputArtifacts tmpl))
                else []))
          (ps_Containers (pod_Spec pod))"
    by (auto simp: addInputArtifactsVolumes_def Let_def split: if_splits sum.splits
             dest: addArtifactMountsToMain_result)
next
  assume "list_ex (\<lambda>c. c_Name c = MainContainerName) (ps_Containers (pod_Spec pod))
        \<and> find (\<lambda>art. art_Path art = []) (tmpl_InputArtifacts tmpl) = Some a"
  then show "addInputArtifactsVolumes woc pod tmpl =
        Inl (ArgoError CodeBadRequest ''inputs.artifacts.%s did not specify a path'' [art_Name a])"
    by (auto simp: addInputArtifactsVolumes_def Let_def addArtifactMountsToMain_empty_path)
next
  assume n: "\<not> list_ex (\<lambda>c. c_Name c = MainContainerName) (ps_Containers (pod_Spec pod))"
  then show "\<not> isl (addInputArtifactsVolumes woc pod tmpl)"
    by (simp add: addInputArtifactsVolumes_def Let_def addArtifactMountsToMain_no_main)
  from n show "map c_VolumeMounts (ps_Containers (pod_Spec (projr (addInputArtifactsVolumes woc pod tmpl))))
            = map c_VolumeMounts (ps_Containers (pod_Spec pod))"
    by (simp add: addInputArtifactsVolumes_def Let_def addArtifactMountsToMain_no_main)
qed

text \<open>
  Three artifacts, one under a mounted volume, one optional without location, one plain:
  the main container gets the mount of the plain one only. An artifact without a path
  fails when the pod has a main container, and passes when it has none.
\<close>

theorem input_artifact_mounts_witness:
  "map c_VolumeMounts (ps_Containers (pod_Spec (projr
      (addInputArtifactsVolumes overlapWoc waitAndMainPod artifactsTemplate))))
     = [[], [\<lparr>vm_Name = ''input-artifacts'', vm_MountPath = ''/in'', vm_SubPath = ''in'',
               vm_ReadOnly = False\<rparr>]]
   \<and> addInputArtifactsVolumes overlapWoc waitAndMainPod noPathTemplate =
       Inl (ArgoError CodeBadRequest ''inputs.artifacts.%s did not specify a path'' [''nowhere''])
   \<and> \<not> isl (addInputArtifactsVolumes overlapWoc waitAndSetPod noPathTemplate)"
proof (intro conjI)
  have "\<not> isl (addInputArtifactsVolumes overlapWoc waitAndMainPod artifactsTemplate)"
    by code_simp
  then obtain pod' where
    e: "addInputArtifactsVolumes overlapWoc waitAndMainPod artifactsTemplate = Inr pod'"
    by (cases "addInputArtifactsVolumes overlapWoc waitAndMainPod artifactsTemplate") auto
  have "map (\<lambda>c. c_VolumeMounts c @
               (if c_Name c = MainContainerName
                then map (\<lambda>art. \<lparr>vm_Name = ''input-artifacts'', vm_MountPath = art_Path art,
                                   vm_SubPath = art_Name art, vm_ReadOnly = False\<rparr>)
                       (filter (\<lambda>art. \<not> (\<not> x_HasLocationOrKey (woc_x overlapWoc) art \<and> art_Optional art)
                                  \<and> x_FindOverlappingVolume (woc_x overlapWoc) artifactsTemplate (art_Path art) = None)
                          (tmpl_InputArtifacts artifactsTemplate))
                else []))
          (ps_Containers (pod_Spec waitAndMainPod))
        = [[], [\<lparr>vm_Name = ''input-artifacts'', vm_MountPath = ''/in'', vm_SubPath = ''in'',
               vm_ReadOnly = False\<rparr>]]"
    by code_simp
  with input_artifact_mounts [of overlapWoc waitAndMainPod artifactsTemplate pod'] e
  show "map c_VolumeMounts (ps_Containers (pod_Spec (projr
      (addInputArtifactsVolumes overlapWoc waitAndMainPod artifactsTemplate))))
     = [[], [\<lparr>vm_Name = ''input-artifacts'', vm_MountPath = ''/in'', vm_SubPath = ''in'',
               vm_ReadOnly = False\<rparr>]]"
    by simp
next
  have "list_ex (\<lambda>c. c_Name c = MainContainerName) (ps_Containers (pod_Spec waitAndMainPod))
        \<and> find (\<lambda>art. art_Path art = []) (tmpl_InputArtifacts noPathTemplate)
            = Some (s3Artifact ''nowhere'' [] None None)"
    by code_simp
  with input_artifact_mounts [of overlapWoc waitAndMainPod noPathTemplate _ "s3Artifact ''nowhere'' [] None None"]
  show "addInputArtifactsVolumes overlapWoc waitAndMainPod noPathTemplate =
       Inl (ArgoError CodeBadRequest ''inputs.artifacts.%s did not specify a path'' [''nowhere''])"
    by (simp add: s3Artifact_def)
next
  have "\<not> list_ex (\<lambda>c. c_Name c = MainContainerName) (ps_Containers (pod_Spec waitAndSetPod))"
    by code_simp
  with input_artifact_mounts [of overlapWoc waitAndSetPod noPathTemplate]
  show "\<not> isl (addInputArtifactsVolumes overlapWoc waitAndSetPod noPathTemplate)"
    by blast
qed

text \<open>
  A container set template whose containers are named a and b, with an input artifact
  that has no path: no error, and the pod is created.
\<close>

theorem input_artifact_no_main_counterexample:
  "art_Path (hd (tmpl_InputArtifacts noMainTemplate)) = []
   \<and> \<not> isl (addInputArtifactsVolumes (plainWoc ContainerRuntimeExecutorDocker) waitAndSetPod
             noMainTemplate)
   \<and> length (woc_createCalls (snd (createWorkflowPod
        (roundTrip (plainWoc ContainerRuntimeExecutorDocker) ''n'' setContainers noMainTemplate plainOpts)
        ''n'' setContainers noMainTemplate plainOpts))) = 1"
  by code_simp

subsection \<open>C7: debug pause markers\<close>

text \<open>
  C7. A main container with the marker \<^verbatim>\<open>ARGO_DEBUG_PAUSE_AFTER\<close>, in a template whose
  timeout is 3600 seconds ahead: the assembled descriptor has no
  \<^verbatim>\<open>activeDeadlineSeconds\<close> (lines 196 to 203), and lines 450 to 457, which find none, set
  it from the timeout. The created pod has a deadline of 3600 seconds.
\<close>

theorem debug_pause_template_timeout:
  "markedForDebugging [debugContainer]
   \<and> ps_ActiveDeadlineSeconds (pod_Spec (assembledPod timeoutWoc ''n'' [debugContainer]
        containerTemplate plainOpts)) = None
   \<and> map (ps_ActiveDeadlineSeconds \<circ> pod_Spec)
        (woc_createCalls (snd (createWorkflowPod
           (roundTrip timeoutWoc ''n'' [debugContainer] containerTemplate plainOpts)
           ''n'' [debugContainer] containerTemplate plainOpts))) = [Some 3600]"
  by code_simp

subsection \<open>C8: commands under the emissary executor\<close>

text \<open>
  C8. Under the emissary executor, with \<open>pod3\<close> the descriptor after the pod spec patch:
  when \<open>d\<close> is the first container other than the wait container that has no command and
  for whose image the index has none, \<^verbatim>\<open>createWorkflowPod\<close> fails with the error that names
  \<open>d\<close> and the template, and nothing is created. When there is no such container, the pod
  handed to the cluster has the containers of \<open>pod3\<close> with the wrapper invocation put in
  front of the command of every container but the wait container; a container that had
  no command gets the command of the index, and its arguments too when it had none.
\<close>

theorem emissary_commands:
  assumes "woc_getContainerRuntimeExecutor woc = ContainerRuntimeExecutorEmissary"
    and "snd (podExists woc (woc_NodeID woc nodeName)) = (False, None)"
    and "woc_ShouldExecute woc (onExitPod opts)"
    and "patchedPod woc nodeName mainCtrs tmpl opts = Next (pod3, t3)"
  shows "(find (commandUnresolved woc) (ps_Containers (pod_Spec pod3)) = Some d \<longrightarrow>
            createWorkflowPod woc nodeName mainCtrs tmpl opts =
              (Failed (FmtError emissaryNoCommandFormat [c_Name d, tmpl_Name t3]), woc))
       \<and> (find (commandUnresolved woc) (ps_Containers (pod_Spec pod3)) = None \<longrightarrow>
            (\<forall>p. woc_createCalls (snd (createWorkflowPod woc nodeName mainCtrs tmpl opts))
                    = woc_createCalls woc @ [p] \<longrightarrow>
                 ps_Containers (pod_Spec p) =
                   map (\<lambda>c. appendVolumeMounts [volumeMountVarArgo]
                          (if c_Name c = WaitContainerName then c
                           else if c_Command c = []
                           then c\<lparr>c_Command := [''/var/run/argo/argoexec'', ''emissary'', ''--'']
                                                @ img_Command (getImage woc (c_Image c)),
                                  c_Args := (if c_Args c = None
                                             then img_Args (getImage woc (c_Image c))
                                             else c_Args c)\<rparr>
                           else c\<lparr>c_Command := [''/var/run/argo/argoexec'', ''emissary'', ''--'']
                                                @ c_Command c\<rparr>))
                     (ps_Containers (pod_Spec pod3))))"
proof (intro conjI impI allI)
  assume "find (commandUnresolved woc) (ps_Containers (pod_Spec pod3)) = Some d"
  from wrapContainers_unresolved [OF assms(1) this, of t3]
  have "buildPod woc nodeName mainCtrs tmpl opts =
          Stop (Failed (FmtError emissaryNoCommandFormat [c_Name d, tmpl_Name t3]))"
    by (simp add: buildPod_def assms(4) wrapEmissary_def)
  with assms(2,3) show "createWorkflowPod woc nodeName mainCtrs tmpl opts =
              (Failed (FmtError emissaryNoCommandFormat [c_Name d, tmpl_Name t3]), woc)"
    by (cases "podExists woc (woc_NodeID woc nodeName)") (auto simp: createWorkflowPod_def)
next
  fix p
  assume n: "find (commandUnresolved woc) (ps_Containers (pod_Spec pod3)) = None"
    and c: "woc_createCalls (snd (createWorkflowPod woc nodeName mainCtrs tmpl opts))
              = woc_createCalls woc @ [p]"
  from createWorkflowPod_createCalls [OF c] obtain pod3' t3' pod4 where
    s: "patchedPod woc nodeName mainCtrs tmpl opts = Next (pod3', t3')"
      "wrapEmissary woc t3' pod3' = Next pod4"
      "applyTemplateDeadline woc nodeName t3' pod4 = Next p"
    by (rule buildPod_patched)
  from s(1) assms(4) have e: "pod3' = pod3" "t3' = t3" by simp_all
  from s(2) wrapContainers_resolved [OF assms(1) n, of t3]
  have "ps_Containers (pod_Spec pod4) =
          map (\<lambda>c. appendVolumeMounts [volumeMountVarArgo]
                          (if c_Name c = WaitContainerName then c
                           else if c_Command c = []
                           then c\<lparr>c_Command := [''/var/run/argo/argoexec'', ''emissary'', ''--'']
                                                @ img_Command (getImage woc (c_Image c)),
                                  c_Args := (if c_Args c = None
                                             then img_Args (getImage woc (c_Image c))
                                             else c_Args c)\<rparr>
                           else c\<lparr>c_Command := [''/var/run/argo/argoexec'', ''emissary'', ''--'']
                                                @ c_Command c\<rparr>))
                     (ps_Containers (pod_Spec pod3))"
    unfolding e by (auto simp: wrapEmissary_def)
  with applyTemplateDeadline_containers [OF s(3)]
  show "ps_Containers (pod_Spec p) =
          map (\<lambda>c. appendVolumeMounts [volumeMountVarArgo]
                          (if c_Name c = WaitContainerName then c
                           else if c_Command c = []
                           then c\<lparr>c_Command := [''/var/run/argo/argoexec'', ''emissary'', ''--'']
                                                @ img_Command (getImage woc (c_Image c)),
                                  c_Args := (if c_Args c = None
                                             then img_Args (getImage woc (c_Image c))
                                             else c_Args c)\<rparr>
                           else c\<lparr>c_Command := [''/var/run/argo/argoexec'', ''emissary'', ''--'']
                                                @ c_Command c\<rparr>))
                     (ps_Containers (pod_Spec pod3))"
    by simp
qed

text \<open>
  An image the index does not know: the error names the container main and the template
  t. An image the index maps to /bin/sh with the argument -c: the main container runs the
  wrapper followed by /bin/sh, with the argument -c.
\<close>

theorem emissary_commands_witness:
  "createWorkflowPod (roundTrip emissaryWoc ''n'' [unindexedContainer] containerTemplate plainOpts)
      ''n'' [unindexedContainer] containerTemplate plainOpts
     = (Failed (FmtError emissaryNoCommandFormat [''main'', ''t'']),
        roundTrip emissaryWoc ''n'' [unindexedContainer] containerTemplate plainOpts)
   \<and> map (map c_Command \<circ> ps_Containers \<circ> pod_Spec)
        (woc_createCalls (snd (createWorkflowPod
           (roundTrip emissaryWoc ''n'' [indexedContainer] containerTemplate plainOpts)
           ''n'' [indexedContainer] containerTemplate plainOpts)))
       = [[[''argoexec'', ''wait'', ''--loglevel'', ''info''],
           [''/var/run/argo/argoexec'', ''emissary'', ''--'', ''/bin/sh'']]]
   \<and> map (map c_Args \<circ> ps_Containers \<circ> pod_Spec)
        (woc_createCalls (snd (createWorkflowPod
           (roundTrip emissaryWoc ''n'' [indexedContainer] containerTemplate plainOpts)
           ''n'' [indexedContainer] containerTemplate plainOpts)))
       = [[None, Some [''-c'']]]"
proof -
  let ?u = "roundTrip emissaryWoc ''n'' [unindexedContainer] containerTemplate plainOpts"
  let ?i = "roundTrip emissaryWoc ''n'' [indexedContainer] containerTemplate plainOpts"
  have cu: "case patchedPod ?u ''n'' [unindexedContainer] containerTemplate plainOpts of
          Stop r \<Rightarrow> False
        | Next (pod3, t3) \<Rightarrow>
            tmpl_Name t3 = ''t''
            \<and> map_option c_Name (find (commandUnresolved ?u) (ps_Containers (pod_Spec pod3)))
                = Some ''main''"
    by code_simp
  then obtain pod3 t3 where
    u: "patchedPod ?u ''n'' [unindexedContainer] containerTemplate plainOpts = Next (pod3, t3)"
    by (cases "patchedPod ?u ''n'' [unindexedContainer] containerTemplate plainOpts") auto
  from cu have u2: "tmpl_Name t3 = ''t''"
    "map_option c_Name (find (commandUnresolved ?u) (ps_Containers (pod_Spec pod3))) = Some ''main''"
    unfolding u by simp_all
  from u2(2) obtain d where
    u3: "find (commandUnresolved ?u) (ps_Containers (pod_Spec pod3)) = Some d" "c_Name d = ''main''"
    by auto
  have ux: "woc_getContainerRuntimeExecutor ?u = ContainerRuntimeExecutorEmissary"
    "snd (podExists ?u (woc_NodeID ?u ''n'')) = (False, None)"
    "woc_ShouldExecute ?u (onExitPod plainOpts)"
    by code_simp+
  from emissary_commands [OF ux u, of d] u2(1) u3
  have 1: "createWorkflowPod ?u ''n'' [unindexedContainer] containerTemplate plainOpts
             = (Failed (FmtError emissaryNoCommandFormat [''main'', ''t'']), ?u)"
    by simp
  have ci: "case patchedPod ?i ''n'' [indexedContainer] containerTemplate plainOpts of
          Stop r \<Rightarrow> False
        | Next (pod3, t3) \<Rightarrow>
            find (commandUnresolved ?i) (ps_Containers (pod_Spec pod3)) = None
            \<and> map (\<lambda>c. (c_Name c, c_Image c, c_Command c, c_Args c)) (ps_Containers (pod_Spec pod3))
                = [(''wait'', ''argoexec:latest'', [''argoexec'', ''wait'', ''--loglevel'', ''info''], None),
                   (''main'', ''alpine'', [], None)]"
    by code_simp
  then obtain pod3' t3' where
    i: "patchedPod ?i ''n'' [indexedContainer] containerTemplate plainOpts = Next (pod3', t3')"
    by (cases "patchedPod ?i ''n'' [indexedContainer] containerTemplate plainOpts") auto
  from ci have i2: "find (commandUnresolved ?i) (ps_Containers (pod_Spec pod3')) = None"
    "map (\<lambda>c. (c_Name c, c_Image c, c_Command c, c_Args c)) (ps_Containers (pod_Spec pod3'))
       = [(''wait'', ''argoexec:latest'', [''argoexec'', ''wait'', ''--loglevel'', ''info''], None),
          (''main'', ''alpine'', [], None)]"
    unfolding i by simp_all
  have ix: "woc_getContainerRuntimeExecutor ?i = ContainerRuntimeExecutorEmissary"
    "snd (podExists ?i (woc_NodeID ?i ''n'')) = (False, None)"
    "woc_ShouldExecute ?i (onExitPod plainOpts)"
    by code_simp+
  have "case woc_createCalls (snd (createWorkflowPod ?i ''n'' [indexedContainer] containerTemplate plainOpts)) of
          [p] \<Rightarrow> True | _ \<Rightarrow> False"
    by code_simp
  then obtain p where
    c: "woc_createCalls (snd (createWorkflowPod ?i ''n'' [indexedContainer] containerTemplate plainOpts)) = [p]"
    by (auto split: list.splits)
  have e: "woc_createCalls ?i = []" by code_simp
  have g: "getImage ?i ''alpine'' = \<lparr>img_Command = [''/bin/sh''], img_Args = Some [''-c'']\<rparr>"
    by code_simp
  from i2(2) obtain w m where
    cs: "ps_Containers (pod_Spec pod3') = [w, m]"
      "c_Name w = ''wait''" "c_Command w = [''argoexec'', ''wait'', ''--loglevel'', ''info'']" "c_Args w = None"
      "c_Name m = ''main''" "c_Image m = ''alpine''" "c_Command m = []" "c_Args m = None"
    by (auto simp: map_eq_Cons_conv)
  from emissary_commands [OF ix i] i2(1) c e
  have "ps_Containers (pod_Spec p) =
          map (\<lambda>c. appendVolumeMounts [volumeMountVarArgo]
                          (if c_Name c = WaitContainerName then c
                           else if c_Command c = []
                           then c\<lparr>c_Command := [''/var/run/argo/argoexec'', ''emissary'', ''--'']
                                                @ img_Command (getImage ?i (c_Image c)),
                                  c_Args := (if c_Args c = None
                                             then img_Args (getImage ?i (c_Image c))
                                             else c_Args c)\<rparr>
                           else c\<lparr>c_Command := [''/var/run/argo/argoexec'', ''emissary'', ''--'']
                                                @ c_Command c\<rparr>))
                     (ps_Containers (pod_Spec pod3'))"
    by simp
  then have 2: "map c_Command (ps_Containers (pod_Spec p)) =
                  [[''argoexec'', ''wait'', ''--loglevel'', ''info''],
                   [''/var/run/argo/argoexec'', ''emissary'', ''--'', ''/bin/sh'']]"
    and 3: "map c_Args (ps_Containers (pod_Spec p)) = [None, Some [''-c'']]"
    unfolding cs(1) using cs(2-) g
    by (simp_all add: appendVolumeMounts_def WaitContainerName_def)
  from 1 2 3 c show ?thesis by simp
qed

subsection \<open>C9: a pod spec patch that cannot be applied\<close>

text \<open>
  C9. In an invocation that comes to the pod spec patch (no pod of the node exists, the
  workflow is not shut down, the descriptor is assembled and substituted, a patch is
  configured and the pod spec is serialized), \<^verbatim>\<open>createWorkflowPod\<close> fails and leaves the
  context as it was, so nothing is created, in each of three cases. When
  \<^verbatim>\<open>util.PodSpecPatchMerge\<close> cannot convert and merge the patch of the workflow and the patch
  of the template, the error wraps the cause with the message about the merge and the
  empty code. When the merged patch, after its variables are substituted, does not decode
  to a pod spec, the error is made by \<^verbatim>\<open>fmt.Errorf\<close> and has that text and the cause in it.
  When the strategic merge fails, the error wraps the cause with a message and the empty
  code. None of the three errors carries the bad-request code, whatever the cause is.
\<close>

theorem pod_spec_patch_errors:
  assumes "snd (podExists woc (woc_NodeID woc nodeName)) = (False, None)"
    and "woc_ShouldExecute woc (onExitPod opts)"
    and "substitutedPod woc nodeName mainCtrs tmpl opts = Next (pod2, t2)"
    and "hasPodSpecPatch woc t2"
    and "x_jsonMarshalPodSpec (woc_x woc) (pod_Spec pod2) = Inr jsonstr"
  shows "(x_PodSpecPatchMerge (woc_x woc) t2 = Inl err \<longrightarrow>
            createWorkflowPod woc nodeName mainCtrs tmpl opts =
              (Failed (ArgoWrap err CodeEmpty
                 ''Failed to merge the workflow PodSpecPatch with the template PodSpecPatch due to invalid format''),
               woc))
       \<and> (x_PodSpecPatchMerge (woc_x woc) t2 = Inr merged
            \<and> x_ProcessArgs (woc_x woc) (t2\<lparr>tmpl_PodSpecPatch := merged\<rparr>) (woc_globalParams woc)
                 (if IsPodType (t2\<lparr>tmpl_PodSpecPatch := merged\<rparr>)
                  then [LocalVarPodName \<mapsto> pod_Name pod2] else Map.empty) = Inr t \<longrightarrow>
            (x_jsonUnmarshalPodSpec (woc_x woc) (tmpl_PodSpecPatch t) = Inl err \<longrightarrow>
               createWorkflowPod woc nodeName mainCtrs tmpl opts =
                 (Failed (FmtWrap ''invalid podSpecPatch %q: %w'' [tmpl_PodSpecPatch t] err), woc))
          \<and> (x_jsonUnmarshalPodSpec (woc_x woc) (tmpl_PodSpecPatch t) = Inr spec
               \<and> x_StrategicMergePatch (woc_x woc) jsonstr (tmpl_PodSpecPatch t) = Inl err \<longrightarrow>
               createWorkflowPod woc nodeName mainCtrs tmpl opts =
                 (Failed (ArgoWrap err CodeEmpty ''Error occurred during strategic merge patch''), woc)))
       \<and> \<not> IsCode CodeBadRequest (ArgoWrap err CodeEmpty
                 ''Failed to merge the workflow PodSpecPatch with the template PodSpecPatch due to invalid format'')
       \<and> \<not> IsCode CodeBadRequest (FmtWrap ''invalid podSpecPatch %q: %w'' [tmpl_PodSpecPatch t] err)
       \<and> \<not> IsCode CodeBadRequest (ArgoWrap err CodeEmpty ''Error occurred during strategic merge patch'')"
proof -
  have r: "\<And>e. applyPodSpecPatch woc pod2 t2 = Stop (Failed e) \<Longrightarrow>
             createWorkflowPod woc nodeName mainCtrs tmpl opts = (Failed e, woc)"
  proof -
    fix e
    assume "applyPodSpecPatch woc pod2 t2 = Stop (Failed e)"
    then have "buildPod woc nodeName mainCtrs tmpl opts = Stop (Failed e)"
      by (simp add: buildPod_def patchedPod_def assms(3))
    with assms(1,2) show "createWorkflowPod woc nodeName mainCtrs tmpl opts = (Failed e, woc)"
      by (cases "podExists woc (woc_NodeID woc nodeName)") (auto simp: createWorkflowPod_def)
  qed
  show ?thesis
  proof (intro conjI impI)
    assume "x_PodSpecPatchMerge (woc_x woc) t2 = Inl err"
    then show "createWorkflowPod woc nodeName mainCtrs tmpl opts =
              (Failed (ArgoWrap err CodeEmpty
                 ''Failed to merge the workflow PodSpecPatch with the template PodSpecPatch due to invalid format''),
               woc)"
      using assms(4,5) by (intro r) (simp add: applyPodSpecPatch_def)
  next
    assume m: "x_PodSpecPatchMerge (woc_x woc) t2 = Inr merged
            \<and> x_ProcessArgs (woc_x woc) (t2\<lparr>tmpl_PodSpecPatch := merged\<rparr>) (woc_globalParams woc)
                 (if IsPodType (t2\<lparr>tmpl_PodSpecPatch := merged\<rparr>)
                  then [LocalVarPodName \<mapsto> pod_Name pod2] else Map.empty) = Inr t"
      and u: "x_jsonUnmarshalPodSpec (woc_x woc) (tmpl_PodSpecPatch t) = Inl err"
    then show "createWorkflowPod woc nodeName mainCtrs tmpl opts =
                 (Failed (FmtWrap ''invalid podSpecPatch %q: %w'' [tmpl_PodSpecPatch t] err), woc)"
      using assms(4,5) by (intro r) (simp add: applyPodSpecPatch_def Let_def)
  next
    assume m: "x_PodSpecPatchMerge (woc_x woc) t2 = Inr merged
            \<and> x_ProcessArgs (woc_x woc) (t2\<lparr>tmpl_PodSpecPatch := merged\<rparr>) (woc_globalParams woc)
                 (if IsPodType (t2\<lparr>tmpl_PodSpecPatch := merged\<rparr>)
                  then [LocalVarPodName \<mapsto> pod_Name pod2] else Map.empty) = Inr t"
      and u: "x_jsonUnmarshalPodSpec (woc_x woc) (tmpl_PodSpecPatch t) = Inr spec
               \<and> x_StrategicMergePatch (woc_x woc) jsonstr (tmpl_PodSpecPatch t) = Inl err"
    then show "createWorkflowPod woc nodeName mainCtrs tmpl opts =
                 (Failed (ArgoWrap err CodeEmpty ''Error occurred during strategic merge patch''), woc)"
      using assms(4,5) by (intro r) (simp add: applyPodSpecPatch_def Let_def)
  qed simp_all
qed

text \<open>
  The three patch texts on a container template: the text that breaks off fails in the
  merge of the patches, the object whose containers are a number fails to decode, the
  object whose container has no name fails in the strategic merge. The context comes back
  as it was each time.
\<close>

theorem pod_spec_patch_errors_witness:
  "createWorkflowPod
      (roundTrip (plainWoc ContainerRuntimeExecutorDocker) ''n'' [mainContainer]
         (patchTemplate malformedPatch) plainOpts)
      ''n'' [mainContainer] (patchTemplate malformedPatch) plainOpts
     = (Failed (ArgoWrap (External ''yaml: did not find expected node content'') CodeEmpty
          ''Failed to merge the workflow PodSpecPatch with the template PodSpecPatch due to invalid format''),
        roundTrip (plainWoc ContainerRuntimeExecutorDocker) ''n'' [mainContainer]
          (patchTemplate malformedPatch) plainOpts)
   \<and> createWorkflowPod
        (roundTrip (plainWoc ContainerRuntimeExecutorDocker) ''n'' [mainContainer]
           (patchTemplate schemaPatch) plainOpts)
        ''n'' [mainContainer] (patchTemplate schemaPatch) plainOpts
     = (Failed (FmtWrap ''invalid podSpecPatch %q: %w'' [schemaPatch]
          (External ''json: cannot unmarshal number into Go struct field PodSpec.containers'')),
        roundTrip (plainWoc ContainerRuntimeExecutorDocker) ''n'' [mainContainer]
          (patchTemplate schemaPatch) plainOpts)
   \<and> createWorkflowPod
        (roundTrip (plainWoc ContainerRuntimeExecutorDocker) ''n'' [mainContainer]
           (patchTemplate keylessPatch) plainOpts)
        ''n'' [mainContainer] (patchTemplate keylessPatch) plainOpts
     = (Failed (ArgoWrap (External ''map: map[image:x] does not contain declared merge key: name'')
          CodeEmpty ''Error occurred during strategic merge patch''),
        roundTrip (plainWoc ContainerRuntimeExecutorDocker) ''n'' [mainContainer]
          (patchTemplate keylessPatch) plainOpts)"
proof (intro conjI)
  let ?t = "patchTemplate malformedPatch"
  let ?w = "roundTrip (plainWoc ContainerRuntimeExecutorDocker) ''n'' [mainContainer] ?t plainOpts"
  have c: "case substitutedPod ?w ''n'' [mainContainer] ?t plainOpts of
          Stop r \<Rightarrow> False
        | Next (pod2, t2) \<Rightarrow>
            hasPodSpecPatch ?w t2
            \<and> x_jsonMarshalPodSpec (woc_x ?w) (pod_Spec pod2) = Inr ''spec''
            \<and> x_PodSpecPatchMerge (woc_x ?w) t2
                = Inl (External ''yaml: did not find expected node content'')"
    by code_simp
  then obtain pod2 t2 where
    s: "substitutedPod ?w ''n'' [mainContainer] ?t plainOpts = Next (pod2, t2)"
    by (cases "substitutedPod ?w ''n'' [mainContainer] ?t plainOpts") auto
  from c have f: "hasPodSpecPatch ?w t2"
    "x_jsonMarshalPodSpec (woc_x ?w) (pod_Spec pod2) = Inr ''spec''"
    "x_PodSpecPatchMerge (woc_x ?w) t2 = Inl (External ''yaml: did not find expected node content'')"
    unfolding s by simp_all
  have x: "snd (podExists ?w (woc_NodeID ?w ''n'')) = (False, None)"
    "woc_ShouldExecute ?w (onExitPod plainOpts)"
    by code_simp+
  from pod_spec_patch_errors [OF x s f(1,2)] f(3)
  show "createWorkflowPod ?w ''n'' [mainContainer] ?t plainOpts
     = (Failed (ArgoWrap (External ''yaml: did not find expected node content'') CodeEmpty
          ''Failed to merge the workflow PodSpecPatch with the template PodSpecPatch due to invalid format''),
        ?w)"
    by blast
next
  let ?t = "patchTemplate schemaPatch"
  let ?w = "roundTrip (plainWoc ContainerRuntimeExecutorDocker) ''n'' [mainContainer] ?t plainOpts"
  let ?e = "External ''json: cannot unmarshal number into Go struct field PodSpec.containers''"
  have c: "case substitutedPod ?w ''n'' [mainContainer] ?t plainOpts of
          Stop r \<Rightarrow> False
        | Next (pod2, t2) \<Rightarrow>
            hasPodSpecPatch ?w t2
            \<and> x_jsonMarshalPodSpec (woc_x ?w) (pod_Spec pod2) = Inr ''spec''
            \<and> x_PodSpecPatchMerge (woc_x ?w) t2 = Inr schemaPatch
            \<and> x_ProcessArgs (woc_x ?w) (t2\<lparr>tmpl_PodSpecPatch := schemaPatch\<rparr>)
                 (woc_globalParams ?w)
                 (if IsPodType (t2\<lparr>tmpl_PodSpecPatch := schemaPatch\<rparr>)
                  then [LocalVarPodName \<mapsto> pod_Name pod2] else Map.empty)
                = Inr (t2\<lparr>tmpl_PodSpecPatch := schemaPatch\<rparr>)
            \<and> x_jsonUnmarshalPodSpec (woc_x ?w) schemaPatch = Inl ?e"
    by code_simp
  then obtain pod2 t2 where
    s: "substitutedPod ?w ''n'' [mainContainer] ?t plainOpts = Next (pod2, t2)"
    by (cases "substitutedPod ?w ''n'' [mainContainer] ?t plainOpts") auto
  from c have f: "hasPodSpecPatch ?w t2"
    "x_jsonMarshalPodSpec (woc_x ?w) (pod_Spec pod2) = Inr ''spec''"
    "x_PodSpecPatchMerge (woc_x ?w) t2 = Inr schemaPatch"
    "x_ProcessArgs (woc_x ?w) (t2\<lparr>tmpl_PodSpecPatch := schemaPatch\<rparr>)
                 (woc_globalParams ?w)
                 (if IsPodType (t2\<lparr>tmpl_PodSpecPatch := schemaPatch\<rparr>)
                  then [LocalVarPodName \<mapsto> pod_Name pod2] else Map.empty)
                = Inr (t2\<lparr>tmpl_PodSpecPatch := schemaPatch\<rparr>)"
    "x_jsonUnmarshalPodSpec (woc_x ?w) schemaPatch = Inl ?e"
    unfolding s by simp_all
  have x: "snd (podExists ?w (woc_NodeID ?w ''n'')) = (False, None)"
    "woc_ShouldExecute ?w (onExitPod plainOpts)"
    by code_simp+
  from pod_spec_patch_errors [OF x s f(1,2), where merged = schemaPatch
      and t = "t2\<lparr>tmpl_PodSpecPatch := schemaPatch\<rparr>" and err = ?e]
    f(3,4,5)
  show "createWorkflowPod ?w ''n'' [mainContainer] ?t plainOpts
     = (Failed (FmtWrap ''invalid podSpecPatch %q: %w'' [schemaPatch] ?e), ?w)"
    by simp
next
  let ?t = "patchTemplate keylessPatch"
  let ?w = "roundTrip (plainWoc ContainerRuntimeExecutorDocker) ''n'' [mainContainer] ?t plainOpts"
  let ?e = "External ''map: map[image:x] does not contain declared merge key: name''"
  have c: "case substitutedPod ?w ''n'' [mainContainer] ?t plainOpts of
          Stop r \<Rightarrow> False
        | Next (pod2, t2) \<Rightarrow>
            hasPodSpecPatch ?w t2
            \<and> x_jsonMarshalPodSpec (woc_x ?w) (pod_Spec pod2) = Inr ''spec''
            \<and> x_PodSpecPatchMerge (woc_x ?w) t2 = Inr keylessPatch
            \<and> x_ProcessArgs (woc_x ?w) (t2\<lparr>tmpl_PodSpecPatch := keylessPatch\<rparr>)
                 (woc_globalParams ?w)
                 (if IsPodType (t2\<lparr>tmpl_PodSpecPatch := keylessPatch\<rparr>)
                  then [LocalVarPodName \<mapsto> pod_Name pod2] else Map.empty)
                = Inr (t2\<lparr>tmpl_PodSpecPatch := keylessPatch\<rparr>)
            \<and> x_jsonUnmarshalPodSpec (woc_x ?w) keylessPatch = Inr keylessSpec
            \<and> x_StrategicMergePatch (woc_x ?w) ''spec'' keylessPatch = Inl ?e"
    by code_simp
  then obtain pod2 t2 where
    s: "substitutedPod ?w ''n'' [mainContainer] ?t plainOpts = Next (pod2, t2)"
    by (cases "substitutedPod ?w ''n'' [mainContainer] ?t plainOpts") auto
  from c have f: "hasPodSpecPatch ?w t2"
    "x_jsonMarshalPodSpec (woc_x ?w) (pod_Spec pod2) = Inr ''spec''"
    "x_PodSpecPatchMerge (woc_x ?w) t2 = Inr keylessPatch"
    "x_ProcessArgs (woc_x ?w) (t2\<lparr>tmpl_PodSpecPatch := keylessPatch\<rparr>)
                 (woc_globalParams ?w)
                 (if IsPodType (t2\<lparr>tmpl_PodSpecPatch := keylessPatch\<rparr>)
                  then [LocalVarPodName \<mapsto> pod_Name pod2] else Map.empty)
                = Inr (t2\<lparr>tmpl_PodSpecPatch := keylessPatch\<rparr>)"
    "x_jsonUnmarshalPodSpec (woc_x ?w) keylessPatch = Inr keylessSpec"
    "x_StrategicMergePatch (woc_x ?w) ''spec'' keylessPatch = Inl ?e"
    unfolding s by simp_all
  have x: "snd (podExists ?w (woc_NodeID ?w ''n'')) = (False, None)"
    "woc_ShouldExecute ?w (onExitPod plainOpts)"
    by code_simp+
  from pod_spec_patch_errors [OF x s f(1,2), where merged = keylessPatch
      and t = "t2\<lparr>tmpl_PodSpecPatch := keylessPatch\<rparr>" and err = ?e and spec = keylessSpec]
    f(3,4,5,6)
  show "createWorkflowPod ?w ''n'' [mainContainer] ?t plainOpts
     = (Failed (ArgoWrap ?e CodeEmpty ''Error occurred during strategic merge patch''), ?w)"
    by simp
qed

text \<open>
  A patch that is a JSON object and no pod spec, and a patch text that breaks off in the
  middle: the call fails, neither error is a bad-request error, and no pod is created.
\<close>

theorem pod_spec_patch_errors_counterexample:
  "fst (createWorkflowPod
      (roundTrip (plainWoc ContainerRuntimeExecutorDocker) ''n'' [mainContainer]
         (patchTemplate schemaPatch) plainOpts)
      ''n'' [mainContainer] (patchTemplate schemaPatch) plainOpts)
     = Failed (FmtWrap ''invalid podSpecPatch %q: %w'' [schemaPatch]
         (External ''json: cannot unmarshal number into Go struct field PodSpec.containers''))
   \<and> \<not> IsCode CodeBadRequest
         (FmtWrap ''invalid podSpecPatch %q: %w'' [schemaPatch]
            (External ''json: cannot unmarshal number into Go struct field PodSpec.containers''))
   \<and> woc_createCalls (snd (createWorkflowPod
        (roundTrip (plainWoc ContainerRuntimeExecutorDocker) ''n'' [mainContainer]
           (patchTemplate schemaPatch) plainOpts)
        ''n'' [mainContainer] (patchTemplate schemaPatch) plainOpts)) = []
   \<and> fst (createWorkflowPod
      (roundTrip (plainWoc ContainerRuntimeExecutorDocker) ''n'' [mainContainer]
         (patchTemplate malformedPatch) plainOpts)
      ''n'' [mainContainer] (patchTemplate malformedPatch) plainOpts)
     = Failed (ArgoWrap (External ''yaml: did not find expected node content'') CodeEmpty
         ''Failed to merge the workflow PodSpecPatch with the template PodSpecPatch due to invalid format'')
   \<and> \<not> IsCode CodeBadRequest
         (ArgoWrap (External ''yaml: did not find expected node content'') CodeEmpty
            ''Failed to merge the workflow PodSpecPatch with the template PodSpecPatch due to invalid format'')"
  by code_simp

subsection \<open>C10: the main container of a script template\<close>

text \<open>
  C10. When at least one main container is given, \<^verbatim>\<open>createWorkflowPod\<close> never stops with
  the panic of \<^verbatim>\<open>addScriptStagingVolume\<close> about a main container that cannot be located;
  and the assembled descriptor of a script template has a container with the canonical
  main name.
\<close>

theorem main_container_panic_unreachable:
  assumes "mainCtrs \<noteq> []"
  shows "fst (createWorkflowPod woc nodeName mainCtrs tmpl opts)
           \<noteq> Panicked ''Unable to locate main container''
       \<and> (GetType tmpl = TemplateTypeScript \<longrightarrow>
            (\<forall>pod t. assemblePod woc nodeName mainCtrs tmpl opts = Next (pod, t) \<longrightarrow>
               MainContainerName \<in> set (map c_Name (ps_Containers (pod_Spec pod)))))"
proof (intro conjI impI allI)
  show "fst (createWorkflowPod woc nodeName mainCtrs tmpl opts)
           \<noteq> Panicked ''Unable to locate main container''"
  proof (cases "buildPod woc nodeName mainCtrs tmpl opts")
    case (Stop r)
    with buildPod_panic [of woc nodeName mainCtrs tmpl opts] assms
    have "r \<noteq> Panicked ''Unable to locate main container''" by auto
    with Stop show ?thesis
      by (auto simp: createWorkflowPod_def split: prod.splits option.splits)
  next
    case (Next pod)
    with submitPod_panic [of woc pod] show ?thesis
      by (auto simp: createWorkflowPod_def split: prod.splits option.splits)
  qed
next
  fix pod t
  assume ty: "GetType tmpl = TemplateTypeScript"
    and a: "assemblePod woc nodeName mainCtrs tmpl opts = Next (pod, t)"
  from assms obtain m ms where "mainCtrs = m # ms" by (cases mainCtrs) auto
  with assemblePod_containers [OF a] ty
  show "MainContainerName \<in> set (map c_Name (ps_Containers (pod_Spec pod)))"
    by simp
qed

text \<open>
  A script template with one main container: the pod is created, and it has the staging
  volume.
\<close>

theorem main_container_panic_unreachable_witness:
  "[mainContainer] \<noteq> []
   \<and> fst (createWorkflowPod
        (roundTrip (plainWoc ContainerRuntimeExecutorDocker) ''n'' [mainContainer] scriptTemplate plainOpts)
        ''n'' [mainContainer] scriptTemplate plainOpts)
       \<noteq> Panicked ''Unable to locate main container''
   \<and> map (map v_Name \<circ> ps_Volumes \<circ> pod_Spec)
        (woc_createCalls (snd (createWorkflowPod
          (roundTrip (plainWoc ContainerRuntimeExecutorDocker) ''n'' [mainContainer] scriptTemplate plainOpts)
          ''n'' [mainContainer] scriptTemplate plainOpts)))
       = [[''var-run-argo'', ''docker-sock'', ''argo-staging'']]"
proof -
  have 1: "[mainContainer] \<noteq> []" by simp
  have 2: "map (map v_Name \<circ> ps_Volumes \<circ> pod_Spec)
        (woc_createCalls (snd (createWorkflowPod
          (roundTrip (plainWoc ContainerRuntimeExecutorDocker) ''n'' [mainContainer] scriptTemplate plainOpts)
          ''n'' [mainContainer] scriptTemplate plainOpts)))
       = [[''var-run-argo'', ''docker-sock'', ''argo-staging'']]"
    by code_simp
  from main_container_panic_unreachable [OF 1] 1 2 show ?thesis by blast
qed

end
